theory Spec2Isabelle
  imports Main
begin

section \<open>Strings, dates and the Levenshtein distance\<close>

text \<open>
  A JavaScript string is a sequence of UTF-16 code units; a code unit is modelled as a
  natural number. \<open>str\<close> turns an ASCII literal into such a sequence.
  \<open>String.prototype.toLowerCase\<close> follows the Unicode case tables of the host, which are
  not part of the repository: every function that lowercases takes it as its first
  argument \<open>toLowerCase\<close>, and every theorem holds for any such function.
\<close>

type_synonym jsstring = "nat list"

definition str :: "string \<Rightarrow> jsstring" where
  "str s = map of_char s"

text \<open>The ASCII part of \<open>toLowerCase\<close>, used to evaluate the functions on examples.\<close>

definition asciiLower :: "jsstring \<Rightarrow> jsstring" where
  "asciiLower s = map (\<lambda>c. if 65 \<le> c \<and> c \<le> 90 then c + 32 else c) s"

text \<open>
  The code units matched by the regular expression \<open>\s\<close> and stripped by \<open>trim()\<close>:
  the ECMAScript WhiteSpace and LineTerminator code points (all in the basic plane).
\<close>

definition isWhiteSpace :: "nat \<Rightarrow> bool" where
  "isWhiteSpace c \<longleftrightarrow>
     c = 9 \<or> c = 10 \<or> c = 11 \<or> c = 12 \<or> c = 13 \<or> c = 32 \<or> c = 160 \<or> c = 5760 \<or>
     (8192 \<le> c \<and> c \<le> 8202) \<or> c = 8232 \<or> c = 8233 \<or> c = 8239 \<or> c = 8287 \<or>
     c = 12288 \<or> c = 65279"

text \<open>\<open>s.replace(/\s/g, "")\<close>\<close>

definition removeWhitespace :: "jsstring \<Rightarrow> jsstring" where
  "removeWhitespace s = filter (\<lambda>c. \<not> isWhiteSpace c) s"

text \<open>\<open>s.trim()\<close>\<close>

definition trim :: "jsstring \<Rightarrow> jsstring" where
  "trim s = rev (dropWhile isWhiteSpace (rev (dropWhile isWhiteSpace s)))"

text \<open>
  \<open>distance\<close> of the package fastest-levenshtein: the Levenshtein distance of two strings,
  counted in code units.
\<close>

fun distance :: "jsstring \<Rightarrow> jsstring \<Rightarrow> nat" where
  "distance [] ys = length ys"
| "distance (x # xs) [] = Suc (length xs)"
| "distance (x # xs) (y # ys) =
     min (min (Suc (distance xs (y # ys))) (Suc (distance (x # xs) ys)))
         (distance xs ys + (if x = y then 0 else 1))"

text \<open>
  A \<open>Date\<close> object is either the Invalid Date or a time value (milliseconds since the
  epoch) together with the calendar year and the month index that the host derives from
  it in local time. \<open>getFullYear()\<close> and \<open>getMonth()\<close> return NaN on the Invalid Date;
  a number that may be NaN is an \<open>int option\<close>, \<open>None\<close> standing for NaN. The products
  and sums below stay far inside the range where doubles are exact.
\<close>

datatype Date = InvalidDate | Date int int nat

fun getFullYear :: "Date \<Rightarrow> int option" where
  "getFullYear InvalidDate = None"
| "getFullYear (Date t y m) = Some y"

fun getMonth :: "Date \<Rightarrow> int option" where
  "getMonth InvalidDate = None"
| "getMonth (Date t y m) = Some (int m)"

text \<open>\<open>getMonth()\<close> of a valid date lies between 0 and 11.\<close>

fun validMonth :: "Date \<Rightarrow> bool" where
  "validMonth InvalidDate = True"
| "validMonth (Date t y m) = (m < 12)"

text \<open>\<open>d.getFullYear() * 12 + d.getMonth()\<close>\<close>

definition monthNumber :: "Date \<Rightarrow> int option" where
  "monthNumber d =
     (case (getFullYear d, getMonth d) of
        (Some y, Some m) \<Rightarrow> Some (y * 12 + m)
      | _ \<Rightarrow> None)"

text \<open>\<open>a === b\<close> on numbers: NaN equals nothing, itself included.\<close>

definition strictEquals :: "int option \<Rightarrow> int option \<Rightarrow> bool" where
  "strictEquals a b = (case (a, b) of (Some x, Some y) \<Rightarrow> x = y | _ \<Rightarrow> False)"

section \<open>Rows and parsed entries\<close>

text \<open>
  Identifiers (\<open>cuid()\<close> strings in the schema) are natural numbers. The three fields
  that \<open>doWorkHistoryRecordsMatch\<close> reads from an existing record form a record of their
  own, which the \<open>WorkHistory\<close> row extends, as the structural parameter type of the source
  accepts every object with these fields.
\<close>

record ExistingRecord =
  companyName :: jsstring
  startDate :: Date
  endDate :: "Date option"

record WorkExperience =
  company :: "jsstring option"
  exp_jobTitle :: "jsstring option"
  exp_startDate :: "Date option"
  exp_endDate :: "Date option"
  exp_achievements :: "jsstring list option"
  exp_skills :: "jsstring list option"

record WorkAchievementRecord =
  wa_id :: nat
  description :: jsstring
  createdAt :: Date

section \<open>doWorkHistoryRecordsMatch\<close>

text \<open>
  A \<open>Date\<close> object is truthy, so \<open>!newStart\<close> holds exactly when the start date is
  missing, and \<open>!existingEnd\<close>, \<open>!newEnd\<close> exactly when the end date is null or missing.
\<close>

definition doWorkHistoryRecordsMatch ::
  "(jsstring \<Rightarrow> jsstring) \<Rightarrow> 'a ExistingRecord_scheme \<Rightarrow> WorkExperience \<Rightarrow> bool" where
  "doWorkHistoryRecordsMatch toLowerCase existing newRecord =
     (let existingCompany = removeWhitespace (toLowerCase (companyName existing));
          newCompany = removeWhitespace
            (toLowerCase (case company newRecord of None \<Rightarrow> [] | Some c \<Rightarrow> c));
          nameDistance = distance existingCompany newCompany
      in if nameDistance > 5 then False
         else
           (case exp_startDate newRecord of
              None \<Rightarrow> False
            | Some newStart \<Rightarrow>
                if \<not> strictEquals (monthNumber (startDate existing)) (monthNumber newStart)
                then False
                else
                  (case (endDate existing, exp_endDate newRecord) of
                     (None, None) \<Rightarrow> True
                   | (None, Some newEnd) \<Rightarrow> False
                   | (Some existingEnd, None) \<Rightarrow> False
                   | (Some existingEnd, Some newEnd) \<Rightarrow>
                       strictEquals (monthNumber existingEnd) (monthNumber newEnd))))"

text \<open>
  The words of the specification: two dates fall in the same calendar month and year.
\<close>

fun sameMonthAndYear :: "Date \<Rightarrow> Date \<Rightarrow> bool" where
  "sameMonthAndYear (Date t1 y1 m1) (Date t2 y2 m2) = (y1 = y2 \<and> m1 = m2)"
| "sameMonthAndYear _ _ = False"

definition normalizedCompany :: "(jsstring \<Rightarrow> jsstring) \<Rightarrow> jsstring option \<Rightarrow> jsstring" where
  "normalizedCompany toLowerCase c =
     removeWhitespace (toLowerCase (case c of None \<Rightarrow> [] | Some s \<Rightarrow> s))"

definition validDates :: "'a ExistingRecord_scheme \<Rightarrow> WorkExperience \<Rightarrow> bool" where
  "validDates existing newRecord \<longleftrightarrow>
     validMonth (startDate existing) \<and>
     (case endDate existing of None \<Rightarrow> True | Some d \<Rightarrow> validMonth d) \<and>
     (case exp_startDate newRecord of None \<Rightarrow> True | Some d \<Rightarrow> validMonth d) \<and>
     (case exp_endDate newRecord of None \<Rightarrow> True | Some d \<Rightarrow> validMonth d)"

section \<open>removeExactDuplicateWorkAchievements\<close>

record 'a DuplicateRemoval =
  uniqueAchievements :: "'a WorkAchievementRecord_scheme list"
  exactDuplicatesRemoved :: nat

text \<open>
  The state of the \<open>for\<close> loop is the set \<open>seen\<close>, the list \<open>uniqueAchievements\<close> and the
  counter; \<open>dedupStep\<close> is one iteration.
\<close>

definition dedupStep ::
  "(jsstring \<Rightarrow> jsstring) \<Rightarrow>
   jsstring set \<times> 'a WorkAchievementRecord_scheme list \<times> nat \<Rightarrow>
   'a WorkAchievementRecord_scheme \<Rightarrow>
   jsstring set \<times> 'a WorkAchievementRecord_scheme list \<times> nat" where
  "dedupStep toLowerCase st achievement =
     (case st of (seen, unique, removed) \<Rightarrow>
        let normalizedDescription = toLowerCase (trim (description achievement))
        in if normalizedDescription \<notin> seen
           then (insert normalizedDescription seen, unique @ [achievement], removed)
           else (seen, unique, removed + 1))"

definition removeExactDuplicateWorkAchievements ::
  "(jsstring \<Rightarrow> jsstring) \<Rightarrow> 'a WorkAchievementRecord_scheme list \<Rightarrow> 'a DuplicateRemoval" where
  "removeExactDuplicateWorkAchievements toLowerCase achievements =
     (case foldl (dedupStep toLowerCase) ({}, [], 0) achievements of
        (seen, unique, removed) \<Rightarrow>
          \<lparr>uniqueAchievements = unique, exactDuplicatesRemoved = removed\<rparr>)"

text \<open>
  The words of the specification: the description an achievement is compared by, and the
  positions of the input whose normalized description occurs at no earlier position.
\<close>

definition normalizedDescriptionOf ::
  "(jsstring \<Rightarrow> jsstring) \<Rightarrow> 'a WorkAchievementRecord_scheme \<Rightarrow> jsstring" where
  "normalizedDescriptionOf toLowerCase a = toLowerCase (trim (description a))"

definition seenBefore ::
  "(jsstring \<Rightarrow> jsstring) \<Rightarrow> 'a WorkAchievementRecord_scheme list \<Rightarrow> nat \<Rightarrow> bool" where
  "seenBefore toLowerCase xs i \<longleftrightarrow>
     normalizedDescriptionOf toLowerCase (xs ! i)
       \<in> normalizedDescriptionOf toLowerCase ` set (take i xs)"

section \<open>mergeWorkAchievementsWithAI\<close>

text \<open>
  The value the structured-output call resolves to, as \<open>WorkAchievementMergeResultSchema\<close>
  types it. The source tests at run time that \<open>finalAchievements\<close> and every
  \<open>originalIndices\<close> are present, so both are optional here. Indices are numbers, taken
  here as integers.
\<close>

datatype MergeAction = merged | optimized

record FinalAchievement =
  fa_description :: jsstring
  originalIndices :: "int list option"
  action :: MergeAction

record WorkAchievementMergeResult =
  finalAchievements :: "FinalAchievement list option"
  reasoning :: "jsstring option"

text \<open>
  \<open>llm.invoke(prompt)\<close> is a call to a hosted LLM: it either rejects (network, quota,
  output that does not parse) or resolves to a value. The outcome is an argument of the
  functions below; the prompt, a string built from the descriptions, has no other effect.
\<close>

datatype LlmOutcome = LlmRejects | LlmResolves WorkAchievementMergeResult

datatype MergeError =
  LlmInvocationFailed
| InvalidResponseStructure
| MissingOriginalIndices
| UnaccountedAchievements "int list"

text \<open>The returned object: the final descriptions and the number of merged groups.\<close>

record MergeOutput =
  out_finalAchievements :: "jsstring list"
  groupsMerged :: nat

text \<open>
  The loop over \<open>aiResult.finalAchievements\<close> that fills the set \<open>allReferencedIndices\<close>
  and throws at the first achievement without indices.
\<close>

fun collectReferencedIndices ::
  "FinalAchievement list \<Rightarrow> int set \<Rightarrow> MergeError + int set" where
  "collectReferencedIndices [] allReferencedIndices = Inr allReferencedIndices"
| "collectReferencedIndices (achievement # rest) allReferencedIndices =
     (case originalIndices achievement of
        None \<Rightarrow> Inl MissingOriginalIndices
      | Some indices \<Rightarrow>
          if length indices = 0 then Inl MissingOriginalIndices
          else collectReferencedIndices rest (fold insert indices allReferencedIndices))"

text \<open>The body of the \<open>try\<close> block: \<open>Inl\<close> is an exception that reaches \<open>catch\<close>.\<close>

definition tryMerge ::
  "'a WorkAchievementRecord_scheme list \<Rightarrow> LlmOutcome \<Rightarrow> MergeError + MergeOutput" where
  "tryMerge achievements llm =
     (case llm of
        LlmRejects \<Rightarrow> Inl LlmInvocationFailed
      | LlmResolves aiResult \<Rightarrow>
          (case finalAchievements aiResult of
             None \<Rightarrow> Inl InvalidResponseStructure
           | Some final \<Rightarrow>
               (case collectReferencedIndices final {} of
                  Inl e \<Rightarrow> Inl e
                | Inr allReferencedIndices \<Rightarrow>
                    let expectedIndices = [1..int (length achievements)];
                        missingIndices =
                          filter (\<lambda>i. i \<notin> allReferencedIndices) expectedIndices
                    in if length missingIndices > 0
                       then Inl (UnaccountedAchievements missingIndices)
                       else Inr \<lparr>out_finalAchievements = map fa_description final,
                                 groupsMerged =
                                   nat (max 0 (int (length achievements) - int (length final)))\<rparr>)))"

definition mergeWorkAchievementsWithAI ::
  "'a WorkAchievementRecord_scheme list \<Rightarrow> LlmOutcome \<Rightarrow> MergeOutput" where
  "mergeWorkAchievementsWithAI achievements llm =
     (if length achievements \<le> 1
      then \<lparr>out_finalAchievements = map description achievements, groupsMerged = 0\<rparr>
      else
        (case tryMerge achievements llm of
           Inr result \<Rightarrow> result
         | Inl error \<Rightarrow>
             \<lparr>out_finalAchievements = map description achievements, groupsMerged = 0\<rparr>))"

text \<open>
  The words of the specification: every final achievement carries a non-empty
  \<open>originalIndices\<close> array, and every index from 1 to N appears in one of them.
\<close>

definition carriesIndices :: "FinalAchievement \<Rightarrow> bool" where
  "carriesIndices a = (case originalIndices a of None \<Rightarrow> False | Some indices \<Rightarrow> indices \<noteq> [])"

definition references :: "int \<Rightarrow> FinalAchievement \<Rightarrow> bool" where
  "references i a = (case originalIndices a of None \<Rightarrow> False | Some indices \<Rightarrow> i \<in> set indices)"

definition accountsForAll :: "nat \<Rightarrow> FinalAchievement list \<Rightarrow> bool" where
  "accountsForAll n final \<longleftrightarrow>
     list_all carriesIndices final \<and>
     list_all (\<lambda>i. list_ex (references i) final) [1..int n]"

text \<open>A text appears in a description: \<open>description.includes(text)\<close>.\<close>

fun startsWith :: "jsstring \<Rightarrow> jsstring \<Rightarrow> bool" where
  "startsWith s [] = True"
| "startsWith [] (c # cs) = False"
| "startsWith (d # ds) (c # cs) = (d = c \<and> startsWith ds cs)"

fun includesText :: "jsstring \<Rightarrow> jsstring \<Rightarrow> bool" where
  "includesText [] t = (t = [])"
| "includesText (d # ds) t = (startsWith (d # ds) t \<or> includesText ds t)"

section \<open>The database and the world around a call\<close>

text \<open>
  The three tables of the Prisma schema that the work-history module writes. A table is
  the list of its rows in insertion order. Columns that no function of the module reads
  or sets explicitly (\<open>updatedAt\<close>, \<open>yearsExperience\<close>, \<open>isVerified\<close>, and \<open>createdAt\<close>
  outside \<open>WorkAchievement\<close>) are left out, as are the foreign-key and uniqueness checks,
  which no call of the module can violate.
\<close>

datatype ProficiencyLevel = BEGINNER | INTERMEDIATE | ADVANCED | EXPERT

datatype SkillSource =
  WORK_EXPERIENCE | EDUCATION | CERTIFICATION | PERSONAL_PROJECT | TRAINING | OTHER

record WorkHistory = ExistingRecord +
  wh_id :: nat
  wh_userId :: nat
  jobTitle :: jsstring

record WorkAchievement = WorkAchievementRecord +
  wa_workHistoryId :: nat

record UserSkill =
  us_id :: nat
  us_userId :: nat
  skillId :: nat
  proficiency :: ProficiencyLevel
  source :: SkillSource
  us_notes :: "jsstring option"
  us_workHistoryId :: "nat option"

record Database =
  workHistoryTable :: "WorkHistory list"
  workAchievementTable :: "WorkAchievement list"
  userSkillTable :: "UserSkill list"

text \<open>
  What a call can observe and change: the database; the number of requests sent to it so
  far and the set of request numbers that fail (a lost connection, a timeout, a constraint
  of a table left out here), so that any request may raise; what the database makes of a
  \<open>Date\<close> written to a \<open>DateTime\<close> column; the supply of fresh \<open>cuid()\<close> identifiers;
  the current time; the trace of the stages a workflow went through (matching, the two
  external services, writes by table); and the number of calls of \<open>llm.invoke\<close>.

  A \<open>Date\<close> written to a column is refused (as the Invalid Date is) or stored, and the
  \<open>Date\<close> object that a read hands back need not be the one written: PostgreSQL has no
  year 0, and a year beyond 9999 comes back as the Invalid Date. The outcome depends on
  the time zones and versions at hand, so \<open>dateColumn\<close> is left open: \<open>Inl\<close> is a refusal,
  \<open>Inr\<close> the date read back.
\<close>

datatype Table = WorkHistoryRows | WorkAchievementRows | UserSkillRows

datatype Event = Matched | AchievementsMerged | SkillsNormalized | Written Table

datatype Failure =
  RequestFailed
| RecordNotFound
| InvalidDateValue
| TextRefused
| ServiceFailed
| WorkHistoryNotFound
| RecordsNotFound
| PrimaryRecordNotFound

record World =
  database :: Database
  requestsIssued :: nat
  failing :: "nat \<Rightarrow> bool"
  dateColumn :: "Date \<Rightarrow> Failure + Date"
  nextCuid :: nat
  now :: Date
  events :: "Event list"
  llmInvocations :: nat

text \<open>
  An asynchronous computation takes the world and returns the changed world with either
  the value it resolves to or the exception it rejects with.
\<close>

type_synonym 'a io = "World \<Rightarrow> (Failure + 'a) \<times> World"

definition succeed :: "'a \<Rightarrow> 'a io" where
  "succeed v w = (Inr v, w)"

definition throw :: "Failure \<Rightarrow> 'a io" where
  "throw e w = (Inl e, w)"

text \<open>\<open>const v = await m; ...\<close>: an exception of \<open>m\<close> skips the rest.\<close>

definition andThen :: "'a io \<Rightarrow> ('a \<Rightarrow> 'b io) \<Rightarrow> 'b io" where
  "andThen m f w = (case m w of (Inl e, w') \<Rightarrow> (Inl e, w') | (Inr v, w') \<Rightarrow> f v w')"

text \<open>\<open>for (const x of xs) { await f(x) }\<close>\<close>

fun forEach :: "'a list \<Rightarrow> ('a \<Rightarrow> unit io) \<Rightarrow> unit io" where
  "forEach [] f = succeed ()"
| "forEach (x # xs) f = andThen (f x) (\<lambda>_. forEach xs f)"

definition emit :: "Event \<Rightarrow> unit io" where
  "emit e w = (Inr (), w\<lparr>events := events w @ [e]\<rparr>)"

definition modifyDatabase :: "(Database \<Rightarrow> Database) \<Rightarrow> unit io" where
  "modifyDatabase f w = (Inr (), w\<lparr>database := f (database w)\<rparr>)"

definition freshCuid :: "nat io" where
  "freshCuid w = (Inr (nextCuid w), w\<lparr>nextCuid := Suc (nextCuid w)\<rparr>)"

text \<open>One round trip to the database: it is counted, and fails if its number is marked.\<close>

definition request :: "'a io \<Rightarrow> 'a io" where
  "request operation w =
     (let k = requestsIssued w; w1 = w\<lparr>requestsIssued := Suc k\<rparr>
      in if failing w k then (Inl RequestFailed, w1) else operation w1)"

definition readRequest :: "(Database \<Rightarrow> 'a) \<Rightarrow> 'a io" where
  "readRequest query = request (\<lambda>w. (Inr (query (database w)), w))"

definition writeRequest :: "Table \<Rightarrow> 'a io \<Rightarrow> 'a io" where
  "writeRequest table operation = andThen (emit (Written table)) (\<lambda>_. request operation)"

text \<open>
  \<open>db.$transaction(async (tx) => body)\<close>: the body runs, then the commit, itself a
  request; if either raises, the database is as it was before the transaction and the
  exception is passed on. Every write inside the three transactions of the module goes
  through \<open>tx\<close>, so all of them belong to the body.
\<close>

definition transaction :: "'a io \<Rightarrow> 'a io" where
  "transaction body w =
     (case andThen body (\<lambda>v. andThen (request (succeed ())) (\<lambda>_. succeed v)) w of
        (Inl e, w') \<Rightarrow> (Inl e, w'\<lparr>database := database w\<rparr>)
      | (Inr v, w') \<Rightarrow> (Inr v, w'))"

subsection \<open>The Prisma operations the module calls\<close>

text \<open>\<open>workHistory.findFirst({ where })\<close>\<close>

definition workHistory_findFirst :: "(WorkHistory \<Rightarrow> bool) \<Rightarrow> WorkHistory option io" where
  "workHistory_findFirst wher = readRequest (\<lambda>db. find wher (workHistoryTable db))"

text \<open>
  \<open>workAchievement.findMany({ where, orderBy: { createdAt: "asc" } })\<close>; rows with equal
  \<open>createdAt\<close> come in insertion order. \<open>createdAt\<close> is set by the database and is never
  the Invalid Date.
\<close>

definition createdAtTime :: "'a WorkAchievementRecord_scheme \<Rightarrow> int" where
  "createdAtTime a = (case createdAt a of Date t y m \<Rightarrow> t | InvalidDate \<Rightarrow> 0)"

definition workAchievement_findMany ::
  "(WorkAchievement \<Rightarrow> bool) \<Rightarrow> WorkAchievement list io" where
  "workAchievement_findMany wher =
     readRequest (\<lambda>db. sort_key createdAtTime (filter wher (workAchievementTable db)))"

text \<open>\<open>workAchievement.deleteMany({ where })\<close>\<close>

definition workAchievement_deleteMany :: "(WorkAchievement \<Rightarrow> bool) \<Rightarrow> unit io" where
  "workAchievement_deleteMany wher =
     writeRequest WorkAchievementRows
       (modifyDatabase (\<lambda>db. db\<lparr>workAchievementTable :=
          filter (\<lambda>a. \<not> wher a) (workAchievementTable db)\<rparr>))"

text \<open>
  A string written to a text column travels as UTF-8 and is kept by PostgreSQL: a
  surrogate code unit without its partner becomes U+FFFD on the way, and a string with
  the code unit 0 is refused. \<open>toWellFormed\<close> is \<open>String.prototype.toWellFormed\<close>.
\<close>

definition isHighSurrogate :: "nat \<Rightarrow> bool" where
  "isHighSurrogate c \<longleftrightarrow> 55296 \<le> c \<and> c \<le> 56319"

definition isLowSurrogate :: "nat \<Rightarrow> bool" where
  "isLowSurrogate c \<longleftrightarrow> 56320 \<le> c \<and> c \<le> 57343"

fun toWellFormed :: "jsstring \<Rightarrow> jsstring" where
  "toWellFormed [] = []"
| "toWellFormed [c] = [if isHighSurrogate c \<or> isLowSurrogate c then 65533 else c]"
| "toWellFormed (c # d # cs) =
     (if isHighSurrogate c \<and> isLowSurrogate d then c # d # toWellFormed cs
      else (if isHighSurrogate c \<or> isLowSurrogate c then 65533 else c) #
           toWellFormed (d # cs))"

definition hasNul :: "jsstring \<Rightarrow> bool" where
  "hasNul s \<longleftrightarrow> 0 \<in> set s"

definition storedText :: "jsstring \<Rightarrow> Failure + jsstring" where
  "storedText s = (if hasNul s then Inl TextRefused else Inr (toWellFormed s))"

text \<open>
  \<open>String.prototype.isWellFormed\<close>: no surrogate code unit stands without its partner.
\<close>

fun isWellFormed :: "jsstring \<Rightarrow> bool" where
  "isWellFormed [] = True"
| "isWellFormed [c] = (\<not> isHighSurrogate c \<and> \<not> isLowSurrogate c)"
| "isWellFormed (c # d # cs) =
     (if isHighSurrogate c \<and> isLowSurrogate d then isWellFormed cs
      else \<not> isHighSurrogate c \<and> \<not> isLowSurrogate c \<and> isWellFormed (d # cs))"

text \<open>The values of a statement are converted before any row is written.\<close>

fun storedTexts :: "jsstring list \<Rightarrow> Failure + jsstring list" where
  "storedTexts [] = Inr []"
| "storedTexts (s # ss) =
     (case storedText s of
        Inl e \<Rightarrow> Inl e
      | Inr t \<Rightarrow> (case storedTexts ss of Inl e \<Rightarrow> Inl e | Inr ts \<Rightarrow> Inr (t # ts)))"

definition storedOptional :: "('a \<Rightarrow> Failure + 'a) \<Rightarrow> 'a option \<Rightarrow> Failure + 'a option" where
  "storedOptional store v =
     (case v of
        None \<Rightarrow> Inr None
      | Some x \<Rightarrow> (case store x of Inl e \<Rightarrow> Inl e | Inr y \<Rightarrow> Inr (Some y)))"

text \<open>
  A new \<open>WorkAchievement\<close> row, its description already converted: \<open>id\<close> defaults to
  \<open>cuid()\<close>, \<open>createdAt\<close> to \<open>now()\<close>.
\<close>

definition insertWorkAchievement :: "jsstring \<times> nat \<Rightarrow> unit io" where
  "insertWorkAchievement datum =
     andThen freshCuid (\<lambda>newId w.
       modifyDatabase (\<lambda>db. db\<lparr>workAchievementTable := workAchievementTable db @
         [\<lparr>wa_id = newId, description = fst datum, createdAt = now w,
           wa_workHistoryId = snd datum\<rparr>]\<rparr>) w)"

text \<open>\<open>workAchievement.create({ data })\<close> and \<open>workAchievement.createMany({ data })\<close>\<close>

definition workAchievement_create :: "jsstring \<times> nat \<Rightarrow> unit io" where
  "workAchievement_create datum =
     writeRequest WorkAchievementRows
       (case storedText (fst datum) of
          Inl e \<Rightarrow> throw e
        | Inr stored \<Rightarrow> insertWorkAchievement (stored, snd datum))"

definition workAchievement_createMany :: "(jsstring \<times> nat) list \<Rightarrow> unit io" where
  "workAchievement_createMany data =
     writeRequest WorkAchievementRows
       (case storedTexts (map fst data) of
          Inl e \<Rightarrow> throw e
        | Inr stored \<Rightarrow> forEach (zip stored (map snd data)) insertWorkAchievement)"

section \<open>applyApprovedWorkAchievements\<close>

record ApplyResult =
  ap_success :: bool
  ap_message :: nat
  appliedCount :: nat

text \<open>
  The message of the result is the template
  \<open>Successfully applied ${approvedAchievements.length} approved achievements.\<close>;
  \<open>ap_message\<close> is its argument.
\<close>

definition applyApprovedWorkAchievements ::
  "nat \<Rightarrow> nat \<Rightarrow> jsstring list \<Rightarrow> ApplyResult io" where
  "applyApprovedWorkAchievements userId workHistoryId approvedAchievements =
     andThen (workHistory_findFirst (\<lambda>wh. wh_id wh = workHistoryId \<and> wh_userId wh = userId))
       (\<lambda>workHistory.
          case workHistory of
            None \<Rightarrow> throw WorkHistoryNotFound
          | Some found \<Rightarrow>
              andThen
                (transaction
                   (andThen
                      (workAchievement_deleteMany (\<lambda>a. wa_workHistoryId a = workHistoryId))
                      (\<lambda>_. workAchievement_createMany
                         (map (\<lambda>description. (description, workHistoryId))
                            approvedAchievements))))
                (\<lambda>_. succeed
                   \<lparr>ap_success = True,
                    ap_message = length approvedAchievements,
                    appliedCount = length approvedAchievements\<rparr>))"

text \<open>The stored achievements of a work history, and the rows a list of descriptions becomes.\<close>

definition achievementsOf :: "Database \<Rightarrow> nat \<Rightarrow> WorkAchievement list" where
  "achievementsOf db workHistoryId =
     filter (\<lambda>a. wa_workHistoryId a = workHistoryId) (workAchievementTable db)"

definition newAchievementRows :: "World \<Rightarrow> nat \<Rightarrow> jsstring list \<Rightarrow> WorkAchievement list" where
  "newAchievementRows w workHistoryId descriptions =
     map (\<lambda>(i, d). \<lparr>wa_id = i, description = d, createdAt = now w,
                     wa_workHistoryId = workHistoryId\<rparr>)
       (enumerate (nextCuid w) descriptions)"


section \<open>deduplicateAndMergeWorkAchievements\<close>

text \<open>
  The call of \<open>mergeWorkAchievementsWithAI\<close> as it happens in the world: with more than one
  achievement it enters the \<open>try\<close> block and awaits \<open>llm.invoke\<close>, which is counted; what
  the \<open>try\<close> block makes of the outcome is \<open>tryMerge\<close>.
\<close>

definition invokeLlm :: "LlmOutcome \<Rightarrow> LlmOutcome io" where
  "invokeLlm llm w = (Inr llm, w\<lparr>llmInvocations := Suc (llmInvocations w)\<rparr>)"

definition awaitMergeWorkAchievementsWithAI ::
  "'a WorkAchievementRecord_scheme list \<Rightarrow> LlmOutcome \<Rightarrow> MergeOutput io" where
  "awaitMergeWorkAchievementsWithAI achievements llm =
     (if length achievements \<le> 1
      then succeed \<lparr>out_finalAchievements = map description achievements, groupsMerged = 0\<rparr>
      else
        andThen (invokeLlm llm)
          (\<lambda>outcome. succeed
             (case tryMerge achievements outcome of
                Inr result \<Rightarrow> result
              | Inl error \<Rightarrow>
                  \<lparr>out_finalAchievements = map description achievements,
                   groupsMerged = 0\<rparr>)))"

datatype PreviewAction = Kept | Merged | Final

text \<open>The four message templates of the result, with their arguments.\<close>

datatype DeduplicationMessage =
  NoDeduplicationNeeded
| RemovedExactDuplicates nat
| PreviewOfProcess
| DeduplicatedAndMerged nat nat

record WorkAchievementDeduplicationResult =
  success :: bool
  message :: DeduplicationMessage
  originalCount :: nat
  finalCount :: nat
  res_exactDuplicatesRemoved :: nat
  similarGroupsMerged :: nat
  preview :: "(jsstring \<times> PreviewAction) list"

definition deduplicateAndMergeWorkAchievements ::
  "(jsstring \<Rightarrow> jsstring) \<Rightarrow> LlmOutcome \<Rightarrow> nat \<Rightarrow> nat \<Rightarrow> bool \<Rightarrow>
   WorkAchievementDeduplicationResult io" where
  "deduplicateAndMergeWorkAchievements toLowerCase llm userId workHistoryId dryRun =
     andThen (workHistory_findFirst (\<lambda>wh. wh_id wh = workHistoryId \<and> wh_userId wh = userId))
       (\<lambda>workHistory.
          case workHistory of
            None \<Rightarrow> throw WorkHistoryNotFound
          | Some found \<Rightarrow>
     andThen (workAchievement_findMany (\<lambda>a. wa_workHistoryId a = workHistoryId))
       (\<lambda>achievements.
          if length achievements \<le> 1
          then succeed
            \<lparr>success = True, message = NoDeduplicationNeeded,
             originalCount = length achievements, finalCount = length achievements,
             res_exactDuplicatesRemoved = 0, similarGroupsMerged = 0, preview = []\<rparr>
          else
            let removal = removeExactDuplicateWorkAchievements toLowerCase achievements;
                unique = uniqueAchievements removal;
                removed = exactDuplicatesRemoved removal
            in
              if length unique \<le> 1
              then
                andThen
                  (if \<not> dryRun \<and> removed > 0
                   then transaction
                     (let duplicateIds =
                        map wa_id
                          (filter (\<lambda>a. \<not> list_ex (\<lambda>u. wa_id u = wa_id a) unique) achievements)
                      in workAchievement_deleteMany
                           (\<lambda>a. wa_id a \<in> set duplicateIds \<and>
                                wa_workHistoryId a = workHistoryId))
                   else succeed ())
                  (\<lambda>_. succeed
                     \<lparr>success = True, message = RemovedExactDuplicates removed,
                      originalCount = length achievements, finalCount = length unique,
                      res_exactDuplicatesRemoved = removed, similarGroupsMerged = 0,
                      preview = map (\<lambda>a. (description a, Kept)) unique\<rparr>)
              else
                andThen (awaitMergeWorkAchievementsWithAI unique llm)
                  (\<lambda>mergeResult.
                  if dryRun
                  then succeed
                    \<lparr>success = True, message = PreviewOfProcess,
                     originalCount = length achievements,
                     finalCount = length (out_finalAchievements mergeResult),
                     res_exactDuplicatesRemoved = removed,
                     similarGroupsMerged = groupsMerged mergeResult,
                     preview = map (\<lambda>d. (d, Merged)) (out_finalAchievements mergeResult)\<rparr>
                  else
                    andThen
                      (transaction
                         (andThen
                            (workAchievement_deleteMany
                               (\<lambda>a. wa_workHistoryId a = workHistoryId))
                            (\<lambda>_. workAchievement_createMany
                               (map (\<lambda>d. (d, workHistoryId))
                                  (out_finalAchievements mergeResult)))))
                      (\<lambda>_. succeed
                         \<lparr>success = True,
                          message = DeduplicatedAndMerged removed (groupsMerged mergeResult),
                          originalCount = length achievements,
                          finalCount = length (out_finalAchievements mergeResult),
                          res_exactDuplicatesRemoved = removed,
                          similarGroupsMerged = groupsMerged mergeResult,
                          preview = map (\<lambda>d. (d, Final))
                            (out_finalAchievements mergeResult)\<rparr>))))"

section \<open>mergeWorkHistoryRecords\<close>

text \<open>
  A work history as \<open>findMany\<close> returns it with \<open>include: { achievements: true }\<close>, and
  with \<open>userSkills\<close> included as well.
\<close>

record WorkHistoryWithAchievements = WorkHistory +
  wh_achievements :: "WorkAchievement list"

record WorkHistoryWithRelations = WorkHistoryWithAchievements +
  wh_userSkills :: "UserSkill list"

definition userSkillsOf :: "Database \<Rightarrow> nat \<Rightarrow> UserSkill list" where
  "userSkillsOf db workHistoryId =
     filter (\<lambda>s. us_workHistoryId s = Some workHistoryId) (userSkillTable db)"

definition withRelations :: "Database \<Rightarrow> WorkHistory \<Rightarrow> WorkHistoryWithRelations" where
  "withRelations db wh =
     \<lparr>companyName = companyName wh, startDate = startDate wh, endDate = endDate wh,
      wh_id = wh_id wh, wh_userId = wh_userId wh, jobTitle = jobTitle wh,
      wh_achievements = achievementsOf db (wh_id wh),
      wh_userSkills = userSkillsOf db (wh_id wh)\<rparr>"

text \<open>\<open>workHistory.findMany({ where, include: { achievements, userSkills } })\<close>\<close>

definition workHistory_findMany_withRelations ::
  "(WorkHistory \<Rightarrow> bool) \<Rightarrow> WorkHistoryWithRelations list io" where
  "workHistory_findMany_withRelations wher =
     readRequest (\<lambda>db. map (withRelations db) (filter wher (workHistoryTable db)))"

text \<open>
  The \<open>data\<close> of a write to \<open>WorkHistory\<close>: the columns it gives, each converted to what
  the database keeps before the row is written. Prisma refuses the Invalid Date before
  the database sees it.
\<close>

definition storedDate :: "World \<Rightarrow> Date \<Rightarrow> Failure + Date" where
  "storedDate w d = (if d = InvalidDate then Inl InvalidDateValue else dateColumn w d)"

record WorkHistoryData =
  data_companyName :: "jsstring option"
  data_jobTitle :: "jsstring option"
  data_startDate :: "Date option"
  data_endDate :: "Date option option"

definition storedColumns :: "World \<Rightarrow> WorkHistoryData \<Rightarrow> Failure + WorkHistoryData" where
  "storedColumns w data =
     (case storedOptional storedText (data_companyName data) of
        Inl e \<Rightarrow> Inl e
      | Inr c \<Rightarrow>
     (case storedOptional storedText (data_jobTitle data) of
        Inl e \<Rightarrow> Inl e
      | Inr t \<Rightarrow>
     (case storedOptional (storedDate w) (data_startDate data) of
        Inl e \<Rightarrow> Inl e
      | Inr s \<Rightarrow>
     (case storedOptional (storedOptional (storedDate w)) (data_endDate data) of
        Inl e \<Rightarrow> Inl e
      | Inr e \<Rightarrow>
          Inr \<lparr>data_companyName = c, data_jobTitle = t, data_startDate = s,
               data_endDate = e\<rparr>))))"

definition assignColumns :: "WorkHistoryData \<Rightarrow> WorkHistory \<Rightarrow> WorkHistory" where
  "assignColumns data row =
     row\<lparr>companyName := (case data_companyName data of None \<Rightarrow> companyName row | Some c \<Rightarrow> c),
         jobTitle := (case data_jobTitle data of None \<Rightarrow> jobTitle row | Some t \<Rightarrow> t),
         startDate := (case data_startDate data of None \<Rightarrow> startDate row | Some d \<Rightarrow> d),
         endDate := (case data_endDate data of None \<Rightarrow> endDate row | Some d \<Rightarrow> d)\<rparr>"

text \<open>\<open>workHistory.update({ where: { id }, data })\<close>: the record must exist.\<close>

definition workHistory_update :: "nat \<Rightarrow> WorkHistoryData \<Rightarrow> WorkHistory io" where
  "workHistory_update i data =
     writeRequest WorkHistoryRows
       (\<lambda>w. case find (\<lambda>wh. wh_id wh = i) (workHistoryTable (database w)) of
               None \<Rightarrow> (Inl RecordNotFound, w)
             | Some row \<Rightarrow>
                 (case storedColumns w data of
                    Inl e \<Rightarrow> (Inl e, w)
                  | Inr stored \<Rightarrow>
                      (Inr (assignColumns stored row),
                       w\<lparr>database := (database w)\<lparr>workHistoryTable :=
                          map (\<lambda>wh. if wh_id wh = i then assignColumns stored wh else wh)
                            (workHistoryTable (database w))\<rparr>\<rparr>)))"

text \<open>
  \<open>workHistory.deleteMany({ where })\<close>. The schema deletes the achievements of a deleted
  work history (\<open>onDelete: Cascade\<close>) and detaches its user skills (\<open>onDelete: SetNull\<close>).
\<close>

definition workHistory_deleteMany :: "(WorkHistory \<Rightarrow> bool) \<Rightarrow> unit io" where
  "workHistory_deleteMany wher =
     writeRequest WorkHistoryRows
       (modifyDatabase (\<lambda>db.
          let deleted = map wh_id (filter wher (workHistoryTable db))
          in \<lparr>workHistoryTable = filter (\<lambda>wh. \<not> wher wh) (workHistoryTable db),
              workAchievementTable =
                filter (\<lambda>a. wa_workHistoryId a \<notin> set deleted) (workAchievementTable db),
              userSkillTable =
                map (\<lambda>s. case us_workHistoryId s of
                            None \<Rightarrow> s
                          | Some h \<Rightarrow> if h \<in> set deleted then s\<lparr>us_workHistoryId := None\<rparr> else s)
                  (userSkillTable db)\<rparr>))"

text \<open>
  \<open>userSkill.update({ where: { id }, data })\<close>, where \<open>data\<close> gives the work history and,
  in one of the two calls, the notes; and \<open>userSkill.delete({ where: { id } })\<close>.
\<close>

definition attachSkill :: "nat \<Rightarrow> jsstring option \<Rightarrow> UserSkill \<Rightarrow> UserSkill" where
  "attachSkill workHistoryId notes s =
     s\<lparr>us_workHistoryId := Some workHistoryId,
       us_notes := (case notes of None \<Rightarrow> us_notes s | Some t \<Rightarrow> Some t)\<rparr>"

definition userSkill_update :: "nat \<Rightarrow> nat \<Rightarrow> jsstring option \<Rightarrow> UserSkill io" where
  "userSkill_update i workHistoryId notes =
     writeRequest UserSkillRows
       (\<lambda>w. case find (\<lambda>s. us_id s = i) (userSkillTable (database w)) of
               None \<Rightarrow> (Inl RecordNotFound, w)
             | Some row \<Rightarrow>
                 (case storedOptional storedText notes of
                    Inl e \<Rightarrow> (Inl e, w)
                  | Inr stored \<Rightarrow>
                      (Inr (attachSkill workHistoryId stored row),
                       w\<lparr>database := (database w)\<lparr>userSkillTable :=
                          map (\<lambda>s. if us_id s = i then attachSkill workHistoryId stored s else s)
                            (userSkillTable (database w))\<rparr>\<rparr>)))"

definition userSkill_delete :: "nat \<Rightarrow> UserSkill io" where
  "userSkill_delete i =
     writeRequest UserSkillRows
       (\<lambda>w. case find (\<lambda>s. us_id s = i) (userSkillTable (database w)) of
               None \<Rightarrow> (Inl RecordNotFound, w)
             | Some row \<Rightarrow>
                 (Inr row,
                  w\<lparr>database := (database w)\<lparr>userSkillTable :=
                     filter (\<lambda>s. us_id s \<noteq> i) (userSkillTable (database w))\<rparr>\<rparr>))"

text \<open>\<open>try { body } catch (error) { return handler }\<close>\<close>

definition tryCatch :: "'a io \<Rightarrow> (Failure \<Rightarrow> 'a io) \<Rightarrow> 'a io" where
  "tryCatch body handler w =
     (case body w of (Inl e, w') \<Rightarrow> handler e w' | (Inr v, w') \<Rightarrow> (Inr v, w'))"

text \<open>
  The merged details arrive with their dates as strings; \<open>new Date(string)\<close> is the
  host's date parser, the argument \<open>newDate\<close> below. An absent or empty \<open>endDate\<close>
  is falsy and becomes null.
\<close>

record MergedDetails =
  md_companyName :: jsstring
  md_jobTitle :: jsstring
  md_startDate :: jsstring
  md_endDate :: "jsstring option"

record MergedRecord =
  mr_id :: nat
  mr_companyName :: jsstring
  mr_jobTitle :: jsstring
  mr_startDate :: Date
  mr_endDate :: "Date option"

text \<open>
  The two message templates: \<open>Successfully merged ${n} work history records\<close> and
  \<open>Failed to merge work history records: ${error.message}\<close>.
\<close>

datatype MergeMessage = SuccessfullyMerged nat | FailedToMerge Failure

record MergeRecordsResult =
  mg_success :: bool
  mg_message :: MergeMessage
  mergedRecord :: MergedRecord

definition mergedEndDate :: "(jsstring \<Rightarrow> Date) \<Rightarrow> MergedDetails \<Rightarrow> Date option" where
  "mergedEndDate newDate mergedDetails =
     (case md_endDate mergedDetails of
        None \<Rightarrow> None
      | Some s \<Rightarrow> if s = [] then None else Some (newDate s))"

definition mergedData :: "(jsstring \<Rightarrow> Date) \<Rightarrow> MergedDetails \<Rightarrow> WorkHistoryData" where
  "mergedData newDate mergedDetails =
     \<lparr>data_companyName = Some (md_companyName mergedDetails),
      data_jobTitle = Some (md_jobTitle mergedDetails),
      data_startDate = Some (newDate (md_startDate mergedDetails)),
      data_endDate = Some (mergedEndDate newDate mergedDetails)\<rparr>"

definition moveSkills :: "nat \<Rightarrow> nat set \<Rightarrow> UserSkill list \<Rightarrow> unit io" where
  "moveSkills primaryRecordId existingPrimarySkillIds allSecondarySkills =
     forEach allSecondarySkills
       (\<lambda>userSkill.
          if skillId userSkill \<notin> existingPrimarySkillIds
          then andThen
                 (userSkill_update (us_id userSkill) primaryRecordId None)
                 (\<lambda>_. succeed ())
          else andThen (userSkill_delete (us_id userSkill)) (\<lambda>_. succeed ()))"

definition mergeTransaction ::
  "(jsstring \<Rightarrow> Date) \<Rightarrow> nat \<Rightarrow> nat \<Rightarrow> nat list \<Rightarrow> MergedDetails \<Rightarrow>
   WorkHistoryWithRelations \<Rightarrow> WorkHistoryWithRelations list \<Rightarrow> WorkHistory io" where
  "mergeTransaction newDate userId primaryRecordId secondaryRecordIds mergedDetails
     primaryRecord secondaryRecords =
     andThen (workHistory_update primaryRecordId (mergedData newDate mergedDetails))
       (\<lambda>updatedPrimary.
          let allAchievements =
                concat (map (\<lambda>record. map description (wh_achievements record))
                          secondaryRecords);
              existingAchievements = map description (wh_achievements primaryRecord);
              uniqueNewAchievements =
                filter (\<lambda>achievement. achievement \<notin> set existingAchievements) allAchievements
          in
     andThen
       (if length uniqueNewAchievements > 0
        then workAchievement_createMany
               (map (\<lambda>description. (description, primaryRecordId)) uniqueNewAchievements)
        else succeed ())
       (\<lambda>_.
          let allSecondarySkills = concat (map wh_userSkills secondaryRecords);
              existingPrimarySkillIds = set (map skillId (wh_userSkills primaryRecord))
          in
     andThen (moveSkills primaryRecordId existingPrimarySkillIds allSecondarySkills)
       (\<lambda>_.
     andThen
       (workHistory_deleteMany
          (\<lambda>wh. wh_id wh \<in> set secondaryRecordIds \<and> wh_userId wh = userId))
       (\<lambda>_. succeed updatedPrimary))))"

text \<open>The body of the \<open>try\<close> block.\<close>

definition mergeAttempt ::
  "(jsstring \<Rightarrow> Date) \<Rightarrow> nat \<Rightarrow> nat \<Rightarrow> nat list \<Rightarrow> MergedDetails \<Rightarrow>
   MergeRecordsResult io" where
  "mergeAttempt newDate userId primaryRecordId secondaryRecordIds mergedDetails =
     (let allRecordIds = primaryRecordId # secondaryRecordIds
      in
      andThen
        (workHistory_findMany_withRelations
           (\<lambda>wh. wh_id wh \<in> set allRecordIds \<and> wh_userId wh = userId))
        (\<lambda>workHistories.
           if length workHistories \<noteq> length allRecordIds then throw RecordsNotFound
           else
             let primaryRecord = find (\<lambda>wh. wh_id wh = primaryRecordId) workHistories;
                 secondaryRecords =
                   filter (\<lambda>wh. wh_id wh \<in> set secondaryRecordIds) workHistories
             in
               case primaryRecord of
                 None \<Rightarrow> throw PrimaryRecordNotFound
               | Some primaryRecord \<Rightarrow>
                   andThen
                     (transaction
                        (mergeTransaction newDate userId primaryRecordId secondaryRecordIds
                           mergedDetails primaryRecord secondaryRecords))
                     (\<lambda>result. succeed
                        \<lparr>mg_success = True,
                         mg_message = SuccessfullyMerged (length secondaryRecordIds),
                         mergedRecord =
                           \<lparr>mr_id = wh_id result, mr_companyName = companyName result,
                            mr_jobTitle = jobTitle result, mr_startDate = startDate result,
                            mr_endDate = endDate result\<rparr>\<rparr>)))"

definition mergeWorkHistoryRecords ::
  "(jsstring \<Rightarrow> Date) \<Rightarrow> nat \<Rightarrow> nat \<Rightarrow> nat list \<Rightarrow> MergedDetails \<Rightarrow>
   MergeRecordsResult io" where
  "mergeWorkHistoryRecords newDate userId primaryRecordId secondaryRecordIds mergedDetails =
     tryCatch
       (mergeAttempt newDate userId primaryRecordId secondaryRecordIds mergedDetails)
       (\<lambda>error. succeed
          \<lparr>mg_success = False,
           mg_message = FailedToMerge error,
           mergedRecord =
             \<lparr>mr_id = primaryRecordId, mr_companyName = md_companyName mergedDetails,
              mr_jobTitle = md_jobTitle mergedDetails,
              mr_startDate = newDate (md_startDate mergedDetails),
              mr_endDate = mergedEndDate newDate mergedDetails\<rparr>\<rparr>)"

text \<open>
  The words of the specification: every request sent between two worlds succeeded.
\<close>

definition requestsSucceeded :: "World \<Rightarrow> World \<Rightarrow> bool" where
  "requestsSucceeded w w' \<longleftrightarrow>
     list_all (\<lambda>k. \<not> failing w k) [requestsIssued w ..< requestsIssued w']"

text \<open>
  A user skill is attached to one of the given work histories; the primary keys of the
  \<open>WorkHistory\<close> and \<open>UserSkill\<close> tables (\<open>@id\<close> in the schema) are unique.
\<close>

definition attachedTo :: "nat list \<Rightarrow> UserSkill \<Rightarrow> bool" where
  "attachedTo ids s = (case us_workHistoryId s of None \<Rightarrow> False | Some h \<Rightarrow> h \<in> set ids)"

definition primaryKeys :: "Database \<Rightarrow> bool" where
  "primaryKeys db \<longleftrightarrow>
     distinct (map wh_id (workHistoryTable db)) \<and> distinct (map us_id (userSkillTable db))"

text \<open>
  A stretch of a run in which every request succeeded; it leaves the clock, the
  failure pattern and the behaviour of the date columns alone.
\<close>

definition ranWithoutFailure :: "World \<Rightarrow> World \<Rightarrow> bool" where
  "ranWithoutFailure w w' \<longleftrightarrow>
     failing w' = failing w \<and> now w' = now w \<and> dateColumn w' = dateColumn w \<and>
     requestsIssued w \<le> requestsIssued w' \<and> requestsSucceeded w w'"

section \<open>processWorkExperience\<close>

text \<open>
  Two services of the repository are called here and are not part of the sources at hand:
  \<open>mergeWorkAchievements\<close> of \<open>utils/llm-merger\<close>, which merges two lists of descriptions
  through the LLM, and \<open>SkillNormalizationService.normalizeSkills\<close>, always called with
  the category \<open>OTHER\<close>. Both are arguments here: a function from the arguments of
  the call to the list it resolves to or the exception it rejects with. A call is recorded
  in the trace. Neither service is taken to write to the three tables.
\<close>

record NormalizedSkill =
  baseSkillId :: nat
  detailedVariant :: "jsstring option"

definition callService :: "Event \<Rightarrow> Failure + 'a \<Rightarrow> 'a io" where
  "callService event outcome =
     andThen (emit event)
       (\<lambda>_. case outcome of Inl e \<Rightarrow> throw e | Inr v \<Rightarrow> succeed v)"

text \<open>\<open>workHistory.findMany({ where, include: { achievements: true } })\<close>\<close>

definition withAchievements :: "Database \<Rightarrow> WorkHistory \<Rightarrow> WorkHistoryWithAchievements" where
  "withAchievements db wh =
     \<lparr>companyName = companyName wh, startDate = startDate wh, endDate = endDate wh,
      wh_id = wh_id wh, wh_userId = wh_userId wh, jobTitle = jobTitle wh,
      wh_achievements = achievementsOf db (wh_id wh)\<rparr>"

definition workHistory_findMany_withAchievements ::
  "(WorkHistory \<Rightarrow> bool) \<Rightarrow> WorkHistoryWithAchievements list io" where
  "workHistory_findMany_withAchievements wher =
     readRequest (\<lambda>db. map (withAchievements db) (filter wher (workHistoryTable db)))"

text \<open>
  \<open>workHistory.create({ data })\<close>: \<open>data\<close> gives every column but the id, which defaults
  to \<open>cuid()\<close>; the columns are converted as for an update.
\<close>

definition allColumns :: "WorkHistory \<Rightarrow> WorkHistoryData" where
  "allColumns row =
     \<lparr>data_companyName = Some (companyName row), data_jobTitle = Some (jobTitle row),
      data_startDate = Some (startDate row), data_endDate = Some (endDate row)\<rparr>"

definition workHistory_create :: "(nat \<Rightarrow> WorkHistory) \<Rightarrow> WorkHistory io" where
  "workHistory_create data =
     writeRequest WorkHistoryRows
       (andThen freshCuid
          (\<lambda>newId w.
             case storedColumns w (allColumns (data newId)) of
               Inl e \<Rightarrow> throw e w
             | Inr stored \<Rightarrow>
                 andThen
                   (modifyDatabase (\<lambda>db. db\<lparr>workHistoryTable :=
                      workHistoryTable db @ [assignColumns stored (data newId)]\<rparr>))
                   (\<lambda>_. succeed (assignColumns stored (data newId))) w))"

text \<open>\<open>userSkill.findFirst({ where })\<close> and \<open>userSkill.create({ data })\<close>\<close>

definition userSkill_findFirst :: "(UserSkill \<Rightarrow> bool) \<Rightarrow> UserSkill option io" where
  "userSkill_findFirst wher = readRequest (\<lambda>db. find wher (userSkillTable db))"

definition userSkill_create :: "(nat \<Rightarrow> UserSkill) \<Rightarrow> unit io" where
  "userSkill_create data =
     writeRequest UserSkillRows
       (andThen freshCuid
          (\<lambda>newId.
             case storedOptional storedText (us_notes (data newId)) of
               Inl e \<Rightarrow> throw e
             | Inr stored \<Rightarrow>
                 modifyDatabase (\<lambda>db. db\<lparr>userSkillTable :=
                   userSkillTable db @ [(data newId)\<lparr>us_notes := stored\<rparr>]\<rparr>)))"

text \<open>
  A template literal prints a missing value as \<open>undefined\<close>. The two notes are
  \<open>Used at ${exp.company} - ${exp.jobTitle}\<close>, followed for a new skill by the detailed
  variant in parentheses when there is a non-empty one.
\<close>

definition interpolate :: "jsstring option \<Rightarrow> jsstring" where
  "interpolate v = (case v of None \<Rightarrow> str ''undefined'' | Some s \<Rightarrow> s)"

definition usedAt :: "WorkExperience \<Rightarrow> jsstring" where
  "usedAt exp =
     str ''Used at '' @ interpolate (company exp) @ str '' - '' @ interpolate (exp_jobTitle exp)"

definition variantSuffix :: "NormalizedSkill \<Rightarrow> jsstring" where
  "variantSuffix normalizedSkill =
     (case detailedVariant normalizedSkill of
        None \<Rightarrow> []
      | Some v \<Rightarrow> if v = [] then [] else str '' ('' @ v @ str '')'')"

text \<open>The branch for a matching record: merge, update the record, add the achievements.\<close>

definition updateMatchingRecord ::
  "(jsstring list \<Rightarrow> jsstring list \<Rightarrow> Failure + jsstring list) \<Rightarrow>
   WorkHistoryWithAchievements \<Rightarrow> WorkExperience \<Rightarrow> nat io" where
  "updateMatchingRecord mergeWorkAchievements matchingRecord exp =
     (let existingAchievements = map description (wh_achievements matchingRecord);
          newAchievements = (case exp_achievements exp of None \<Rightarrow> [] | Some as \<Rightarrow> as)
      in
      andThen
        (callService AchievementsMerged
           (mergeWorkAchievements existingAchievements newAchievements))
        (\<lambda>mergedAchievements.
      andThen
        (workHistory_update (wh_id matchingRecord)
           \<lparr>data_companyName = None,
            data_jobTitle =
              Some (case exp_jobTitle exp of
                      None \<Rightarrow> jobTitle matchingRecord | Some t \<Rightarrow> t),
            data_startDate =
              Some (case exp_startDate exp of
                      None \<Rightarrow> startDate matchingRecord | Some d \<Rightarrow> d),
            data_endDate =
              Some (case exp_endDate exp of
                      None \<Rightarrow> endDate matchingRecord | Some d \<Rightarrow> Some d)\<rparr>)
        (\<lambda>_.
      andThen
        (forEach mergedAchievements
           (\<lambda>desc. workAchievement_create (desc, wh_id matchingRecord)))
        (\<lambda>_. succeed (wh_id matchingRecord)))))"

text \<open>The branch without a match: create the record, add the achievements.\<close>

definition createNewRecord :: "nat \<Rightarrow> WorkExperience \<Rightarrow> nat io" where
  "createNewRecord userId exp =
     andThen
       (\<lambda>w. workHistory_create
          (\<lambda>newId.
             \<lparr>companyName = (case company exp of None \<Rightarrow> [] | Some c \<Rightarrow> c),
              startDate = (case exp_startDate exp of None \<Rightarrow> now w | Some d \<Rightarrow> d),
              endDate = exp_endDate exp,
              wh_id = newId, wh_userId = userId,
              jobTitle = (case exp_jobTitle exp of None \<Rightarrow> [] | Some t \<Rightarrow> t)\<rparr>) w)
       (\<lambda>wh.
          let responsibilities = (case exp_achievements exp of None \<Rightarrow> [] | Some as \<Rightarrow> as)
          in
          andThen
            (forEach responsibilities (\<lambda>desc. workAchievement_create (desc, wh_id wh)))
            (\<lambda>_. succeed (wh_id wh)))"

text \<open>The skills of an entry, once the work history is known.\<close>

definition linkSkill :: "nat \<Rightarrow> nat \<Rightarrow> WorkExperience \<Rightarrow> NormalizedSkill \<Rightarrow> unit io" where
  "linkSkill userId workHistoryId exp normalizedSkill =
     andThen
       (userSkill_findFirst
          (\<lambda>s. us_userId s = userId \<and> skillId s = baseSkillId normalizedSkill))
       (\<lambda>existingUserSkill.
          case existingUserSkill of
            Some existing \<Rightarrow>
              if us_workHistoryId existing = None
              then andThen
                     (userSkill_update (us_id existing) workHistoryId (Some (usedAt exp)))
                     (\<lambda>_. succeed ())
              else succeed ()
          | None \<Rightarrow>
              userSkill_create
                (\<lambda>newId.
                   \<lparr>us_id = newId, us_userId = userId,
                    skillId = baseSkillId normalizedSkill,
                    proficiency = INTERMEDIATE, source = WORK_EXPERIENCE,
                    us_notes = Some (usedAt exp @ variantSuffix normalizedSkill),
                    us_workHistoryId = Some workHistoryId\<rparr>))"

definition processSkills ::
  "(jsstring list \<Rightarrow> Failure + NormalizedSkill list) \<Rightarrow> nat \<Rightarrow> nat \<Rightarrow> WorkExperience \<Rightarrow>
   unit io" where
  "processSkills normalizeSkills userId workHistoryId exp =
     (let skills = (case exp_skills exp of None \<Rightarrow> [] | Some ss \<Rightarrow> ss)
      in
      if length skills > 0
      then
        andThen
          (callService SkillsNormalized
             (normalizeSkills (filter (\<lambda>s. trim s \<noteq> []) skills)))
          (\<lambda>normalizedSkills.
             forEach normalizedSkills (linkSkill userId workHistoryId exp))
      else succeed ())"

text \<open>One iteration of the loop over the parsed entries.\<close>

definition processEntry ::
  "(jsstring \<Rightarrow> jsstring) \<Rightarrow>
   (jsstring list \<Rightarrow> jsstring list \<Rightarrow> Failure + jsstring list) \<Rightarrow>
   (jsstring list \<Rightarrow> Failure + NormalizedSkill list) \<Rightarrow>
   WorkHistoryWithAchievements list \<Rightarrow> nat \<Rightarrow> WorkExperience \<Rightarrow> unit io" where
  "processEntry toLowerCase mergeWorkAchievements normalizeSkills existingWorkHistory userId exp =
     andThen (emit Matched)
       (\<lambda>_.
          let matchingRecord =
                find (\<lambda>existing. doWorkHistoryRecordsMatch toLowerCase existing exp)
                  existingWorkHistory
          in
          andThen
            (case matchingRecord of
               Some matching \<Rightarrow> updateMatchingRecord mergeWorkAchievements matching exp
             | None \<Rightarrow> createNewRecord userId exp)
            (\<lambda>workHistoryId. processSkills normalizeSkills userId workHistoryId exp))"

definition processWorkExperience ::
  "(jsstring \<Rightarrow> jsstring) \<Rightarrow>
   (jsstring list \<Rightarrow> jsstring list \<Rightarrow> Failure + jsstring list) \<Rightarrow>
   (jsstring list \<Rightarrow> Failure + NormalizedSkill list) \<Rightarrow>
   WorkExperience list \<Rightarrow> nat \<Rightarrow> unit io" where
  "processWorkExperience toLowerCase mergeWorkAchievements normalizeSkills workExperience userId =
     andThen (workHistory_findMany_withAchievements (\<lambda>wh. wh_userId wh = userId))
       (\<lambda>existingWorkHistory.
          forEach workExperience
            (processEntry toLowerCase mergeWorkAchievements normalizeSkills
               existingWorkHistory userId))"

text \<open>
  The order of the stages as the specification gives it (match, normalize, dedupe and
  merge, persist), and as the loop body runs them for one entry.
\<close>

fun specifiedStage :: "Event \<Rightarrow> nat" where
  "specifiedStage Matched = 0"
| "specifiedStage SkillsNormalized = 1"
| "specifiedStage AchievementsMerged = 2"
| "specifiedStage (Written table) = 3"

fun stageOf :: "Event \<Rightarrow> nat" where
  "stageOf Matched = 0"
| "stageOf AchievementsMerged = 1"
| "stageOf (Written WorkHistoryRows) = 2"
| "stageOf (Written WorkAchievementRows) = 2"
| "stageOf SkillsNormalized = 3"
| "stageOf (Written UserSkillRows) = 4"

text \<open>
  The events of one entry: the match, then events of the later stages in their order.
\<close>

definition entryTrace :: "Event list \<Rightarrow> bool" where
  "entryTrace evs \<longleftrightarrow>
     (case evs of
        [] \<Rightarrow> False
      | first # rest \<Rightarrow>
          first = Matched \<and> sorted (map stageOf rest) \<and> list_all (\<lambda>e. 1 \<le> stageOf e) rest)"

text \<open>
  A computation adds to the trace only events of the stages from \<open>lo\<close> to \<open>hi\<close>, in the
  order of their stages.
\<close>

definition staged :: "nat \<Rightarrow> nat \<Rightarrow> 'a io \<Rightarrow> bool" where
  "staged lo hi m \<longleftrightarrow>
     (\<forall>w. \<exists>evs. events (snd (m w)) = events w @ evs \<and> sorted (map stageOf evs) \<and>
        (\<forall>e \<in> set evs. lo \<le> stageOf e \<and> stageOf e \<le> hi))"

section \<open>Example data\<close>

definition acmeExisting :: ExistingRecord where
  "acmeExisting = \<lparr>companyName = str ''Acme Co'', startDate = Date 1583798400000 2020 2,
     endDate = Some (Date 1640908800000 2021 11)\<rparr>"

definition acmeParsed :: WorkExperience where
  "acmeParsed = \<lparr>company = Some (str ''ACME  co.''), exp_jobTitle = None,
     exp_startDate = Some (Date 1583020800000 2020 2),
     exp_endDate = Some (Date 1638316800000 2021 11),
     exp_achievements = None, exp_skills = None\<rparr>"

definition salesAchievement :: WorkAchievementRecord where
  "salesAchievement = \<lparr>wa_id = 1, description = str ''Increased sales by 20%'',
     createdAt = Date 1583798400000 2020 2\<rparr>"

definition teamAchievement :: WorkAchievementRecord where
  "teamAchievement = \<lparr>wa_id = 2, description = str ''Led team of 5'',
     createdAt = Date 1583798400001 2020 2\<rparr>"

definition vagueResponse :: WorkAchievementMergeResult where
  "vagueResponse = \<lparr>finalAchievements = Some
       [\<lparr>fa_description = str ''Did work'', originalIndices = Some [1, 2], action = merged\<rparr>],
     reasoning = None\<rparr>"

definition partialResponse :: WorkAchievementMergeResult where
  "partialResponse = \<lparr>finalAchievements = Some
       [\<lparr>fa_description = str ''Grew sales'', originalIndices = Some [1], action = optimized\<rparr>],
     reasoning = None\<rparr>"

definition acmeHistory :: WorkHistory where
  "acmeHistory = \<lparr>companyName = str ''Acme Co'', startDate = Date 1583798400000 2020 2,
     endDate = None, wh_id = 10, wh_userId = 7, jobTitle = str ''Engineer''\<rparr>"

definition storedAchievement :: "nat \<Rightarrow> string \<Rightarrow> nat \<Rightarrow> WorkAchievement" where
  "storedAchievement i d h = \<lparr>wa_id = i, description = str d,
     createdAt = Date (1583798400000 + int i) 2020 2, wa_workHistoryId = h\<rparr>"

text \<open>
  A database that has no year before 1 and hands a year beyond 9999 back as the Invalid
  Date.
\<close>

definition exampleDateColumn :: "Date \<Rightarrow> Failure + Date" where
  "exampleDateColumn d =
     (case d of
        InvalidDate \<Rightarrow> Inl InvalidDateValue
      | Date t y m \<Rightarrow>
          if y < 1 then Inl InvalidDateValue
          else if 9999 < y then Inr InvalidDate
          else Inr d)"

definition exampleWorld :: World where
  "exampleWorld = \<lparr>database =
       \<lparr>workHistoryTable = [acmeHistory],
        workAchievementTable =
          [storedAchievement 20 ''Led team of 5'' 10, storedAchievement 21 ''Cut costs'' 11,
           storedAchievement 22 ''led team of 5 '' 10],
        userSkillTable = []\<rparr>,
     requestsIssued = 0, failing = (\<lambda>k. False), dateColumn = exampleDateColumn,
     nextCuid = 100,
     now = Date 1700000000000 2023 10, events = [], llmInvocations = 0\<rparr>"

definition singleWorld :: World where
  "singleWorld = \<lparr>database =
       \<lparr>workHistoryTable = [acmeHistory],
        workAchievementTable = [storedAchievement 20 ''Led team of 5'' 10],
        userSkillTable = []\<rparr>,
     requestsIssued = 0, failing = (\<lambda>k. False), dateColumn = exampleDateColumn,
     nextCuid = 100,
     now = Date 1700000000000 2023 10, events = [], llmInvocations = 0\<rparr>"

definition acmeDuplicate :: WorkHistory where
  "acmeDuplicate = \<lparr>companyName = str ''ACME'', startDate = Date 1583798400000 2020 2,
     endDate = None, wh_id = 11, wh_userId = 7, jobTitle = str ''Developer''\<rparr>"

definition reactSkill :: UserSkill where
  "reactSkill = \<lparr>us_id = 30, us_userId = 7, skillId = 1, proficiency = INTERMEDIATE,
     source = WORK_EXPERIENCE, us_notes = None, us_workHistoryId = Some 10\<rparr>"

definition sqlSkill :: UserSkill where
  "sqlSkill = \<lparr>us_id = 31, us_userId = 7, skillId = 2, proficiency = INTERMEDIATE,
     source = WORK_EXPERIENCE, us_notes = None, us_workHistoryId = Some 11\<rparr>"

definition mergeWorld :: World where
  "mergeWorld = \<lparr>database =
       \<lparr>workHistoryTable = [acmeHistory, acmeDuplicate],
        workAchievementTable =
          [storedAchievement 20 ''Led team of 5'' 10, storedAchievement 21 ''Cut costs'' 11,
           storedAchievement 22 ''Led team of 5'' 11],
        userSkillTable = [reactSkill, sqlSkill]\<rparr>,
     requestsIssued = 0, failing = (\<lambda>k. False), dateColumn = exampleDateColumn,
     nextCuid = 100,
     now = Date 1700000000000 2023 10, events = [], llmInvocations = 0\<rparr>"

definition acmeDetails :: MergedDetails where
  "acmeDetails = \<lparr>md_companyName = str ''Acme Corporation'',
     md_jobTitle = str ''Senior Engineer'',
     md_startDate = str ''2020-03-01'', md_endDate = None\<rparr>"

definition exampleDate :: "jsstring \<Rightarrow> Date" where
  "exampleDate s = (if s = str ''2020-03-01'' then Date 1583020800000 2020 2 else InvalidDate)"

definition returningEntry :: WorkExperience where
  "returningEntry = \<lparr>company = Some (str ''Acme Co''), exp_jobTitle = Some (str ''Lead''),
     exp_startDate = Some (Date 1583020800000 2020 2), exp_endDate = None,
     exp_achievements = Some [str ''Shipped v2''], exp_skills = Some [str ''React'']\<rparr>"

definition newEntry :: WorkExperience where
  "newEntry = \<lparr>company = Some (str ''Bolt''), exp_jobTitle = None,
     exp_startDate = Some (Date 1400000000000 2014 4), exp_endDate = None,
     exp_achievements = None, exp_skills = None\<rparr>"

definition exampleMerge :: "jsstring list \<Rightarrow> jsstring list \<Rightarrow> Failure + jsstring list" where
  "exampleMerge existing new = Inr new"

definition exampleNormalize :: "jsstring list \<Rightarrow> Failure + NormalizedSkill list" where
  "exampleNormalize skills =
     Inr (map (\<lambda>s. \<lparr>baseSkillId = length s, detailedVariant = None\<rparr>) skills)"

section \<open>Theorems\<close>

lemma month_number_inj:
  fixes y1 y2 :: int and m1 m2 :: nat
  assumes "m1 < 12" and "m2 < 12"
  shows "y1 * 12 + int m1 = y2 * 12 + int m2 \<longleftrightarrow> y1 = y2 \<and> m1 = m2"
proof
  assume eq: "y1 * 12 + int m1 = y2 * 12 + int m2"
  have "y1 = y2" using eq assms by linarith
  with eq show "y1 = y2 \<and> m1 = m2" by simp
next
  assume "y1 = y2 \<and> m1 = m2"
  then show "y1 * 12 + int m1 = y2 * 12 + int m2" by simp
qed

lemma monthNumber_eq_iff:
  assumes "validMonth a" and "validMonth b"
  shows "strictEquals (monthNumber a) (monthNumber b) \<longleftrightarrow> sameMonthAndYear a b"
proof (cases a)
  case InvalidDate
  then show ?thesis by (simp add: strictEquals_def monthNumber_def)
next
  case (Date t1 y1 m1)
  note a = this
  show ?thesis
  proof (cases b)
    case InvalidDate
    with a show ?thesis by (simp add: strictEquals_def monthNumber_def)
  next
    case (Date t2 y2 m2)
    with a assms have "m1 < 12" and "m2 < 12" by simp_all
    then have "y1 * 12 + int m1 = y2 * 12 + int m2 \<longleftrightarrow> y1 = y2 \<and> m1 = m2"
      by (rule month_number_inj)
    with a Date show ?thesis by (simp add: strictEquals_def monthNumber_def)
  qed
qed

text \<open>
  C1. For every existing work-history record and every parsed work-experience entry
  (the month index of every valid date between 0 and 11), \<open>doWorkHistoryRecordsMatch\<close>
  returns true if and only if the Levenshtein distance between the two company names,
  each lowercased with all whitespace removed and a missing new company taken as the
  empty string, is at most 5; the new entry has a start date in the same calendar month
  and year as the existing start date; and either both end dates are absent or both
  are present and in the same calendar month and year.
\<close>

theorem doWorkHistoryRecordsMatch_iff:
  assumes "validDates existing newRecord"
  shows "doWorkHistoryRecordsMatch toLowerCase existing newRecord \<longleftrightarrow>
     distance (normalizedCompany toLowerCase (Some (companyName existing)))
              (normalizedCompany toLowerCase (company newRecord)) \<le> 5 \<and>
     (\<exists>newStart. exp_startDate newRecord = Some newStart \<and>
        sameMonthAndYear (startDate existing) newStart) \<and>
     ((endDate existing = None \<and> exp_endDate newRecord = None) \<or>
      (\<exists>existingEnd newEnd. endDate existing = Some existingEnd \<and>
         exp_endDate newRecord = Some newEnd \<and> sameMonthAndYear existingEnd newEnd))"
  using assms
  by (auto simp: doWorkHistoryRecordsMatch_def normalizedCompany_def validDates_def Let_def
      monthNumber_eq_iff split: option.splits)

theorem doWorkHistoryRecordsMatch_iff_witness:
  "validDates acmeExisting acmeParsed \<and>
   doWorkHistoryRecordsMatch asciiLower acmeExisting acmeParsed"
  using doWorkHistoryRecordsMatch_iff [of acmeExisting acmeParsed asciiLower]
  by (simp add: acmeExisting_def acmeParsed_def validDates_def normalizedCompany_def
      removeWhitespace_def asciiLower_def str_def isWhiteSpace_def)

subsection \<open>The duplicate-removal loop\<close>

lemma seenBefore_snoc_lt:
  "i < length xs \<Longrightarrow> seenBefore lc (xs @ [x]) i = seenBefore lc xs i"
  by (simp add: seenBefore_def nth_append)

lemma seenBefore_snoc_last:
  "seenBefore lc (xs @ [x]) (length xs) \<longleftrightarrow>
     normalizedDescriptionOf lc x \<in> normalizedDescriptionOf lc ` set xs"
  by (simp add: seenBefore_def)

lemma filter_seenBefore_snoc:
  "filter (seenBefore lc (xs @ [x])) [0..<length xs] = filter (seenBefore lc xs) [0..<length xs]"
  by (rule filter_cong) (simp_all add: seenBefore_snoc_lt)

lemma filter_not_seenBefore_snoc:
  "filter (\<lambda>i. \<not> seenBefore lc (xs @ [x]) i) [0..<length xs] =
   filter (\<lambda>i. \<not> seenBefore lc xs i) [0..<length xs]"
  by (rule filter_cong) (simp_all add: seenBefore_snoc_lt)

lemma map_nth_snoc_filter:
  "map ((!) (xs @ [x])) (filter P [0..<length xs]) = map ((!) xs) (filter P [0..<length xs])"
  by (rule map_cong) (auto simp: nth_append)

lemma dedup_loop_invariant:
  "foldl (dedupStep lc) ({}, [], 0) xs =
     (normalizedDescriptionOf lc ` set xs,
      map ((!) xs) (filter (\<lambda>i. \<not> seenBefore lc xs i) [0..<length xs]),
      length (filter (seenBefore lc xs) [0..<length xs]))"
proof (induction xs rule: rev_induct)
  case Nil
  then show ?case by simp
next
  case (snoc x xs)
  show ?case
  proof (cases "normalizedDescriptionOf lc x \<in> normalizedDescriptionOf lc ` set xs")
    case True
    then show ?thesis
      using snoc
      by (simp add: dedupStep_def seenBefore_snoc_last filter_seenBefore_snoc
          filter_not_seenBefore_snoc map_nth_snoc_filter
          normalizedDescriptionOf_def [symmetric] insert_absorb)
  next
    case False
    then show ?thesis
      using snoc
      by (simp add: dedupStep_def seenBefore_snoc_last filter_seenBefore_snoc
          filter_not_seenBefore_snoc map_nth_snoc_filter
          normalizedDescriptionOf_def [symmetric])
  qed
qed

lemma first_occurrences_distinct:
  "distinct (map (normalizedDescriptionOf lc)
     (map ((!) xs) (filter (\<lambda>i. \<not> seenBefore lc xs i) [0..<length xs])))"
proof -
  let ?I = "filter (\<lambda>i. \<not> seenBefore lc xs i) [0..<length xs]"
  let ?k = "\<lambda>i. normalizedDescriptionOf lc (xs ! i)"
  have neq: "?k i \<noteq> ?k j" if "i < j" "j < length xs" "\<not> seenBefore lc xs j" for i j
  proof -
    from that have "xs ! i \<in> set (take j xs)"
      by (metis in_set_conv_nth length_take min.absorb2 nth_take less_imp_le_nat)
    then have "?k i \<in> normalizedDescriptionOf lc ` set (take j xs)" by (rule imageI)
    with that(3) show ?thesis by (auto simp: seenBefore_def)
  qed
  have "inj_on ?k (set ?I)"
  proof (rule inj_onI)
    fix i j assume ij: "i \<in> set ?I" "j \<in> set ?I" "?k i = ?k j"
    show "i = j"
    proof (rule ccontr)
      assume "i \<noteq> j"
      then consider "i < j" | "j < i" by linarith
      then show False
      proof cases
        case 1 with ij neq [of i j] show False by simp
      next
        case 2 with ij neq [of j i] show False by simp
      qed
    qed
  qed
  moreover have "distinct ?I" by simp
  ultimately have "distinct (map ?k ?I)" by (simp add: distinct_map)
  then show ?thesis by (simp add: comp_def)
qed

text \<open>
  C4. For every input list, \<open>removeExactDuplicateWorkAchievements\<close> keeps, in their
  original order, exactly the achievements whose description, trimmed and lowercased,
  occurs at no earlier position, and counts every achievement whose normalized
  description occurs earlier as removed; the length of the kept list plus
  \<open>exactDuplicatesRemoved\<close> is the length of the input, and the normalized descriptions
  of the kept achievements are pairwise distinct.
\<close>

theorem removeExactDuplicateWorkAchievements_first_occurrences:
  "uniqueAchievements (removeExactDuplicateWorkAchievements lc xs) =
     map ((!) xs) (filter (\<lambda>i. \<not> seenBefore lc xs i) [0..<length xs]) \<and>
   exactDuplicatesRemoved (removeExactDuplicateWorkAchievements lc xs) =
     length (filter (seenBefore lc xs) [0..<length xs]) \<and>
   length (uniqueAchievements (removeExactDuplicateWorkAchievements lc xs)) +
     exactDuplicatesRemoved (removeExactDuplicateWorkAchievements lc xs) = length xs \<and>
   distinct (map (normalizedDescriptionOf lc)
     (uniqueAchievements (removeExactDuplicateWorkAchievements lc xs)))"
proof -
  have u: "uniqueAchievements (removeExactDuplicateWorkAchievements lc xs) =
     map ((!) xs) (filter (\<lambda>i. \<not> seenBefore lc xs i) [0..<length xs])"
    by (simp add: removeExactDuplicateWorkAchievements_def dedup_loop_invariant)
  have r: "exactDuplicatesRemoved (removeExactDuplicateWorkAchievements lc xs) =
     length (filter (seenBefore lc xs) [0..<length xs])"
    by (simp add: removeExactDuplicateWorkAchievements_def dedup_loop_invariant)
  have "length (filter (\<lambda>i. \<not> seenBefore lc xs i) [0..<length xs]) +
        length (filter (seenBefore lc xs) [0..<length xs]) = length [0..<length xs]"
    using sum_length_filter_compl [of "seenBefore lc xs" "[0..<length xs]"] by simp
  then have s: "length (uniqueAchievements (removeExactDuplicateWorkAchievements lc xs)) +
     exactDuplicatesRemoved (removeExactDuplicateWorkAchievements lc xs) = length xs"
    by (simp add: u r)
  have d: "distinct (map (normalizedDescriptionOf lc)
     (uniqueAchievements (removeExactDuplicateWorkAchievements lc xs)))"
    unfolding u by (rule first_occurrences_distinct)
  from u r s d show ?thesis by blast
qed

subsection \<open>Validation of the response\<close>

lemma fold_insert_set: "fold insert xs A = set xs \<union> A"
  by (induction xs arbitrary: A) auto

lemma collectReferencedIndices_Inr:
  "collectReferencedIndices final A = Inr B \<longleftrightarrow>
     list_all carriesIndices final \<and> B = A \<union> {i. list_ex (references i) final}"
proof (induction final arbitrary: A)
  case Nil
  then show ?case by auto
next
  case (Cons a final)
  show ?case
  proof (cases "originalIndices a")
    case None
    then show ?thesis by (simp add: carriesIndices_def)
  next
    case (Some indices)
    show ?thesis
    proof (cases "indices = []")
      case True
      with Some show ?thesis by (simp add: carriesIndices_def)
    next
      case False
      have "set indices \<union> A \<union> {i. list_ex (references i) final} =
            A \<union> {i. references i a \<or> list_ex (references i) final}"
        using Some by (auto simp: references_def)
      with Some False show ?thesis
        by (simp add: Cons.IH carriesIndices_def fold_insert_set)
    qed
  qed
qed

lemma collectReferencedIndices_Inl:
  "(\<exists>e. collectReferencedIndices final A = Inl e) \<longleftrightarrow> \<not> list_all carriesIndices final"
proof -
  have "(\<exists>e. collectReferencedIndices final A = Inl e) \<longleftrightarrow>
        \<not> (\<exists>B. collectReferencedIndices final A = Inr B)"
    by (cases "collectReferencedIndices final A") auto
  then show ?thesis by (simp add: collectReferencedIndices_Inr)
qed

lemma missing_none_iff:
  "filter (\<lambda>i. i \<notin> {i. list_ex (references i) final}) [1..int n] = [] \<longleftrightarrow>
     list_all (\<lambda>i. list_ex (references i) final) [1..int n]"
  by (simp add: filter_empty_conv list_all_iff)

lemma tryMerge_Inr_iff:
  "tryMerge achievements (LlmResolves aiResult) = Inr result \<longleftrightarrow>
     (\<exists>final. finalAchievements aiResult = Some final \<and>
        accountsForAll (length achievements) final \<and>
        result = \<lparr>out_finalAchievements = map fa_description final,
                  groupsMerged = length achievements - length final\<rparr>)"
proof (cases "finalAchievements aiResult")
  case None
  then show ?thesis by (simp add: tryMerge_def)
next
  case (Some final)
  show ?thesis
  proof (cases "collectReferencedIndices final {}")
    case (Inl e)
    then have "\<not> list_all carriesIndices final"
      using collectReferencedIndices_Inl [of final "{}"] by auto
    with Some Inl show ?thesis by (simp add: tryMerge_def accountsForAll_def)
  next
    case (Inr B)
    then have c: "list_all carriesIndices final" and B: "B = {i. list_ex (references i) final}"
      using collectReferencedIndices_Inr [of final "{}" B] by auto
    have g: "nat (max 0 (int (length achievements) - int (length final))) =
             length achievements - length final"
      by simp
    show ?thesis
      using Some Inr c missing_none_iff [of final "length achievements"]
      by (auto simp: tryMerge_def accountsForAll_def Let_def B g)
  qed
qed


text \<open>
  C2. For every list of N achievements and every structured response, the \<open>try\<close> block
  of \<open>mergeWorkAchievementsWithAI\<close> returns normally, with the descriptions of the
  response as its result, exactly when the response has its \<open>finalAchievements\<close>, every
  final achievement carries a non-empty \<open>originalIndices\<close> array and every index from 1
  to N appears in one of these arrays. The function returns the descriptions of the
  response when this holds and N is at least 2; if an index is missing or an array is
  empty (or N is at most 1, when the LLM is not called) the response is not used and
  the function returns the input descriptions.
\<close>

theorem mergeWorkAchievementsWithAI_response_used_iff:
  "(tryMerge achievements (LlmResolves aiResult) = Inr result \<longleftrightarrow>
      (\<exists>final. finalAchievements aiResult = Some final \<and>
         accountsForAll (length achievements) final \<and>
         result = \<lparr>out_finalAchievements = map fa_description final,
                   groupsMerged = length achievements - length final\<rparr>)) \<and>
   mergeWorkAchievementsWithAI achievements (LlmResolves aiResult) =
     (case finalAchievements aiResult of
        None \<Rightarrow> \<lparr>out_finalAchievements = map description achievements, groupsMerged = 0\<rparr>
      | Some final \<Rightarrow>
          if 1 < length achievements \<and> accountsForAll (length achievements) final
          then \<lparr>out_finalAchievements = map fa_description final,
                groupsMerged = length achievements - length final\<rparr>
          else \<lparr>out_finalAchievements = map description achievements, groupsMerged = 0\<rparr>)"
proof (rule conjI)
  show "tryMerge achievements (LlmResolves aiResult) = Inr result \<longleftrightarrow>
      (\<exists>final. finalAchievements aiResult = Some final \<and>
         accountsForAll (length achievements) final \<and>
         result = \<lparr>out_finalAchievements = map fa_description final,
                   groupsMerged = length achievements - length final\<rparr>)"
    by (rule tryMerge_Inr_iff)
next
  show "mergeWorkAchievementsWithAI achievements (LlmResolves aiResult) =
     (case finalAchievements aiResult of
        None \<Rightarrow> \<lparr>out_finalAchievements = map description achievements, groupsMerged = 0\<rparr>
      | Some final \<Rightarrow>
          if 1 < length achievements \<and> accountsForAll (length achievements) final
          then \<lparr>out_finalAchievements = map fa_description final,
                groupsMerged = length achievements - length final\<rparr>
          else \<lparr>out_finalAchievements = map description achievements, groupsMerged = 0\<rparr>)"
  proof (cases "tryMerge achievements (LlmResolves aiResult)")
    case (Inl e)
    then have "\<not> (\<exists>r. tryMerge achievements (LlmResolves aiResult) = Inr r)" by simp
    then have "\<And>final. finalAchievements aiResult = Some final \<Longrightarrow>
        \<not> accountsForAll (length achievements) final"
      unfolding tryMerge_Inr_iff by blast
    with Inl show ?thesis
      by (auto simp: mergeWorkAchievementsWithAI_def split: option.splits)
  next
    case (Inr r)
    then obtain final where "finalAchievements aiResult = Some final"
      "accountsForAll (length achievements) final"
      "r = \<lparr>out_finalAchievements = map fa_description final,
                   groupsMerged = length achievements - length final\<rparr>"
      unfolding tryMerge_Inr_iff by blast
    with Inr show ?thesis
      by (auto simp: mergeWorkAchievementsWithAI_def)
  qed
qed

theorem mergeWorkAchievementsWithAI_response_used_iff_witness:
  "mergeWorkAchievementsWithAI [salesAchievement, teamAchievement] (LlmResolves vagueResponse) =
     \<lparr>out_finalAchievements = [str ''Did work''], groupsMerged = 1\<rparr> \<and>
   mergeWorkAchievementsWithAI [salesAchievement, teamAchievement] (LlmResolves partialResponse) =
     \<lparr>out_finalAchievements = [str ''Increased sales by 20%'', str ''Led team of 5''],
      groupsMerged = 0\<rparr>"
  using mergeWorkAchievementsWithAI_response_used_iff
      [of "[salesAchievement, teamAchievement]" vagueResponse
        "\<lparr>out_finalAchievements = [str ''Did work''], groupsMerged = 1\<rparr>"]
    mergeWorkAchievementsWithAI_response_used_iff
      [of "[salesAchievement, teamAchievement]" partialResponse
        "\<lparr>out_finalAchievements = [str ''Grew sales''], groupsMerged = 1\<rparr>"]
  by (simp add: vagueResponse_def partialResponse_def salesAchievement_def teamAchievement_def
      accountsForAll_def carriesIndices_def references_def upto.simps)

text \<open>
  C3. Whenever the call to the LLM fails or validation rejects its response, an
  exception is raised inside the \<open>try\<close> block and \<open>mergeWorkAchievementsWithAI\<close> returns
  exactly the input descriptions, in input order, with \<open>groupsMerged\<close> equal to 0.
\<close>

theorem mergeWorkAchievementsWithAI_fallback:
  assumes "llm = LlmRejects \<or>
     (\<exists>aiResult. llm = LlmResolves aiResult \<and>
        (case finalAchievements aiResult of
           None \<Rightarrow> True
         | Some final \<Rightarrow> \<not> accountsForAll (length achievements) final))"
  shows "(\<exists>e. tryMerge achievements llm = Inl e) \<and>
     mergeWorkAchievementsWithAI achievements llm =
       \<lparr>out_finalAchievements = map description achievements, groupsMerged = 0\<rparr>"
proof -
  have "\<not> (\<exists>r. tryMerge achievements llm = Inr r)"
  proof (cases llm)
    case LlmRejects
    then show ?thesis by (simp add: tryMerge_def)
  next
    case (LlmResolves aiResult)
    with assms show ?thesis
      unfolding LlmResolves tryMerge_Inr_iff by (auto split: option.splits)
  qed
  then obtain e where e: "tryMerge achievements llm = Inl e"
    by (cases "tryMerge achievements llm") auto
  then show ?thesis by (simp add: mergeWorkAchievementsWithAI_def)
qed

theorem mergeWorkAchievementsWithAI_fallback_witness:
  "(\<exists>e. tryMerge [salesAchievement, teamAchievement] LlmRejects = Inl e) \<and>
   mergeWorkAchievementsWithAI [salesAchievement, teamAchievement] LlmRejects =
     \<lparr>out_finalAchievements = [str ''Increased sales by 20%'', str ''Led team of 5''],
      groupsMerged = 0\<rparr>"
  using mergeWorkAchievementsWithAI_fallback [of LlmRejects "[salesAchievement, teamAchievement]"]
  by (simp add: salesAchievement_def teamAchievement_def)

subsection \<open>What the merge step returns\<close>

lemma includesText_example:
  "includesText (str ''Increased sales by 20%'') (str ''20%'') \<and>
   \<not> includesText (str ''Did work'') (str ''20%'')"
  by (simp add: str_def)

text \<open>
  The percentage "20%" appears in an input description; the response below passes the
  validation, is returned, and mentions the percentage nowhere.
\<close>

theorem mergeWorkAchievementsWithAI_drops_metric:
  "includesText (description salesAchievement) (str ''20%'') \<and>
   out_finalAchievements
     (mergeWorkAchievementsWithAI [salesAchievement, teamAchievement] (LlmResolves vagueResponse)) =
     [str ''Did work''] \<and>
   \<not> includesText (str ''Did work'') (str ''20%'')"
  using includesText_example
  by (simp add: mergeWorkAchievementsWithAI_def tryMerge_def vagueResponse_def
      salesAchievement_def teamAchievement_def upto.simps)

lemma accountsForAll_covering:
  assumes "ds \<noteq> []" and "1 < n"
  shows "accountsForAll n
     (map (\<lambda>d. \<lparr>fa_description = d, originalIndices = Some [1..int n], action = merged\<rparr>) ds)"
proof -
  from assms(2) have ne: "[1..int n] \<noteq> []" by (simp add: upto.simps)
  obtain d ds' where ds: "ds = d # ds'" using assms(1) by (cases ds) auto
  show ?thesis
    using ne by (simp add: accountsForAll_def list_all_iff carriesIndices_def references_def ds)
qed

text \<open>
  C7, amended. \<open>mergeWorkAchievementsWithAI\<close> asks the LLM to preserve the facts and
  checks only the indices. When the input has at most one achievement or an exception
  is raised inside the \<open>try\<close> block, every text that appears in an input description
  appears in a returned description. When the input has at least two achievements, any
  non-empty list of descriptions is returned unchanged for some response of the LLM.
\<close>

theorem mergeWorkAchievementsWithAI_content:
  "((length achievements \<le> 1 \<or> tryMerge achievements llm = Inl e) \<and>
      a \<in> set achievements \<and> includesText (description a) t \<longrightarrow>
      (\<exists>d \<in> set (out_finalAchievements (mergeWorkAchievementsWithAI achievements llm)).
         includesText d t)) \<and>
   (1 < length achievements \<and> ds \<noteq> [] \<longrightarrow>
      (\<exists>aiResult.
         out_finalAchievements (mergeWorkAchievementsWithAI achievements (LlmResolves aiResult))
           = ds))"
proof (intro conjI impI)
  assume h: "(length achievements \<le> 1 \<or> tryMerge achievements llm = Inl e) \<and>
      a \<in> set achievements \<and> includesText (description a) t"
  then have "out_finalAchievements (mergeWorkAchievementsWithAI achievements llm) =
      map description achievements"
    by (auto simp: mergeWorkAchievementsWithAI_def)
  with h show "\<exists>d \<in> set (out_finalAchievements (mergeWorkAchievementsWithAI achievements llm)).
         includesText d t"
    by auto
next
  assume h: "1 < length achievements \<and> ds \<noteq> []"
  let ?final = "map (\<lambda>d. \<lparr>fa_description = d,
      originalIndices = Some [1..int (length achievements)], action = merged\<rparr>) ds"
  let ?r = "\<lparr>finalAchievements = Some ?final, reasoning = None\<rparr>"
  have "accountsForAll (length achievements) ?final"
    using h by (simp add: accountsForAll_covering)
  then have "tryMerge achievements (LlmResolves ?r) =
      Inr \<lparr>out_finalAchievements = map fa_description ?final,
           groupsMerged = length achievements - length ?final\<rparr>"
    unfolding tryMerge_Inr_iff by simp
  then have "out_finalAchievements (mergeWorkAchievementsWithAI achievements (LlmResolves ?r)) = ds"
    using h by (simp add: mergeWorkAchievementsWithAI_def comp_def)
  then show "\<exists>aiResult.
         out_finalAchievements (mergeWorkAchievementsWithAI achievements (LlmResolves aiResult))
           = ds"
    by blast
qed

theorem mergeWorkAchievementsWithAI_content_witness:
  "(\<exists>d \<in> set (out_finalAchievements
        (mergeWorkAchievementsWithAI [salesAchievement, teamAchievement] LlmRejects)).
      includesText d (str ''20%'')) \<and>
   (\<exists>aiResult. out_finalAchievements
      (mergeWorkAchievementsWithAI [salesAchievement, teamAchievement] (LlmResolves aiResult))
        = [str ''Did work''])"
  using mergeWorkAchievementsWithAI_content
    [of "[salesAchievement, teamAchievement]" LlmRejects LlmInvocationFailed salesAchievement
      "str ''20%''" "[str ''Did work'']"]
    includesText_example
  by (simp add: tryMerge_def salesAchievement_def)

subsection \<open>Requests and transactions\<close>

lemma insertWorkAchievement_apply:
  "insertWorkAchievement (d, h) w =
     (Inr (), w\<lparr>nextCuid := Suc (nextCuid w),
               database := (database w)\<lparr>workAchievementTable :=
                 workAchievementTable (database w) @
                 [\<lparr>wa_id = nextCuid w, description = d, createdAt = now w,
                   wa_workHistoryId = h\<rparr>]\<rparr>\<rparr>)"
  by (simp add: insertWorkAchievement_def andThen_def freshCuid_def modifyDatabase_def)

lemma forEach_insertWorkAchievement:
  "forEach (map (\<lambda>d. (d, h)) ds) insertWorkAchievement w =
     (Inr (), w\<lparr>nextCuid := nextCuid w + length ds,
               database := (database w)\<lparr>workAchievementTable :=
                 workAchievementTable (database w) @ newAchievementRows w h ds\<rparr>\<rparr>)"
proof (induction ds arbitrary: w)
  case Nil
  then show ?case by (simp add: succeed_def newAchievementRows_def)
next
  case (Cons d ds)
  show ?case
    by (simp add: andThen_def insertWorkAchievement_apply Cons.IH newAchievementRows_def)
qed


lemma request_apply:
  "request operation w =
     (if failing w (requestsIssued w) then (Inl RequestFailed, w\<lparr>requestsIssued := Suc (requestsIssued w)\<rparr>)
      else operation (w\<lparr>requestsIssued := Suc (requestsIssued w)\<rparr>))"
  by (simp add: request_def Let_def)

lemma filter_own_newAchievementRows:
  "filter (\<lambda>a. wa_workHistoryId a = h) (newAchievementRows w h ds) = newAchievementRows w h ds"
  by (auto simp: newAchievementRows_def filter_id_conv)

lemma filter_other_newAchievementRows:
  "filter (\<lambda>a. wa_workHistoryId a \<noteq> h) (newAchievementRows w h ds) = []"
  by (auto simp: newAchievementRows_def filter_empty_conv)

lemma filter_own_of_others:
  "filter (\<lambda>a. wa_workHistoryId a = h) (filter (\<lambda>a. wa_workHistoryId a \<noteq> h) table) = []"
  by (induction table) auto

lemma description_newAchievementRows:
  "map description (newAchievementRows w h ds) = ds"
proof -
  have "map description (newAchievementRows w h ds) = map snd (enumerate (nextCuid w) ds)"
    by (simp add: newAchievementRows_def comp_def case_prod_beta)
  then show ?thesis by (simp add: enumerate_eq_zip)
qed

lemma toWellFormed_fixed:
  "toWellFormed s = s \<longleftrightarrow> isWellFormed s"
  by (induction s rule: toWellFormed.induct)
     (auto simp: isHighSurrogate_def isLowSurrogate_def)

lemma map_toWellFormed_fixed:
  "map toWellFormed ds = ds \<longleftrightarrow> list_all isWellFormed ds"
  by (induction ds) (simp_all add: toWellFormed_fixed)

lemma storedTexts_eq:
  "storedTexts ds =
     (if list_ex hasNul ds then Inl TextRefused else Inr (map toWellFormed ds))"
  by (induction ds) (simp_all add: storedText_def)

lemma zip_constant:
  "zip ds (map (\<lambda>d. h) es) = map (\<lambda>d. (d, h)) (take (length es) ds)"
proof (induction ds arbitrary: es)
  case Nil
  then show ?case by simp
next
  case (Cons d ds)
  then show ?case by (cases es) simp_all
qed

lemma workAchievement_createMany_apply:
  "workAchievement_createMany (map (\<lambda>d. (d, h)) ds) w =
     (if failing w (requestsIssued w)
      then (Inl RequestFailed,
            w\<lparr>events := events w @ [Written WorkAchievementRows],
              requestsIssued := Suc (requestsIssued w)\<rparr>)
      else if list_ex hasNul ds
      then (Inl TextRefused,
            w\<lparr>events := events w @ [Written WorkAchievementRows],
              requestsIssued := Suc (requestsIssued w)\<rparr>)
      else (Inr (),
            w\<lparr>events := events w @ [Written WorkAchievementRows],
              requestsIssued := Suc (requestsIssued w),
              nextCuid := nextCuid w + length ds,
              database := (database w)\<lparr>workAchievementTable :=
                workAchievementTable (database w) @
                newAchievementRows w h (map toWellFormed ds)\<rparr>\<rparr>))"
proof -
  have pairs: "zip (map toWellFormed ds) (map (\<lambda>d. h) ds) = map (\<lambda>d. (toWellFormed d, h)) ds"
    by (simp add: zip_constant)
  have loop: "forEach (map (\<lambda>d. (toWellFormed d, h)) ds) insertWorkAchievement v =
     (Inr (), v\<lparr>nextCuid := nextCuid v + length ds,
               database := (database v)\<lparr>workAchievementTable :=
                 workAchievementTable (database v) @
                 newAchievementRows v h (map toWellFormed ds)\<rparr>\<rparr>)" for v
    using forEach_insertWorkAchievement [of h "map toWellFormed ds" v]
    by (simp add: comp_def)
  show ?thesis
    by (simp add: workAchievement_createMany_def writeRequest_def andThen_def emit_def
        request_apply storedTexts_eq comp_def throw_def pairs loop newAchievementRows_def)
qed

lemma applyApproved_cases:
  "applyApprovedWorkAchievements u h approved w = (r, w') \<Longrightarrow>
     (\<exists>e. r = Inl e \<and> database w' = database w) \<or>
     (r = Inr \<lparr>ap_success = True, ap_message = length approved, appliedCount = length approved\<rparr> \<and>
      find (\<lambda>wh. wh_id wh = h \<and> wh_userId wh = u) (workHistoryTable (database w)) \<noteq> None \<and>
      \<not> list_ex hasNul approved \<and>
      database w' = (database w)\<lparr>workAchievementTable :=
        filter (\<lambda>a. wa_workHistoryId a \<noteq> h) (workAchievementTable (database w)) @
        newAchievementRows w h (map toWellFormed approved)\<rparr>)"
  by (auto simp: applyApprovedWorkAchievements_def andThen_def workHistory_findFirst_def
      readRequest_def request_apply throw_def succeed_def transaction_def
      workAchievement_deleteMany_def workAchievement_createMany_apply writeRequest_def emit_def
      modifyDatabase_def newAchievementRows_def
      split: if_splits option.splits)


text \<open>
  C9. \<open>applyApprovedWorkAchievements\<close> throws when no work history with the given id
  belongs to the given user. It also throws, with no failing request, when an approved
  description contains the code unit 0, which the text column refuses; and whenever it
  throws the database is as it was. When it returns, the stored achievements of the work
  history are exactly the rows created from \<open>approvedAchievements\<close> as the text column
  keeps them, one per entry, in the given order, duplicates included, so that none of the
  rows stored before is left; their descriptions are the approved list itself exactly when
  every approved description is well formed; the other rows of the database are as
  before; and \<open>appliedCount\<close> is the length of the list. It returns whenever the work
  history exists, no request fails and no description contains the code unit 0.
\<close>

theorem applyApprovedWorkAchievements_stores:
  "(\<not> (\<exists>wh \<in> set (workHistoryTable (database w)). wh_id wh = h \<and> wh_userId wh = u) \<longrightarrow>
      (\<exists>e. fst (applyApprovedWorkAchievements u h approved w) = Inl e)) \<and>
   (list_ex hasNul approved \<longrightarrow>
      (\<exists>e. fst (applyApprovedWorkAchievements u h approved w) = Inl e)) \<and>
   (fst (applyApprovedWorkAchievements u h approved w) = Inl e \<longrightarrow>
      database (snd (applyApprovedWorkAchievements u h approved w)) = database w) \<and>
   ((\<exists>wh \<in> set (workHistoryTable (database w)). wh_id wh = h \<and> wh_userId wh = u) \<and>
      (\<forall>k. \<not> failing w k) \<and> \<not> list_ex hasNul approved \<longrightarrow>
      (\<exists>r. fst (applyApprovedWorkAchievements u h approved w) = Inr r)) \<and>
   (fst (applyApprovedWorkAchievements u h approved w) = Inr r \<longrightarrow>
      achievementsOf (database (snd (applyApprovedWorkAchievements u h approved w))) h =
        newAchievementRows w h (map toWellFormed approved) \<and>
      map description
        (achievementsOf (database (snd (applyApprovedWorkAchievements u h approved w))) h) =
        map toWellFormed approved \<and>
      (map description
        (achievementsOf (database (snd (applyApprovedWorkAchievements u h approved w))) h) =
        approved \<longleftrightarrow> list_all isWellFormed approved) \<and>
      filter (\<lambda>a. wa_workHistoryId a \<noteq> h)
        (workAchievementTable (database (snd (applyApprovedWorkAchievements u h approved w)))) =
      filter (\<lambda>a. wa_workHistoryId a \<noteq> h) (workAchievementTable (database w)) \<and>
      workHistoryTable (database (snd (applyApprovedWorkAchievements u h approved w))) =
        workHistoryTable (database w) \<and>
      userSkillTable (database (snd (applyApprovedWorkAchievements u h approved w))) =
        userSkillTable (database w) \<and>
      appliedCount r = length approved)"
proof (intro conjI impI)
  assume "\<not> (\<exists>wh \<in> set (workHistoryTable (database w)). wh_id wh = h \<and> wh_userId wh = u)"
  then have "find (\<lambda>wh. wh_id wh = h \<and> wh_userId wh = u) (workHistoryTable (database w)) = None"
    by (simp add: find_None_iff)
  then show "\<exists>e. fst (applyApprovedWorkAchievements u h approved w) = Inl e"
    by (simp add: applyApprovedWorkAchievements_def andThen_def workHistory_findFirst_def
        readRequest_def request_apply throw_def)
next
  assume nul: "list_ex hasNul approved"
  obtain r' w' where eq: "applyApprovedWorkAchievements u h approved w = (r', w')"
    by (cases "applyApprovedWorkAchievements u h approved w")
  from applyApproved_cases [OF eq] nul have "\<exists>e. r' = Inl e" by blast
  then show "\<exists>e. fst (applyApprovedWorkAchievements u h approved w) = Inl e"
    by (simp add: eq)
next
  assume l: "fst (applyApprovedWorkAchievements u h approved w) = Inl e"
  obtain r' w' where eq: "applyApprovedWorkAchievements u h approved w = (r', w')"
    by (cases "applyApprovedWorkAchievements u h approved w")
  with l have "r' = Inl e" by simp
  with applyApproved_cases [OF eq] have "database w' = database w" by auto
  then show "database (snd (applyApprovedWorkAchievements u h approved w)) = database w"
    by (simp add: eq)
next
  assume a: "(\<exists>wh \<in> set (workHistoryTable (database w)). wh_id wh = h \<and> wh_userId wh = u) \<and>
      (\<forall>k. \<not> failing w k) \<and> \<not> list_ex hasNul approved"
  then obtain found where
    "find (\<lambda>wh. wh_id wh = h \<and> wh_userId wh = u) (workHistoryTable (database w)) = Some found"
    by (cases "find (\<lambda>wh. wh_id wh = h \<and> wh_userId wh = u) (workHistoryTable (database w))")
       (auto simp: find_None_iff)
  with a show "\<exists>r. fst (applyApprovedWorkAchievements u h approved w) = Inr r"
    by (simp add: applyApprovedWorkAchievements_def andThen_def workHistory_findFirst_def
      readRequest_def request_apply throw_def succeed_def transaction_def
      workAchievement_deleteMany_def workAchievement_createMany_apply writeRequest_def emit_def
      modifyDatabase_def)
next
  assume r: "fst (applyApprovedWorkAchievements u h approved w) = Inr r"
  obtain r' w' where eq: "applyApprovedWorkAchievements u h approved w = (r', w')"
    by (cases "applyApprovedWorkAchievements u h approved w")
  with r have r': "r' = Inr r" by simp
  from applyApproved_cases [OF eq] r'
  have res: "r = \<lparr>ap_success = True, ap_message = length approved, appliedCount = length approved\<rparr>"
    and db: "database w' = (database w)\<lparr>workAchievementTable :=
        filter (\<lambda>a. wa_workHistoryId a \<noteq> h) (workAchievementTable (database w)) @
        newAchievementRows w h (map toWellFormed approved)\<rparr>"
    by auto
  show "achievementsOf (database (snd (applyApprovedWorkAchievements u h approved w))) h =
        newAchievementRows w h (map toWellFormed approved)"
    by (simp add: eq db achievementsOf_def filter_own_newAchievementRows filter_own_of_others)
  show stored: "map description
        (achievementsOf (database (snd (applyApprovedWorkAchievements u h approved w))) h) =
        map toWellFormed approved"
    by (simp add: eq db achievementsOf_def filter_own_newAchievementRows filter_own_of_others
        description_newAchievementRows)
  show "map description
        (achievementsOf (database (snd (applyApprovedWorkAchievements u h approved w))) h) =
        approved \<longleftrightarrow> list_all isWellFormed approved"
    unfolding stored by (rule map_toWellFormed_fixed)
  show "filter (\<lambda>a. wa_workHistoryId a \<noteq> h)
        (workAchievementTable (database (snd (applyApprovedWorkAchievements u h approved w)))) =
      filter (\<lambda>a. wa_workHistoryId a \<noteq> h) (workAchievementTable (database w))"
    by (simp add: eq db filter_other_newAchievementRows)
  show "workHistoryTable (database (snd (applyApprovedWorkAchievements u h approved w))) =
        workHistoryTable (database w)"
    by (simp add: eq db)
  show "userSkillTable (database (snd (applyApprovedWorkAchievements u h approved w))) =
        userSkillTable (database w)"
    by (simp add: eq db)
  show "appliedCount r = length approved"
    by (simp add: res)
qed

lemmas apply_eval =
  applyApprovedWorkAchievements_def andThen_def workHistory_findFirst_def
  readRequest_def request_apply throw_def succeed_def transaction_def
  workAchievement_deleteMany_def workAchievement_createMany_def writeRequest_def emit_def
  modifyDatabase_def insertWorkAchievement_apply storedText_def exampleWorld_def
  acmeHistory_def storedAchievement_def hasNul_def isHighSurrogate_def isLowSurrogate_def

lemma applyApproved_example:
  "applyApprovedWorkAchievements 7 10 [str ''A'', str ''A''] exampleWorld =
     (Inr \<lparr>ap_success = True, ap_message = 2, appliedCount = 2\<rparr>,
      exampleWorld\<lparr>database := (database exampleWorld)\<lparr>workAchievementTable :=
          [storedAchievement 21 ''Cut costs'' 11,
           \<lparr>wa_id = 100, description = str ''A'', createdAt = Date 1700000000000 2023 10,
             wa_workHistoryId = 10\<rparr>,
           \<lparr>wa_id = 101, description = str ''A'', createdAt = Date 1700000000000 2023 10,
             wa_workHistoryId = 10\<rparr>]\<rparr>,
        requestsIssued := 4, nextCuid := 102,
        events := [Written WorkAchievementRows, Written WorkAchievementRows]\<rparr>)"
  by (simp add: apply_eval str_def)

theorem applyApprovedWorkAchievements_stores_witness:
  "(\<exists>e. fst (applyApprovedWorkAchievements 8 10 [str ''A'', str ''A''] exampleWorld) = Inl e) \<and>
   (\<exists>e. fst (applyApprovedWorkAchievements 7 10 [[0]] exampleWorld) = Inl e) \<and>
   database (snd (applyApprovedWorkAchievements 7 10 [[0]] exampleWorld)) =
     database exampleWorld \<and>
   (\<exists>r. fst (applyApprovedWorkAchievements 7 10 [str ''A'', str ''A''] exampleWorld) = Inr r) \<and>
   map description (achievementsOf
     (database (snd (applyApprovedWorkAchievements 7 10 [str ''A'', str ''A''] exampleWorld))) 10)
     = [str ''A'', str ''A'']"
proof -
  have none: "\<not> (\<exists>wh \<in> set (workHistoryTable (database exampleWorld)).
      wh_id wh = 10 \<and> wh_userId wh = 8)"
    by (simp add: exampleWorld_def acmeHistory_def)
  have some: "(\<exists>wh \<in> set (workHistoryTable (database exampleWorld)).
      wh_id wh = 10 \<and> wh_userId wh = 7) \<and> (\<forall>k. \<not> failing exampleWorld k) \<and>
      \<not> list_ex hasNul [str ''A'', str ''A'']"
    by (simp add: exampleWorld_def acmeHistory_def hasNul_def str_def)
  have nul: "list_ex hasNul [[0]]"
    by (simp add: hasNul_def)
  have refused: "fst (applyApprovedWorkAchievements 7 10 [[0]] exampleWorld) = Inl TextRefused"
    by (simp add: apply_eval)
  have ret: "fst (applyApprovedWorkAchievements 7 10 [str ''A'', str ''A''] exampleWorld) =
      Inr \<lparr>ap_success = True, ap_message = 2, appliedCount = 2\<rparr>"
    by (simp add: applyApproved_example)
  have fixed: "map toWellFormed [str ''A'', str ''A''] = [str ''A'', str ''A'']"
    by (simp add: str_def isHighSurrogate_def isLowSurrogate_def)
  from applyApprovedWorkAchievements_stores
      [of exampleWorld 10 8 "[str ''A'', str ''A'']"] none
  have 1: "\<exists>e. fst (applyApprovedWorkAchievements 8 10 [str ''A'', str ''A''] exampleWorld) = Inl e"
    by blast
  from applyApprovedWorkAchievements_stores
      [of exampleWorld 10 7 "[[0]]" TextRefused] nul refused
  have 2: "(\<exists>e. fst (applyApprovedWorkAchievements 7 10 [[0]] exampleWorld) = Inl e) \<and>
     database (snd (applyApprovedWorkAchievements 7 10 [[0]] exampleWorld)) =
       database exampleWorld"
    by blast
  from applyApprovedWorkAchievements_stores
      [of exampleWorld 10 7 "[str ''A'', str ''A'']" _
        "\<lparr>ap_success = True, ap_message = 2, appliedCount = 2\<rparr>"] some ret
  have 3: "(\<exists>r. fst (applyApprovedWorkAchievements 7 10 [str ''A'', str ''A''] exampleWorld) = Inr r) \<and>
     map description (achievementsOf
     (database (snd (applyApprovedWorkAchievements 7 10 [str ''A'', str ''A''] exampleWorld))) 10)
     = map toWellFormed [str ''A'', str ''A'']"
    by blast
  from 1 2 3 show ?thesis unfolding fixed by blast
qed

text \<open>
  The claim as the specification words it, that the stored achievements are exactly the
  approved list, fails for an approved description that is a lone surrogate: the call
  returns, and the stored description is U+FFFD.
\<close>

theorem applyApprovedWorkAchievements_lone_surrogate:
  "fst (applyApprovedWorkAchievements 7 10 [[55296]] exampleWorld) =
     Inr \<lparr>ap_success = True, ap_message = 1, appliedCount = 1\<rparr> \<and>
   map description (achievementsOf
     (database (snd (applyApprovedWorkAchievements 7 10 [[55296]] exampleWorld))) 10) =
     [[65533]]"
  by (simp add: apply_eval achievementsOf_def)

subsection \<open>deduplicateAndMergeWorkAchievements\<close>

lemma workHistory_findFirst_apply:
  "workHistory_findFirst P w =
     (if failing w (requestsIssued w)
      then (Inl RequestFailed, w\<lparr>requestsIssued := Suc (requestsIssued w)\<rparr>)
      else (Inr (find P (workHistoryTable (database w))),
            w\<lparr>requestsIssued := Suc (requestsIssued w)\<rparr>))"
  by (simp add: workHistory_findFirst_def readRequest_def request_apply)

lemma workAchievement_findMany_apply:
  "workAchievement_findMany P w =
     (if failing w (requestsIssued w)
      then (Inl RequestFailed, w\<lparr>requestsIssued := Suc (requestsIssued w)\<rparr>)
      else (Inr (sort_key createdAtTime (filter P (workAchievementTable (database w)))),
            w\<lparr>requestsIssued := Suc (requestsIssued w)\<rparr>))"
  by (simp add: workAchievement_findMany_def readRequest_def request_apply)

text \<open>
  The awaited call resolves to the value of \<open>mergeWorkAchievementsWithAI\<close> and touches
  nothing but the count of invocations, which goes up by one exactly when more than one
  achievement is passed.
\<close>

lemma awaitMergeWorkAchievementsWithAI_resolves:
  "awaitMergeWorkAchievementsWithAI achievements llm w =
     (Inr (mergeWorkAchievementsWithAI achievements llm),
      if length achievements \<le> 1 then w
      else w\<lparr>llmInvocations := Suc (llmInvocations w)\<rparr>)"
  by (simp add: awaitMergeWorkAchievementsWithAI_def mergeWorkAchievementsWithAI_def
      andThen_def invokeLlm_def succeed_def)

text \<open>
  C8. For every work history, user, answer of the LLM and pattern of failing requests,
  a call of \<open>deduplicateAndMergeWorkAchievements\<close> with \<open>dryRun = true\<close> sends no write
  to the database and leaves every table, the stored \<open>WorkAchievement\<close> rows among them,
  as it was.
\<close>

theorem deduplicateAndMergeWorkAchievements_dryRun:
  "database (snd (deduplicateAndMergeWorkAchievements toLowerCase llm userId workHistoryId True w))
     = database w \<and>
   events (snd (deduplicateAndMergeWorkAchievements toLowerCase llm userId workHistoryId True w))
     = events w"
  by (simp add: deduplicateAndMergeWorkAchievements_def andThen_def
      workHistory_findFirst_apply workAchievement_findMany_apply throw_def succeed_def Let_def
      awaitMergeWorkAchievementsWithAI_resolves split: option.splits)

text \<open>
  C10. Whenever a work history owned by the user has at most one achievement and the two
  reads succeed, \<open>deduplicateAndMergeWorkAchievements\<close> returns with \<open>success = true\<close>,
  \<open>originalCount\<close> and \<open>finalCount\<close> both the number of achievements, no exact duplicate
  removed, no group merged and an empty preview; the result is the same whatever the
  LLM would answer and whatever \<open>dryRun\<close> is, \<open>llm.invoke\<close> is not called (the count of
  its calls is as before), no write is sent and the database is as it was.
\<close>

theorem deduplicateAndMergeWorkAchievements_nothing_to_do:
  assumes "\<exists>wh \<in> set (workHistoryTable (database w)).
             wh_id wh = workHistoryId \<and> wh_userId wh = userId"
    and "length (achievementsOf (database w) workHistoryId) \<le> 1"
    and "\<not> failing w (requestsIssued w)"
    and "\<not> failing w (Suc (requestsIssued w))"
  shows "fst (deduplicateAndMergeWorkAchievements toLowerCase llm userId workHistoryId dryRun w) =
       Inr \<lparr>success = True, message = NoDeduplicationNeeded,
            originalCount = length (achievementsOf (database w) workHistoryId),
            finalCount = length (achievementsOf (database w) workHistoryId),
            res_exactDuplicatesRemoved = 0, similarGroupsMerged = 0, preview = []\<rparr> \<and>
     database (snd (deduplicateAndMergeWorkAchievements toLowerCase llm userId workHistoryId dryRun w))
       = database w \<and>
     events (snd (deduplicateAndMergeWorkAchievements toLowerCase llm userId workHistoryId dryRun w))
       = events w \<and>
     llmInvocations
       (snd (deduplicateAndMergeWorkAchievements toLowerCase llm userId workHistoryId dryRun w))
       = llmInvocations w"
proof -
  from assms(1) obtain found where
    "find (\<lambda>wh. wh_id wh = workHistoryId \<and> wh_userId wh = userId)
       (workHistoryTable (database w)) = Some found"
    by (cases "find (\<lambda>wh. wh_id wh = workHistoryId \<and> wh_userId wh = userId)
       (workHistoryTable (database w))") (auto simp: find_None_iff)
  with assms(2-4) show ?thesis
    by (simp add: deduplicateAndMergeWorkAchievements_def andThen_def
        workHistory_findFirst_apply workAchievement_findMany_apply succeed_def
        achievementsOf_def)
qed

theorem deduplicateAndMergeWorkAchievements_nothing_to_do_witness:
  "fst (deduplicateAndMergeWorkAchievements asciiLower LlmRejects 7 10 False singleWorld) =
     Inr \<lparr>success = True, message = NoDeduplicationNeeded, originalCount = 1, finalCount = 1,
          res_exactDuplicatesRemoved = 0, similarGroupsMerged = 0, preview = []\<rparr> \<and>
   database (snd (deduplicateAndMergeWorkAchievements asciiLower LlmRejects 7 10 False singleWorld))
     = database singleWorld \<and>
   llmInvocations
     (snd (deduplicateAndMergeWorkAchievements asciiLower LlmRejects 7 10 False singleWorld)) = 0"
  using deduplicateAndMergeWorkAchievements_nothing_to_do
    [of singleWorld 10 7 asciiLower LlmRejects False]
  by (simp add: singleWorld_def acmeHistory_def storedAchievement_def achievementsOf_def)

subsection \<open>mergeWorkHistoryRecords\<close>

lemma requestsSucceeded_iff:
  "requestsSucceeded w w' \<longleftrightarrow>
     (\<forall>k. requestsIssued w \<le> k \<and> k < requestsIssued w' \<longrightarrow> \<not> failing w k)"
  by (auto simp: requestsSucceeded_def list_all_iff)

lemma ranWithoutFailure_refl: "ranWithoutFailure w w"
  by (auto simp: ranWithoutFailure_def requestsSucceeded_iff)

lemma ranWithoutFailure_trans:
  "ranWithoutFailure a b \<Longrightarrow> ranWithoutFailure b c \<Longrightarrow> ranWithoutFailure a c"
  unfolding ranWithoutFailure_def requestsSucceeded_iff
  by (metis le_trans not_le_imp_less)

lemma ranWithoutFailure_one:
  assumes "\<not> failing w (requestsIssued w)"
    and "failing w' = failing w" and "now w' = now w" and "dateColumn w' = dateColumn w"
    and "requestsIssued w' = Suc (requestsIssued w)"
  shows "ranWithoutFailure w w'"
  using assms unfolding ranWithoutFailure_def requestsSucceeded_iff
  by (auto simp: less_Suc_eq_le)

lemma andThen_Inr_iff:
  "andThen m f w = (Inr v, w') \<longleftrightarrow> (\<exists>u w1. m w = (Inr u, w1) \<and> f u w1 = (Inr v, w'))"
  by (auto simp: andThen_def split: prod.splits sum.splits)

lemma andThen_Inl_iff:
  "andThen m f w = (Inl e, w') \<longleftrightarrow>
     m w = (Inl e, w') \<or> (\<exists>u w1. m w = (Inr u, w1) \<and> f u w1 = (Inl e, w'))"
  by (auto simp: andThen_def split: prod.splits sum.splits)

lemma transaction_Inl:
  "transaction body w = (Inl e, w') \<Longrightarrow> database w' = database w"
  by (auto simp: transaction_def split: prod.splits sum.splits)

lemma transaction_Inr:
  assumes "transaction body w = (Inr v, w')"
  shows "\<exists>w1. body w = (Inr v, w1) \<and> ranWithoutFailure w1 w' \<and> database w' = database w1 \<and>
     nextCuid w' = nextCuid w1 \<and> events w' = events w1"
proof -
  from assms obtain w1 where b: "body w = (Inr v, w1)"
    and c: "request (succeed ()) w1 = (Inr (), w')"
    by (auto simp: transaction_def andThen_def succeed_def split: prod.splits sum.splits)
  from c have "\<not> failing w1 (requestsIssued w1)" and "w' = w1\<lparr>requestsIssued := Suc (requestsIssued w1)\<rparr>"
    by (auto simp: request_apply succeed_def split: if_splits)
  then have "ranWithoutFailure w1 w'" "database w' = database w1" "nextCuid w' = nextCuid w1"
    "events w' = events w1"
    by (simp_all add: ranWithoutFailure_one)
  with b show ?thesis by blast
qed

lemma findMany_withRelations_cases:
  assumes "workHistory_findMany_withRelations P w = (r, w')"
  shows "database w' = database w \<and> nextCuid w' = nextCuid w \<and> now w' = now w \<and>
     (\<forall>v. r = Inr v \<longrightarrow> ranWithoutFailure w w' \<and> events w' = events w \<and>
        v = map (withRelations (database w)) (filter P (workHistoryTable (database w))))"
  using assms
  by (auto simp: workHistory_findMany_withRelations_def readRequest_def request_apply
      ranWithoutFailure_one split: if_splits)

lemma storedDate_cong:
  "dateColumn w' = dateColumn w \<Longrightarrow> storedDate w' = storedDate w"
  by (rule ext) (simp add: storedDate_def)

lemma storedColumns_cong:
  assumes "dateColumn w' = dateColumn w"
  shows "storedColumns w' data = storedColumns w data"
  unfolding storedColumns_def storedDate_cong [OF assms] ..

lemma workHistory_update_apply:
  "workHistory_update i data w =
     (if failing w (requestsIssued w)
      then (Inl RequestFailed,
            w\<lparr>events := events w @ [Written WorkHistoryRows],
              requestsIssued := Suc (requestsIssued w)\<rparr>)
      else
        (case find (\<lambda>wh. wh_id wh = i) (workHistoryTable (database w)) of
           None \<Rightarrow>
             (Inl RecordNotFound,
              w\<lparr>events := events w @ [Written WorkHistoryRows],
                requestsIssued := Suc (requestsIssued w)\<rparr>)
         | Some row \<Rightarrow>
             (case storedColumns w data of
                Inl e \<Rightarrow>
                  (Inl e,
                   w\<lparr>events := events w @ [Written WorkHistoryRows],
                     requestsIssued := Suc (requestsIssued w)\<rparr>)
              | Inr stored \<Rightarrow>
                  (Inr (assignColumns stored row),
                   w\<lparr>events := events w @ [Written WorkHistoryRows],
                     requestsIssued := Suc (requestsIssued w),
                     database := (database w)\<lparr>workHistoryTable :=
                       map (\<lambda>wh. if wh_id wh = i then assignColumns stored wh else wh)
                         (workHistoryTable (database w))\<rparr>\<rparr>))))"
proof -
  have "storedColumns
      (w\<lparr>events := events w @ [Written WorkHistoryRows],
         requestsIssued := Suc (requestsIssued w)\<rparr>) data = storedColumns w data"
    by (rule storedColumns_cong) simp
  then show ?thesis
    by (simp add: workHistory_update_def writeRequest_def andThen_def emit_def request_apply
        split: option.splits sum.splits)
qed

lemma workHistory_update_Inr:
  assumes "workHistory_update i data w = (Inr v, w')"
  shows "ranWithoutFailure w w' \<and> nextCuid w' = nextCuid w \<and>
     (\<exists>stored.
        storedColumns w data = Inr stored \<and>
        (\<exists>row. find (\<lambda>wh. wh_id wh = i) (workHistoryTable (database w)) = Some row \<and>
           v = assignColumns stored row) \<and>
        database w' = (database w)\<lparr>workHistoryTable :=
          map (\<lambda>wh. if wh_id wh = i then assignColumns stored wh else wh)
            (workHistoryTable (database w))\<rparr>)"
  using assms
  by (auto simp: workHistory_update_apply ranWithoutFailure_one
      split: if_splits option.splits sum.splits)

lemma newAchievementRows_cong:
  "nextCuid w' = nextCuid w \<Longrightarrow> now w' = now w \<Longrightarrow>
   newAchievementRows w' h ds = newAchievementRows w h ds"
  by (simp add: newAchievementRows_def)

lemma workAchievement_createMany_Inr:
  assumes "workAchievement_createMany (map (\<lambda>d. (d, h)) ds) w = (Inr v, w')"
  shows "ranWithoutFailure w w' \<and> nextCuid w' = nextCuid w + length ds \<and>
     \<not> list_ex hasNul ds \<and>
     database w' = (database w)\<lparr>workAchievementTable :=
        workAchievementTable (database w) @ newAchievementRows w h (map toWellFormed ds)\<rparr>"
  using assms
  by (auto simp: workAchievement_createMany_apply ranWithoutFailure_one split: if_splits)

lemma userSkill_update_Inr:
  assumes "userSkill_update i h None w = (Inr v, w')"
  shows "ranWithoutFailure w w' \<and> nextCuid w' = nextCuid w \<and>
     database w' = (database w)\<lparr>userSkillTable :=
        map (\<lambda>s. if us_id s = i then s\<lparr>us_workHistoryId := Some h\<rparr> else s)
          (userSkillTable (database w))\<rparr>"
  using assms
  by (auto simp: userSkill_update_def writeRequest_def andThen_def emit_def request_apply
      storedOptional_def attachSkill_def ranWithoutFailure_one
      split: if_splits option.splits)

lemma userSkill_delete_Inr:
  assumes "userSkill_delete i w = (Inr v, w')"
  shows "ranWithoutFailure w w' \<and> nextCuid w' = nextCuid w \<and>
     database w' = (database w)\<lparr>userSkillTable :=
        filter (\<lambda>s. us_id s \<noteq> i) (userSkillTable (database w))\<rparr>"
  using assms
  by (auto simp: userSkill_delete_def writeRequest_def andThen_def emit_def request_apply
      ranWithoutFailure_one split: if_splits option.splits)

lemma workHistory_deleteMany_Inr:
  assumes "workHistory_deleteMany P w = (Inr v, w')"
  shows "ranWithoutFailure w w' \<and> nextCuid w' = nextCuid w \<and>
     database w' =
       \<lparr>workHistoryTable = filter (\<lambda>wh. \<not> P wh) (workHistoryTable (database w)),
        workAchievementTable =
          filter (\<lambda>a. wa_workHistoryId a \<notin>
              set (map wh_id (filter P (workHistoryTable (database w)))))
            (workAchievementTable (database w)),
        userSkillTable =
          map (\<lambda>s. case us_workHistoryId s of
                      None \<Rightarrow> s
                    | Some h \<Rightarrow>
                        if h \<in> set (map wh_id (filter P (workHistoryTable (database w))))
                        then s\<lparr>us_workHistoryId := None\<rparr> else s)
            (userSkillTable (database w))\<rparr>"
  using assms
  by (auto simp: workHistory_deleteMany_def writeRequest_def andThen_def emit_def request_apply
      modifyDatabase_def ranWithoutFailure_one Let_def split: if_splits cong: option.case_cong)


lemma moveSkills_Cons:
  "moveSkills p ids (s # todo) =
     andThen
       (if skillId s \<notin> ids
        then andThen (userSkill_update (us_id s) p None) (\<lambda>_. succeed ())
        else andThen (userSkill_delete (us_id s)) (\<lambda>_. succeed ()))
       (\<lambda>_. moveSkills p ids todo)"
  by (simp add: moveSkills_def)

lemma moved_after_move:
  "map (\<lambda>s. if us_id s \<in> M then s\<lparr>us_workHistoryId := Some p\<rparr> else s)
     (filter (\<lambda>s. us_id s \<notin> D)
        (map (\<lambda>s. if us_id s = i then s\<lparr>us_workHistoryId := Some p\<rparr> else s) T)) =
   map (\<lambda>s. if us_id s \<in> insert i M then s\<lparr>us_workHistoryId := Some p\<rparr> else s)
     (filter (\<lambda>s. us_id s \<notin> D) T)"
  by (induction T) auto

lemma moved_after_delete:
  "map f (filter (\<lambda>s. us_id s \<notin> D) (filter (\<lambda>s. us_id s \<noteq> i) T)) =
   map f (filter (\<lambda>s. us_id s \<notin> insert i D) T)"
  by (induction T) auto

lemma moveSkills_Inr:
  "moveSkills p ids todo w = (Inr v, w') \<Longrightarrow>
     ranWithoutFailure w w' \<and> nextCuid w' = nextCuid w \<and>
     database w' = (database w)\<lparr>userSkillTable :=
        map (\<lambda>s. if us_id s \<in> us_id ` {t \<in> set todo. skillId t \<notin> ids}
                  then s\<lparr>us_workHistoryId := Some p\<rparr> else s)
          (filter (\<lambda>s. us_id s \<notin> us_id ` {t \<in> set todo. skillId t \<in> ids})
             (userSkillTable (database w)))\<rparr>"
proof (induction todo arbitrary: w)
  case Nil
  then show ?case
    by (simp add: moveSkills_def succeed_def ranWithoutFailure_refl)
next
  case (Cons s todo)
  let ?mv = "\<lambda>s. s\<lparr>us_workHistoryId := Some p\<rparr>"
  let ?M = "us_id ` {t \<in> set todo. skillId t \<notin> ids}"
  let ?D = "us_id ` {t \<in> set todo. skillId t \<in> ids}"
  show ?case
  proof (cases "skillId s \<notin> ids")
    case True
    with Cons.prems obtain u w1 where
      1: "userSkill_update (us_id s) p None w = (Inr u, w1)"
      and 2: "moveSkills p ids todo w1 = (Inr v, w')"
      by (auto simp: moveSkills_Cons andThen_Inr_iff succeed_def)
    note a = userSkill_update_Inr [OF 1]
    note b = Cons.IH [OF 2]
    have M: "us_id ` {t \<in> set (s # todo). skillId t \<notin> ids} = insert (us_id s) ?M"
      using True by auto
    have D: "us_id ` {t \<in> set (s # todo). skillId t \<in> ids} = ?D"
      using True by auto
    have "ranWithoutFailure w w'"
      using a b by (blast intro: ranWithoutFailure_trans)
    moreover have "nextCuid w' = nextCuid w" using a b by simp
    moreover have "database w' = (database w)\<lparr>userSkillTable :=
        map (\<lambda>s. if us_id s \<in> insert (us_id s0) ?M then ?mv s else s)
          (filter (\<lambda>s. us_id s \<notin> ?D) (userSkillTable (database w)))\<rparr>" if "s0 = s" for s0
      using a b that by (simp add: moved_after_move)
    ultimately show ?thesis unfolding M D by blast
  next
    case False
    with Cons.prems obtain u w1 where
      1: "userSkill_delete (us_id s) w = (Inr u, w1)"
      and 2: "moveSkills p ids todo w1 = (Inr v, w')"
      by (auto simp: moveSkills_Cons andThen_Inr_iff succeed_def)
    note a = userSkill_delete_Inr [OF 1]
    note b = Cons.IH [OF 2]
    have M: "us_id ` {t \<in> set (s # todo). skillId t \<notin> ids} = ?M"
      using False by auto
    have D: "us_id ` {t \<in> set (s # todo). skillId t \<in> ids} = insert (us_id s) ?D"
      using False by auto
    have "ranWithoutFailure w w'"
      using a b by (blast intro: ranWithoutFailure_trans)
    moreover have "nextCuid w' = nextCuid w" using a b by simp
    moreover have "database w' = (database w)\<lparr>userSkillTable :=
        map (\<lambda>s. if us_id s \<in> ?M then ?mv s else s)
          (filter (\<lambda>s. us_id s \<notin> insert (us_id s0) ?D) (userSkillTable (database w)))\<rparr>"
      if "s0 = s" for s0
      using a b that by (simp add: moved_after_delete)
    ultimately show ?thesis unfolding M D by blast
  qed
qed



lemma mergeTransaction_Inr:
  assumes run: "mergeTransaction newDate u p sec md primaryRecord secondaryRecords w = (Inr v, w')"
  defines "unique \<equiv> filter (\<lambda>d. d \<notin> set (map description (wh_achievements primaryRecord)))
      (concat (map (\<lambda>r. map description (wh_achievements r)) secondaryRecords))"
    and "todo \<equiv> concat (map wh_userSkills secondaryRecords)"
    and "ids \<equiv> set (map skillId (wh_userSkills primaryRecord))"
    and "P \<equiv> \<lambda>wh. wh_id wh \<in> set sec \<and> wh_userId wh = u"
    and "updated \<equiv> \<lambda>c. map (\<lambda>wh. if wh_id wh = p then assignColumns c wh else wh)
      (workHistoryTable (database w))"
  shows "ranWithoutFailure w w' \<and> \<not> list_ex hasNul unique \<and>
     (\<exists>c. storedColumns w (mergedData newDate md) = Inr c \<and>
     (\<exists>row. find (\<lambda>wh. wh_id wh = p) (workHistoryTable (database w)) = Some row \<and>
        v = assignColumns c row) \<and>
     database w' =
       \<lparr>workHistoryTable = filter (\<lambda>wh. \<not> P wh) (updated c),
        workAchievementTable =
          filter (\<lambda>a. wa_workHistoryId a \<notin> set (map wh_id (filter P (updated c))))
            (workAchievementTable (database w) @
             newAchievementRows w p (map toWellFormed unique)),
        userSkillTable =
          map (\<lambda>s. case us_workHistoryId s of
                      None \<Rightarrow> s
                    | Some h \<Rightarrow>
                        if h \<in> set (map wh_id (filter P (updated c)))
                        then s\<lparr>us_workHistoryId := None\<rparr> else s)
            (map (\<lambda>s. if us_id s \<in> us_id ` {t \<in> set todo. skillId t \<notin> ids}
                      then s\<lparr>us_workHistoryId := Some p\<rparr> else s)
               (filter (\<lambda>s. us_id s \<notin> us_id ` {t \<in> set todo. skillId t \<in> ids})
                  (userSkillTable (database w))))\<rparr>)"
proof -
  from run obtain w1 w2 w3 x2 x3 x4 where
    1: "workHistory_update p (mergedData newDate md) w = (Inr v, w1)"
    and 2: "(if length unique > 0
             then workAchievement_createMany (map (\<lambda>d. (d, p)) unique)
             else succeed ()) w1 = (Inr x2, w2)"
    and 3: "moveSkills p ids todo w2 = (Inr x3, w3)"
    and 4: "workHistory_deleteMany P w3 = (Inr x4, w')"
    unfolding mergeTransaction_def Let_def andThen_Inr_iff unique_def todo_def ids_def P_def
      succeed_def
    by blast
  from workHistory_update_Inr [OF 1] obtain c where
    a1: "ranWithoutFailure w w1" and a2: "nextCuid w1 = nextCuid w"
    and a0: "storedColumns w (mergedData newDate md) = Inr c"
    and a3: "\<exists>row. find (\<lambda>wh. wh_id wh = p) (workHistoryTable (database w)) = Some row \<and>
        v = assignColumns c row"
    and a4: "database w1 = (database w)\<lparr>workHistoryTable := updated c\<rparr>"
    unfolding updated_def by blast
  have b: "ranWithoutFailure w1 w2 \<and> \<not> list_ex hasNul unique \<and>
     database w2 = (database w1)\<lparr>workAchievementTable :=
        workAchievementTable (database w1) @ newAchievementRows w1 p (map toWellFormed unique)\<rparr>"
  proof (cases "length unique > 0")
    case True
    with 2 have "workAchievement_createMany (map (\<lambda>d. (d, p)) unique) w1 = (Inr x2, w2)"
      by simp
    from workAchievement_createMany_Inr [OF this] show ?thesis by blast
  next
    case False
    with 2 have "w2 = w1" and "unique = []" by (simp_all add: succeed_def)
    then show ?thesis by (simp add: ranWithoutFailure_refl newAchievementRows_def)
  qed
  then have b1: "ranWithoutFailure w1 w2"
    and b0: "\<not> list_ex hasNul unique"
    and b2: "database w2 = (database w1)\<lparr>workAchievementTable :=
        workAchievementTable (database w1) @ newAchievementRows w1 p (map toWellFormed unique)\<rparr>"
    by blast+
  from moveSkills_Inr [OF 3]
  have c1: "ranWithoutFailure w2 w3"
    and c3: "database w3 = (database w2)\<lparr>userSkillTable :=
        map (\<lambda>s. if us_id s \<in> us_id ` {t \<in> set todo. skillId t \<notin> ids}
                  then s\<lparr>us_workHistoryId := Some p\<rparr> else s)
          (filter (\<lambda>s. us_id s \<notin> us_id ` {t \<in> set todo. skillId t \<in> ids})
             (userSkillTable (database w2)))\<rparr>"
    by blast+
  from workHistory_deleteMany_Inr [OF 4]
  have d1: "ranWithoutFailure w3 w'"
    and d3: "database w' =
       \<lparr>workHistoryTable = filter (\<lambda>wh. \<not> P wh) (workHistoryTable (database w3)),
        workAchievementTable =
          filter (\<lambda>a. wa_workHistoryId a \<notin>
              set (map wh_id (filter P (workHistoryTable (database w3)))))
            (workAchievementTable (database w3)),
        userSkillTable =
          map (\<lambda>s. case us_workHistoryId s of
                      None \<Rightarrow> s
                    | Some h \<Rightarrow>
                        if h \<in> set (map wh_id (filter P (workHistoryTable (database w3))))
                        then s\<lparr>us_workHistoryId := None\<rparr> else s)
            (userSkillTable (database w3))\<rparr>"
    by blast+
  have "now w1 = now w" using a1 by (simp add: ranWithoutFailure_def)
  with a2 have rows: "newAchievementRows w1 p (map toWellFormed unique) =
      newAchievementRows w p (map toWellFormed unique)"
    by (rule newAchievementRows_cong)
  have wh3: "workHistoryTable (database w3) = updated c"
    by (simp add: c3 b2 a4)
  have ach3: "workAchievementTable (database w3) =
      workAchievementTable (database w) @ newAchievementRows w p (map toWellFormed unique)"
    by (simp add: c3 b2 a4 rows)
  have us3: "userSkillTable (database w3) =
      map (\<lambda>s. if us_id s \<in> us_id ` {t \<in> set todo. skillId t \<notin> ids}
                  then s\<lparr>us_workHistoryId := Some p\<rparr> else s)
          (filter (\<lambda>s. us_id s \<notin> us_id ` {t \<in> set todo. skillId t \<in> ids})
             (userSkillTable (database w)))"
    by (simp add: c3 b2 a4)
  have run': "ranWithoutFailure w w'"
    using a1 b1 c1 d1 by (blast intro: ranWithoutFailure_trans)
  have db': "database w' =
       \<lparr>workHistoryTable = filter (\<lambda>wh. \<not> P wh) (updated c),
        workAchievementTable =
          filter (\<lambda>a. wa_workHistoryId a \<notin> set (map wh_id (filter P (updated c))))
            (workAchievementTable (database w) @
             newAchievementRows w p (map toWellFormed unique)),
        userSkillTable =
          map (\<lambda>s. case us_workHistoryId s of
                      None \<Rightarrow> s
                    | Some h \<Rightarrow>
                        if h \<in> set (map wh_id (filter P (updated c)))
                        then s\<lparr>us_workHistoryId := None\<rparr> else s)
            (map (\<lambda>s. if us_id s \<in> us_id ` {t \<in> set todo. skillId t \<notin> ids}
                      then s\<lparr>us_workHistoryId := Some p\<rparr> else s)
               (filter (\<lambda>s. us_id s \<notin> us_id ` {t \<in> set todo. skillId t \<in> ids})
                  (userSkillTable (database w))))\<rparr>"
    unfolding d3 wh3 ach3 us3 ..
  have ex: "\<exists>c. storedColumns w (mergedData newDate md) = Inr c \<and>
     (\<exists>row. find (\<lambda>wh. wh_id wh = p) (workHistoryTable (database w)) = Some row \<and>
        v = assignColumns c row) \<and>
     database w' =
       \<lparr>workHistoryTable = filter (\<lambda>wh. \<not> P wh) (updated c),
        workAchievementTable =
          filter (\<lambda>a. wa_workHistoryId a \<notin> set (map wh_id (filter P (updated c))))
            (workAchievementTable (database w) @
             newAchievementRows w p (map toWellFormed unique)),
        userSkillTable =
          map (\<lambda>s. case us_workHistoryId s of
                      None \<Rightarrow> s
                    | Some h \<Rightarrow>
                        if h \<in> set (map wh_id (filter P (updated c)))
                        then s\<lparr>us_workHistoryId := None\<rparr> else s)
            (map (\<lambda>s. if us_id s \<in> us_id ` {t \<in> set todo. skillId t \<notin> ids}
                      then s\<lparr>us_workHistoryId := Some p\<rparr> else s)
               (filter (\<lambda>s. us_id s \<notin> us_id ` {t \<in> set todo. skillId t \<in> ids})
                  (userSkillTable (database w))))\<rparr>"
    by (rule exI [of _ c]) (intro conjI a0 a3 db')
  show ?thesis by (intro conjI run' b0 ex)
qed


lemma mergeAttempt_unfold:
  assumes f: "workHistory_findMany_withRelations
      (\<lambda>wh. wh_id wh \<in> set (p # sec) \<and> wh_userId wh = u) w = (r0, w0)"
  shows "mergeAttempt newDate u p sec md w =
     (case r0 of
        Inl e \<Rightarrow> (Inl e, w0)
      | Inr whs \<Rightarrow>
          if length whs \<noteq> Suc (length sec) then (Inl RecordsNotFound, w0)
          else
            (case find (\<lambda>wh. wh_id wh = p) whs of
               None \<Rightarrow> (Inl PrimaryRecordNotFound, w0)
             | Some pr \<Rightarrow>
                 (case transaction
                         (mergeTransaction newDate u p sec md pr
                            (filter (\<lambda>wh. wh_id wh \<in> set sec) whs)) w0 of
                    (Inl e, w1) \<Rightarrow> (Inl e, w1)
                  | (Inr v, w1) \<Rightarrow>
                      (Inr \<lparr>mg_success = True,
                            mg_message = SuccessfullyMerged (length sec),
                            mergedRecord =
                              \<lparr>mr_id = wh_id v, mr_companyName = companyName v,
                               mr_jobTitle = jobTitle v, mr_startDate = startDate v,
                               mr_endDate = endDate v\<rparr>\<rparr>, w1))))"
  using f
  by (simp add: mergeAttempt_def Let_def andThen_def throw_def succeed_def
      split: sum.splits option.splits prod.splits)

lemma mergeAttempt_Inl:
  assumes "mergeAttempt newDate u p sec md w = (Inl e, w')"
  shows "database w' = database w"
proof -
  obtain r0 w0 where f: "workHistory_findMany_withRelations
      (\<lambda>wh. wh_id wh \<in> set (p # sec) \<and> wh_userId wh = u) w = (r0, w0)"
    by (cases "workHistory_findMany_withRelations
      (\<lambda>wh. wh_id wh \<in> set (p # sec) \<and> wh_userId wh = u) w")
  from findMany_withRelations_cases [OF f] have db0: "database w0 = database w" by blast
  from assms db0 show ?thesis
    unfolding mergeAttempt_unfold [OF f]
    by (auto split: sum.splits if_splits option.splits prod.splits
        dest: transaction_Inl)
qed

lemma mergeAttempt_Inr:
  assumes "mergeAttempt newDate u p sec md w = (Inr r, w')"
  shows "\<exists>w0 pr v.
     ranWithoutFailure w w0 \<and> database w0 = database w \<and> nextCuid w0 = nextCuid w \<and>
     length (filter (\<lambda>wh. wh_id wh \<in> set (p # sec) \<and> wh_userId wh = u)
        (workHistoryTable (database w))) = Suc (length sec) \<and>
     find (\<lambda>wh. wh_id wh = p)
       (map (withRelations (database w))
          (filter (\<lambda>wh. wh_id wh \<in> set (p # sec) \<and> wh_userId wh = u)
             (workHistoryTable (database w)))) = Some pr \<and>
     transaction
       (mergeTransaction newDate u p sec md pr
          (filter (\<lambda>wh. wh_id wh \<in> set sec)
             (map (withRelations (database w))
                (filter (\<lambda>wh. wh_id wh \<in> set (p # sec) \<and> wh_userId wh = u)
                   (workHistoryTable (database w)))))) w0 = (Inr v, w') \<and>
     r = \<lparr>mg_success = True, mg_message = SuccessfullyMerged (length sec),
          mergedRecord =
            \<lparr>mr_id = wh_id v, mr_companyName = companyName v, mr_jobTitle = jobTitle v,
             mr_startDate = startDate v, mr_endDate = endDate v\<rparr>\<rparr>"
proof -
  obtain r0 w0 where f: "workHistory_findMany_withRelations
      (\<lambda>wh. wh_id wh \<in> set (p # sec) \<and> wh_userId wh = u) w = (r0, w0)"
    by (cases "workHistory_findMany_withRelations
      (\<lambda>wh. wh_id wh \<in> set (p # sec) \<and> wh_userId wh = u) w")
  note c = findMany_withRelations_cases [OF f]
  from assms obtain whs where r0: "r0 = Inr whs"
    unfolding mergeAttempt_unfold [OF f] by (cases r0) auto
  with c have whs: "whs = map (withRelations (database w))
      (filter (\<lambda>wh. wh_id wh \<in> set (p # sec) \<and> wh_userId wh = u)
         (workHistoryTable (database w)))"
    and run0: "ranWithoutFailure w w0"
    by blast+
  from c have db0: "database w0 = database w" and id0: "nextCuid w0 = nextCuid w" by blast+
  from assms r0 have len: "length whs = Suc (length sec)"
    unfolding mergeAttempt_unfold [OF f] by (auto split: if_splits)
  from assms r0 len obtain pr where pr: "find (\<lambda>wh. wh_id wh = p) whs = Some pr"
    unfolding mergeAttempt_unfold [OF f] by (auto split: option.splits)
  from assms r0 len pr obtain v where
    t: "transaction (mergeTransaction newDate u p sec md pr
          (filter (\<lambda>wh. wh_id wh \<in> set sec) whs)) w0 = (Inr v, w')"
    and r: "r = \<lparr>mg_success = True, mg_message = SuccessfullyMerged (length sec),
          mergedRecord =
            \<lparr>mr_id = wh_id v, mr_companyName = companyName v, mr_jobTitle = jobTitle v,
             mr_startDate = startDate v, mr_endDate = endDate v\<rparr>\<rparr>"
    unfolding mergeAttempt_unfold [OF f] by (auto split: prod.splits sum.splits)
  from len have len': "length (filter (\<lambda>wh. wh_id wh \<in> set (p # sec) \<and> wh_userId wh = u)
        (workHistoryTable (database w))) = Suc (length sec)"
    unfolding whs by simp
  from run0 db0 id0 len' pr t r show ?thesis unfolding whs by blast
qed

lemma all_ids_found:
  fixes T :: "WorkHistory list"
  assumes d: "distinct (map wh_id T)"
    and len: "length (filter (\<lambda>wh. wh_id wh \<in> set ids \<and> wh_userId wh = u) T) = length ids"
  shows "distinct ids \<and> (\<forall>i \<in> set ids. \<exists>wh \<in> set T. wh_id wh = i \<and> wh_userId wh = u)"
proof -
  let ?F = "filter (\<lambda>wh. wh_id wh \<in> set ids \<and> wh_userId wh = u) T"
  have dF: "distinct (map wh_id ?F)" using d by (rule distinct_map_filter)
  have sub: "set (map wh_id ?F) \<subseteq> set ids" by auto
  have "card (set (map wh_id ?F)) = length ids"
    using dF len by (metis distinct_card length_map)
  moreover have "card (set (map wh_id ?F)) \<le> card (set ids)"
    using sub by (simp add: card_mono)
  moreover have "card (set ids) \<le> length ids" by (rule card_length)
  ultimately have c: "card (set ids) = length ids" and e: "card (set (map wh_id ?F)) = card (set ids)"
    by linarith+
  from c have "distinct ids" by (simp add: card_distinct)
  moreover from sub e have "set (map wh_id ?F) = set ids"
    by (simp add: card_subset_eq)
  then have "\<forall>i \<in> set ids. \<exists>wh \<in> set T. wh_id wh = i \<and> wh_userId wh = u"
  proof (intro ballI)
    fix i assume "set (map wh_id ?F) = set ids" and "i \<in> set ids"
    then have "i \<in> wh_id ` set ?F" by simp
    then obtain wh where "wh \<in> set ?F" "wh_id wh = i" by blast
    then show "\<exists>wh \<in> set T. wh_id wh = i \<and> wh_userId wh = u" by auto
  qed
  ultimately show ?thesis by blast
qed

lemma same_id_same_row:
  fixes T :: "WorkHistory list"
  assumes "distinct (map wh_id T)" "a \<in> set T" "b \<in> set T" "wh_id a = wh_id b"
  shows "a = b"
  using assms by (meson distinct_map inj_onD)

lemma same_id_same_skill:
  fixes U :: "UserSkill list"
  assumes "distinct (map us_id U)" "a \<in> set U" "b \<in> set U" "us_id a = us_id b"
  shows "a = b"
  using assms by (meson distinct_map inj_onD)


lemma assignColumns_keys [simp]:
  "wh_id (assignColumns c wh) = wh_id wh"
  "wh_userId (assignColumns c wh) = wh_userId wh"
  by (simp_all add: assignColumns_def)

lemma withRelations_fields [simp]:
  "wh_id (withRelations db wh) = wh_id wh"
  "wh_achievements (withRelations db wh) = achievementsOf db (wh_id wh)"
  "wh_userSkills (withRelations db wh) = userSkillsOf db (wh_id wh)"
  by (simp_all add: withRelations_def)

lemma filter_updated:
  "filter (\<lambda>wh. Q (wh_id wh) (wh_userId wh))
     (map (\<lambda>wh. if wh_id wh = p then assignColumns c wh else wh) T) =
   map (\<lambda>wh. if wh_id wh = p then assignColumns c wh else wh)
     (filter (\<lambda>wh. Q (wh_id wh) (wh_userId wh)) T)"
  by (induction T) auto

lemma ids_updated:
  "map wh_id (map (\<lambda>wh. if wh_id wh = p then assignColumns c wh else wh) T) =
   map wh_id T"
  by (induction T) auto

lemma owned_rows:
  fixes T :: "WorkHistory list"
  assumes d: "distinct (map wh_id T)"
    and owned: "\<forall>i \<in> set sec. \<exists>wh \<in> set T. wh_id wh = i \<and> wh_userId wh = u"
    and "wh \<in> set T" and "wh_id wh \<in> set sec"
  shows "wh_userId wh = u"
proof -
  from owned assms(4) obtain wh' where "wh' \<in> set T" "wh_id wh' = wh_id wh" "wh_userId wh' = u"
    by blast
  with same_id_same_row [OF d assms(3), of wh'] show ?thesis by simp
qed

lemma remaining_rows:
  fixes T :: "WorkHistory list"
  assumes d: "distinct (map wh_id T)"
    and owned: "\<forall>i \<in> set sec. \<exists>wh \<in> set T. wh_id wh = i \<and> wh_userId wh = u"
  shows "filter (\<lambda>wh. \<not> (wh_id wh \<in> set sec \<and> wh_userId wh = u))
           (map (\<lambda>wh. if wh_id wh = p then assignColumns c wh else wh) T) =
         map (\<lambda>wh. if wh_id wh = p then assignColumns c wh else wh)
           (filter (\<lambda>wh. wh_id wh \<notin> set sec) T)"
proof -
  have "filter (\<lambda>wh. \<not> (wh_id wh \<in> set sec \<and> wh_userId wh = u)) T =
        filter (\<lambda>wh. wh_id wh \<notin> set sec) T"
    by (rule filter_cong) (auto simp: owned_rows [OF d owned])
  then show ?thesis
    using filter_updated [of "\<lambda>i v. \<not> (i \<in> set sec \<and> v = u)" p c T] by simp
qed

lemma deleted_ids:
  fixes T :: "WorkHistory list"
  assumes owned: "\<forall>i \<in> set sec. \<exists>wh \<in> set T. wh_id wh = i \<and> wh_userId wh = u"
  shows "set (map wh_id (filter (\<lambda>wh. wh_id wh \<in> set sec \<and> wh_userId wh = u)
           (map (\<lambda>wh. if wh_id wh = p then assignColumns c wh else wh) T))) = set sec"
proof -
  have "map wh_id (filter (\<lambda>wh. wh_id wh \<in> set sec \<and> wh_userId wh = u)
           (map (\<lambda>wh. if wh_id wh = p then assignColumns c wh else wh) T)) =
        map wh_id (filter (\<lambda>wh. wh_id wh \<in> set sec \<and> wh_userId wh = u) T)"
    using filter_updated [of "\<lambda>i v. i \<in> set sec \<and> v = u" p c T]
    by (simp add: ids_updated)
  moreover have "set (map wh_id (filter (\<lambda>wh. wh_id wh \<in> set sec \<and> wh_userId wh = u) T)) =
      set sec"
  proof (intro set_eqI iffI)
    fix i assume "i \<in> set (map wh_id (filter (\<lambda>wh. wh_id wh \<in> set sec \<and> wh_userId wh = u) T))"
    then show "i \<in> set sec" by auto
  next
    fix i assume "i \<in> set sec"
    with owned obtain wh where "wh \<in> set T" "wh_id wh = i" "wh_userId wh = u" by blast
    with \<open>i \<in> set sec\<close>
    show "i \<in> set (map wh_id (filter (\<lambda>wh. wh_id wh \<in> set sec \<and> wh_userId wh = u) T))"
      by force
  qed
  ultimately show ?thesis by simp
qed

lemma secondary_records:
  fixes T :: "WorkHistory list"
  assumes d: "distinct (map wh_id T)"
    and owned: "\<forall>i \<in> set sec. \<exists>wh \<in> set T. wh_id wh = i \<and> wh_userId wh = u"
  shows "filter (\<lambda>wh. wh_id wh \<in> set sec)
           (map (withRelations db)
              (filter (\<lambda>wh. wh_id wh \<in> set (p # sec) \<and> wh_userId wh = u) T)) =
         map (withRelations db) (filter (\<lambda>wh. wh_id wh \<in> set sec) T)"
proof -
  have "filter (\<lambda>wh. wh_id wh \<in> set sec)
          (filter (\<lambda>wh. wh_id wh \<in> set (p # sec) \<and> wh_userId wh = u) T) =
        filter (\<lambda>wh. wh_id wh \<in> set sec) T"
    unfolding filter_filter by (rule filter_cong) (auto simp: owned_rows [OF d owned])
  then show ?thesis by (simp add: filter_map comp_def)
qed

lemma find_map_withRelations:
  "find (\<lambda>wh. wh_id wh = p) (map (withRelations db) F) = Some pr \<Longrightarrow>
     \<exists>wh. pr = withRelations db wh \<and> wh_id wh = p"
  by (induction F) (auto split: if_splits)

lemma primary_record:
  assumes "find (\<lambda>wh. wh_id wh = p) (map (withRelations db) F) = Some pr"
  shows "wh_achievements pr = achievementsOf db p \<and> wh_userSkills pr = userSkillsOf db p"
  using find_map_withRelations [OF assms] by auto

lemma secondary_skills:
  fixes T :: "WorkHistory list"
  assumes owned: "\<forall>i \<in> set sec. \<exists>wh \<in> set T. wh_id wh = i \<and> wh_userId wh = u"
  shows "set (concat (map wh_userSkills
           (map (withRelations db) (filter (\<lambda>wh. wh_id wh \<in> set sec) T)))) =
         {s \<in> set (userSkillTable db). attachedTo sec s}"
proof -
  have "set (concat (map wh_userSkills
           (map (withRelations db) (filter (\<lambda>wh. wh_id wh \<in> set sec) T)))) =
        {s \<in> set (userSkillTable db).
           \<exists>wh \<in> set T. wh_id wh \<in> set sec \<and> us_workHistoryId s = Some (wh_id wh)}"
    by (auto simp: userSkillsOf_def)
  also have "\<dots> = {s \<in> set (userSkillTable db). attachedTo sec s}"
  proof -
    have "(\<exists>wh \<in> set T. wh_id wh \<in> set sec \<and> us_workHistoryId s = Some (wh_id wh)) \<longleftrightarrow>
          attachedTo sec s" for s
    proof (cases "us_workHistoryId s")
      case None
      then show ?thesis by (simp add: attachedTo_def)
    next
      case (Some h)
      have "(\<exists>wh \<in> set T. wh_id wh \<in> set sec \<and> h = wh_id wh) \<longleftrightarrow> h \<in> set sec"
      proof
        assume "\<exists>wh \<in> set T. wh_id wh \<in> set sec \<and> h = wh_id wh"
        then show "h \<in> set sec" by auto
      next
        assume h: "h \<in> set sec"
        with owned obtain wh where "wh \<in> set T" "wh_id wh = h" by blast
        with h show "\<exists>wh \<in> set T. wh_id wh \<in> set sec \<and> h = wh_id wh" by auto
      qed
      with Some show ?thesis by (simp add: attachedTo_def)
    qed
    then show ?thesis by simp
  qed
  finally show ?thesis .
qed

lemma skills_after_merge:
  fixes U :: "UserSkill list"
  assumes dU: "distinct (map us_id U)"
    and todo: "set todo = {s \<in> set U. attachedTo sec s}"
    and p: "p \<notin> set sec"
  shows "map (\<lambda>s. case us_workHistoryId s of
                    None \<Rightarrow> s
                  | Some h \<Rightarrow> if h \<in> set sec then s\<lparr>us_workHistoryId := None\<rparr> else s)
           (map (\<lambda>s. if us_id s \<in> us_id ` {t \<in> set todo. skillId t \<notin> ids}
                     then s\<lparr>us_workHistoryId := Some p\<rparr> else s)
              (filter (\<lambda>s. us_id s \<notin> us_id ` {t \<in> set todo. skillId t \<in> ids}) U)) =
         map (\<lambda>s. if attachedTo sec s then s\<lparr>us_workHistoryId := Some p\<rparr> else s)
           (filter (\<lambda>s. \<not> (attachedTo sec s \<and> skillId s \<in> ids)) U)"
proof -
  have in_image: "us_id s \<in> us_id ` {t \<in> set todo. Q t} \<longleftrightarrow> attachedTo sec s \<and> Q s"
    if "s \<in> set U" for s Q
  proof
    assume "us_id s \<in> us_id ` {t \<in> set todo. Q t}"
    then obtain t where t: "t \<in> set todo" "Q t" "us_id t = us_id s" by auto
    with todo have "t \<in> set U" "attachedTo sec t" by auto
    with same_id_same_skill [OF dU that, of t] t show "attachedTo sec s \<and> Q s" by simp
  next
    assume "attachedTo sec s \<and> Q s"
    with that todo show "us_id s \<in> us_id ` {t \<in> set todo. Q t}" by auto
  qed
  have f: "filter (\<lambda>s. us_id s \<notin> us_id ` {t \<in> set todo. skillId t \<in> ids}) U =
           filter (\<lambda>s. \<not> (attachedTo sec s \<and> skillId s \<in> ids)) U"
    by (rule filter_cong) (simp_all add: in_image)
  have m: "(case us_workHistoryId
               (if us_id s \<in> us_id ` {t \<in> set todo. skillId t \<notin> ids}
                then s\<lparr>us_workHistoryId := Some p\<rparr> else s) of
             None \<Rightarrow> (if us_id s \<in> us_id ` {t \<in> set todo. skillId t \<notin> ids}
                then s\<lparr>us_workHistoryId := Some p\<rparr> else s)
           | Some h \<Rightarrow> if h \<in> set sec
               then (if us_id s \<in> us_id ` {t \<in> set todo. skillId t \<notin> ids}
                then s\<lparr>us_workHistoryId := Some p\<rparr> else s)\<lparr>us_workHistoryId := None\<rparr>
               else (if us_id s \<in> us_id ` {t \<in> set todo. skillId t \<notin> ids}
                then s\<lparr>us_workHistoryId := Some p\<rparr> else s)) =
           (if attachedTo sec s then s\<lparr>us_workHistoryId := Some p\<rparr> else s)"
    if "s \<in> set U" "\<not> (attachedTo sec s \<and> skillId s \<in> ids)" for s
  proof (cases "attachedTo sec s")
    case True
    with that have "us_id s \<in> us_id ` {t \<in> set todo. skillId t \<notin> ids}"
      by (simp add: in_image)
    with True p show ?thesis by simp
  next
    case False
    with that have "us_id s \<notin> us_id ` {t \<in> set todo. skillId t \<notin> ids}"
      by (simp add: in_image)
    with False show ?thesis by (auto simp: attachedTo_def split: option.splits)
  qed
  show ?thesis
    unfolding f map_map comp_def
    by (rule map_cong) (simp_all add: m)
qed

lemma kept_new_rows:
  assumes "p \<notin> set sec"
  shows "filter (\<lambda>a. wa_workHistoryId a \<notin> set sec) (A @ newAchievementRows w p ds) =
         filter (\<lambda>a. wa_workHistoryId a \<notin> set sec) A @ newAchievementRows w p ds"
proof -
  have "filter (\<lambda>a. wa_workHistoryId a \<notin> set sec) (newAchievementRows w p ds) =
        newAchievementRows w p ds"
    using assms by (auto simp: newAchievementRows_def filter_id_conv)
  then show ?thesis by simp
qed

lemma storedColumns_mergedData:
  assumes "storedColumns w (mergedData newDate md) = Inr c"
  shows "\<not> hasNul (md_companyName md) \<and> \<not> hasNul (md_jobTitle md) \<and>
     (\<exists>s e.
        dateColumn w (newDate (md_startDate md)) = Inr s \<and>
        (case md_endDate md of
           None \<Rightarrow> e = None
         | Some t \<Rightarrow>
             if t = [] then e = None
             else (\<exists>d. dateColumn w (newDate t) = Inr d \<and> e = Some d)) \<and>
        c = \<lparr>data_companyName = Some (toWellFormed (md_companyName md)),
             data_jobTitle = Some (toWellFormed (md_jobTitle md)),
             data_startDate = Some s, data_endDate = Some e\<rparr>)"
  using assms
  by (auto simp: storedColumns_def mergedData_def mergedEndDate_def storedOptional_def
      storedText_def storedDate_def split: sum.splits if_splits option.splits)

lemma stored_descriptions_fixed:
  assumes "list_all (\<lambda>a. isWellFormed (description a)) (workAchievementTable db)"
  shows "map toWellFormed
      (filter (\<lambda>d. d \<notin> set (map description (achievementsOf db p)))
         (concat (map (\<lambda>wh. map description (achievementsOf db (wh_id wh))) whs))) =
     filter (\<lambda>d. d \<notin> set (map description (achievementsOf db p)))
       (concat (map (\<lambda>wh. map description (achievementsOf db (wh_id wh))) whs))"
proof (rule map_idI)
  fix d
  assume "d \<in> set (filter (\<lambda>d. d \<notin> set (map description (achievementsOf db p)))
         (concat (map (\<lambda>wh. map description (achievementsOf db (wh_id wh))) whs)))"
  then obtain a where "a \<in> set (workAchievementTable db)" and "d = description a"
    by (auto simp: achievementsOf_def)
  with assms have "isWellFormed d" by (simp add: list_all_iff)
  then show "toWellFormed d = d" by (simp add: toWellFormed_fixed)
qed

lemma mergeAttempt_tables:
  assumes run: "mergeAttempt newDate u p sec md w = (Inr r, w')"
    and keys: "primaryKeys (database w)"
  shows "p \<notin> set sec \<and> distinct sec \<and>
     (\<forall>i \<in> set (p # sec). \<exists>wh \<in> set (workHistoryTable (database w)).
         wh_id wh = i \<and> wh_userId wh = u) \<and>
     (\<exists>c. storedColumns w (mergedData newDate md) = Inr c \<and>
        (\<exists>row. mergedRecord r =
           \<lparr>mr_id = p, mr_companyName = companyName (assignColumns c row),
            mr_jobTitle = jobTitle (assignColumns c row),
            mr_startDate = startDate (assignColumns c row),
            mr_endDate = endDate (assignColumns c row)\<rparr>) \<and>
        workHistoryTable (database w') =
          map (\<lambda>wh. if wh_id wh = p then assignColumns c wh else wh)
            (filter (\<lambda>wh. wh_id wh \<notin> set sec) (workHistoryTable (database w)))) \<and>
     workAchievementTable (database w') =
       filter (\<lambda>a. wa_workHistoryId a \<notin> set sec) (workAchievementTable (database w)) @
       newAchievementRows w p
         (map toWellFormed
         (filter (\<lambda>d. d \<notin> set (map description (achievementsOf (database w) p)))
            (concat (map (\<lambda>wh. map description (achievementsOf (database w) (wh_id wh)))
               (filter (\<lambda>wh. wh_id wh \<in> set sec) (workHistoryTable (database w))))))) \<and>
     userSkillTable (database w') =
       map (\<lambda>s. if attachedTo sec s then s\<lparr>us_workHistoryId := Some p\<rparr> else s)
         (filter (\<lambda>s. \<not> (attachedTo sec s \<and>
                       skillId s \<in> set (map skillId (userSkillsOf (database w) p))))
            (userSkillTable (database w)))"
proof -
  let ?db = "database w"
  let ?T = "workHistoryTable ?db"
  let ?F = "filter (\<lambda>wh. wh_id wh \<in> set (p # sec) \<and> wh_userId wh = u) ?T"
  let ?S = "map (withRelations ?db) (filter (\<lambda>wh. wh_id wh \<in> set sec) ?T)"
  from keys have dT: "distinct (map wh_id ?T)" and dU: "distinct (map us_id (userSkillTable ?db))"
    by (simp_all add: primaryKeys_def)
  from mergeAttempt_Inr [OF run] obtain w0 pr v where
    run0: "ranWithoutFailure w w0" and db0: "database w0 = ?db" and id0: "nextCuid w0 = nextCuid w"
    and len: "length ?F = Suc (length sec)"
    and pr: "find (\<lambda>wh. wh_id wh = p) (map (withRelations ?db) ?F) = Some pr"
    and t: "transaction (mergeTransaction newDate u p sec md pr
          (filter (\<lambda>wh. wh_id wh \<in> set sec) (map (withRelations ?db) ?F))) w0 = (Inr v, w')"
    and r: "r = \<lparr>mg_success = True, mg_message = SuccessfullyMerged (length sec),
          mergedRecord =
            \<lparr>mr_id = wh_id v, mr_companyName = companyName v, mr_jobTitle = jobTitle v,
             mr_startDate = startDate v, mr_endDate = endDate v\<rparr>\<rparr>"
    by blast
  from len have len': "length ?F = length (p # sec)" by simp
  from all_ids_found [OF dT len']
  have dist: "distinct (p # sec)"
    and owned_all: "\<forall>i \<in> set (p # sec). \<exists>wh \<in> set ?T. wh_id wh = i \<and> wh_userId wh = u"
    by blast+
  from dist have p: "p \<notin> set sec" and dsec: "distinct sec" by simp_all
  from owned_all have owned: "\<forall>i \<in> set sec. \<exists>wh \<in> set ?T. wh_id wh = i \<and> wh_userId wh = u"
    by simp
  have sec_records: "filter (\<lambda>wh. wh_id wh \<in> set sec) (map (withRelations ?db) ?F) = ?S"
    by (rule secondary_records [OF dT owned])
  from primary_record [OF pr]
  have pr_a: "wh_achievements pr = achievementsOf ?db p"
    and pr_s: "wh_userSkills pr = userSkillsOf ?db p"
    by blast+
  from t have t': "transaction (mergeTransaction newDate u p sec md pr ?S) w0 = (Inr v, w')"
    unfolding sec_records .
  from transaction_Inr [OF t'] obtain w1 where
    mt: "mergeTransaction newDate u p sec md pr ?S w0 = (Inr v, w1)"
    and db1: "database w' = database w1"
    by blast
  from run0 have now0: "now w0 = now w" and dc0: "dateColumn w0 = dateColumn w"
    by (simp_all add: ranWithoutFailure_def)
  have rows0: "newAchievementRows w0 p ds = newAchievementRows w p ds" for ds
    using id0 now0 by (rule newAchievementRows_cong)
  have sc0: "storedColumns w0 (mergedData newDate md) = storedColumns w (mergedData newDate md)"
    using dc0 by (rule storedColumns_cong)
  let ?P = "\<lambda>wh. wh_id wh \<in> set sec \<and> wh_userId wh = u"
  let ?updated = "\<lambda>c. map (\<lambda>wh. if wh_id wh = p then assignColumns c wh else wh) ?T"
  let ?unique = "filter (\<lambda>d. d \<notin> set (map description (achievementsOf ?db p)))
      (concat (map (\<lambda>r. map description (wh_achievements r)) ?S))"
  let ?todo = "concat (map wh_userSkills ?S)"
  let ?ids = "set (map skillId (userSkillsOf ?db p))"
  from mergeTransaction_Inr [OF mt]
  have "\<exists>c. storedColumns w (mergedData newDate md) = Inr c \<and>
     (\<exists>row. find (\<lambda>wh. wh_id wh = p) ?T = Some row \<and> v = assignColumns c row) \<and>
     database w1 =
       \<lparr>workHistoryTable = filter (\<lambda>wh. \<not> ?P wh) (?updated c),
        workAchievementTable =
          filter (\<lambda>a. wa_workHistoryId a \<notin> set (map wh_id (filter ?P (?updated c))))
            (workAchievementTable ?db @ newAchievementRows w p (map toWellFormed ?unique)),
        userSkillTable =
          map (\<lambda>s. case us_workHistoryId s of
                      None \<Rightarrow> s
                    | Some h \<Rightarrow>
                        if h \<in> set (map wh_id (filter ?P (?updated c)))
                        then s\<lparr>us_workHistoryId := None\<rparr> else s)
            (map (\<lambda>s. if us_id s \<in> us_id ` {t \<in> set ?todo. skillId t \<notin> ?ids}
                      then s\<lparr>us_workHistoryId := Some p\<rparr> else s)
               (filter (\<lambda>s. us_id s \<notin> us_id ` {t \<in> set ?todo. skillId t \<in> ?ids})
                  (userSkillTable ?db)))\<rparr>"
    unfolding db0 rows0 pr_a pr_s sc0 by (elim conjE)
  then obtain c row where sc: "storedColumns w (mergedData newDate md) = Inr c"
    and row: "find (\<lambda>wh. wh_id wh = p) ?T = Some row" and v: "v = assignColumns c row"
    and db1': "database w1 =
       \<lparr>workHistoryTable = filter (\<lambda>wh. \<not> ?P wh) (?updated c),
        workAchievementTable =
          filter (\<lambda>a. wa_workHistoryId a \<notin> set (map wh_id (filter ?P (?updated c))))
            (workAchievementTable ?db @ newAchievementRows w p (map toWellFormed ?unique)),
        userSkillTable =
          map (\<lambda>s. case us_workHistoryId s of
                      None \<Rightarrow> s
                    | Some h \<Rightarrow>
                        if h \<in> set (map wh_id (filter ?P (?updated c)))
                        then s\<lparr>us_workHistoryId := None\<rparr> else s)
            (map (\<lambda>s. if us_id s \<in> us_id ` {t \<in> set ?todo. skillId t \<notin> ?ids}
                      then s\<lparr>us_workHistoryId := Some p\<rparr> else s)
               (filter (\<lambda>s. us_id s \<notin> us_id ` {t \<in> set ?todo. skillId t \<in> ?ids})
                  (userSkillTable ?db)))\<rparr>"
    by (elim exE conjE)
  from row have "wh_id row = p" by (auto simp: find_Some_iff)
  with r v have rec: "\<exists>row. mergedRecord r =
           \<lparr>mr_id = p, mr_companyName = companyName (assignColumns c row),
            mr_jobTitle = jobTitle (assignColumns c row),
            mr_startDate = startDate (assignColumns c row),
            mr_endDate = endDate (assignColumns c row)\<rparr>"
    by auto
  have del: "set (map wh_id (filter ?P (?updated c))) = set sec"
    by (rule deleted_ids [OF owned])
  have wh: "workHistoryTable (database w') =
       map (\<lambda>wh. if wh_id wh = p then assignColumns c wh else wh)
         (filter (\<lambda>wh. wh_id wh \<notin> set sec) ?T)"
    unfolding db1 db1' using remaining_rows [OF dT owned, of p c] by simp
  have uniq: "?unique = filter (\<lambda>d. d \<notin> set (map description (achievementsOf ?db p)))
            (concat (map (\<lambda>wh. map description (achievementsOf ?db (wh_id wh)))
               (filter (\<lambda>wh. wh_id wh \<in> set sec) ?T)))"
    by (simp add: comp_def)
  have ach: "workAchievementTable (database w') =
       filter (\<lambda>a. wa_workHistoryId a \<notin> set sec) (workAchievementTable ?db) @
       newAchievementRows w p
         (map toWellFormed
         (filter (\<lambda>d. d \<notin> set (map description (achievementsOf ?db p)))
            (concat (map (\<lambda>wh. map description (achievementsOf ?db (wh_id wh)))
               (filter (\<lambda>wh. wh_id wh \<in> set sec) ?T)))))"
    unfolding db1 db1' del uniq [symmetric] using kept_new_rows [OF p] by simp
  have todo: "set ?todo = {s \<in> set (userSkillTable ?db). attachedTo sec s}"
    by (rule secondary_skills [OF owned])
  have us: "userSkillTable (database w') =
       map (\<lambda>s. if attachedTo sec s then s\<lparr>us_workHistoryId := Some p\<rparr> else s)
         (filter (\<lambda>s. \<not> (attachedTo sec s \<and> skillId s \<in> ?ids)) (userSkillTable ?db))"
    unfolding db1 db1' del using skills_after_merge [OF dU todo p, of ?ids] by simp
  from sc rec wh have "\<exists>c. storedColumns w (mergedData newDate md) = Inr c \<and>
        (\<exists>row. mergedRecord r =
           \<lparr>mr_id = p, mr_companyName = companyName (assignColumns c row),
            mr_jobTitle = jobTitle (assignColumns c row),
            mr_startDate = startDate (assignColumns c row),
            mr_endDate = endDate (assignColumns c row)\<rparr>) \<and>
        workHistoryTable (database w') =
          map (\<lambda>wh. if wh_id wh = p then assignColumns c wh else wh)
            (filter (\<lambda>wh. wh_id wh \<notin> set sec) ?T)"
    by blast
  with p dsec owned_all ach us show ?thesis by blast
qed

lemma workHistory_deleteMany_apply:
  "workHistory_deleteMany P w =
     (if failing w (requestsIssued w)
      then (Inl RequestFailed,
            w\<lparr>events := events w @ [Written WorkHistoryRows],
              requestsIssued := Suc (requestsIssued w)\<rparr>)
      else (Inr (),
            w\<lparr>events := events w @ [Written WorkHistoryRows],
              requestsIssued := Suc (requestsIssued w),
              database :=
                \<lparr>workHistoryTable = filter (\<lambda>wh. \<not> P wh) (workHistoryTable (database w)),
                 workAchievementTable =
                   filter (\<lambda>a. wa_workHistoryId a \<notin>
                       set (map wh_id (filter P (workHistoryTable (database w)))))
                     (workAchievementTable (database w)),
                 userSkillTable =
                   map (\<lambda>s. case us_workHistoryId s of
                               None \<Rightarrow> s
                             | Some h \<Rightarrow>
                                 if h \<in> set (map wh_id (filter P (workHistoryTable (database w))))
                                 then s\<lparr>us_workHistoryId := None\<rparr> else s)
                     (userSkillTable (database w))\<rparr>\<rparr>))"
  by (simp add: workHistory_deleteMany_def writeRequest_def andThen_def emit_def request_apply
      modifyDatabase_def Let_def cong: option.case_cong)

lemmas eval_defs = mergeWorkHistoryRecords_def tryCatch_def mergeAttempt_def Let_def andThen_def
  workHistory_findMany_withRelations_def readRequest_def request_apply withRelations_def
  achievementsOf_def userSkillsOf_def throw_def succeed_def transaction_def mergeTransaction_def
  workHistory_update_apply writeRequest_def emit_def mergedData_def mergedEndDate_def
  storedColumns_def storedOptional_def storedText_def storedDate_def assignColumns_def
  hasNul_def isHighSurrogate_def isLowSurrogate_def exampleDateColumn_def
  workAchievement_createMany_def insertWorkAchievement_apply moveSkills_def
  userSkill_update_def attachSkill_def userSkill_delete_def workHistory_deleteMany_apply
  modifyDatabase_def
  mergeWorld_def acmeHistory_def acmeDuplicate_def reactSkill_def sqlSkill_def
  storedAchievement_def acmeDetails_def exampleDate_def str_def

lemma merge_example:
  "mergeWorkHistoryRecords exampleDate 7 10 [11] acmeDetails mergeWorld =
     (Inr \<lparr>mg_success = True, mg_message = SuccessfullyMerged 1,
           mergedRecord = \<lparr>mr_id = 10, mr_companyName = str ''Acme Corporation'',
             mr_jobTitle = str ''Senior Engineer'', mr_startDate = Date 1583020800000 2020 2,
             mr_endDate = None\<rparr>\<rparr>,
      mergeWorld\<lparr>database :=
         \<lparr>workHistoryTable =
            [acmeHistory\<lparr>companyName := str ''Acme Corporation'',
               jobTitle := str ''Senior Engineer'',
               startDate := Date 1583020800000 2020 2\<rparr>],
          workAchievementTable =
            [storedAchievement 20 ''Led team of 5'' 10,
             \<lparr>wa_id = 100, description = str ''Cut costs'',
              createdAt = Date 1700000000000 2023 10, wa_workHistoryId = 10\<rparr>],
          userSkillTable = [reactSkill, sqlSkill\<lparr>us_workHistoryId := Some 10\<rparr>]\<rparr>,
        requestsIssued := 6, nextCuid := 101,
        events := [Written WorkHistoryRows, Written WorkAchievementRows, Written UserSkillRows,
                   Written WorkHistoryRows]\<rparr>)"
  by (simp add: eval_defs)

lemma merge_example_failing:
  "mergeWorkHistoryRecords exampleDate 7 10 [11] acmeDetails
       (mergeWorld\<lparr>failing := (\<lambda>k. k = 3)\<rparr>) =
     (Inr \<lparr>mg_success = False, mg_message = FailedToMerge RequestFailed,
           mergedRecord = \<lparr>mr_id = 10, mr_companyName = str ''Acme Corporation'',
             mr_jobTitle = str ''Senior Engineer'', mr_startDate = Date 1583020800000 2020 2,
             mr_endDate = None\<rparr>\<rparr>,
      mergeWorld\<lparr>failing := (\<lambda>k. k = 3), requestsIssued := 4, nextCuid := 101,
        events := [Written WorkHistoryRows, Written WorkAchievementRows,
                   Written UserSkillRows]\<rparr>)"
  by (simp add: eval_defs)

lemma mergeAttempt_requests:
  assumes run: "mergeAttempt newDate u p sec md w = (Inr r, w')"
  shows "ranWithoutFailure w w' \<and> mg_success r \<and>
     mg_message r = SuccessfullyMerged (length sec)"
proof -
  from mergeAttempt_Inr [OF run] obtain w0 pr v S where
    run0: "ranWithoutFailure w w0"
    and t: "transaction (mergeTransaction newDate u p sec md pr S) w0 = (Inr v, w')"
    and r: "r = \<lparr>mg_success = True, mg_message = SuccessfullyMerged (length sec),
          mergedRecord =
            \<lparr>mr_id = wh_id v, mr_companyName = companyName v, mr_jobTitle = jobTitle v,
             mr_startDate = startDate v, mr_endDate = endDate v\<rparr>\<rparr>"
    by blast
  from transaction_Inr [OF t] obtain w1 where
    mt: "mergeTransaction newDate u p sec md pr S w0 = (Inr v, w1)"
    and run2: "ranWithoutFailure w1 w'"
    by blast
  from mergeTransaction_Inr [OF mt] have run1: "ranWithoutFailure w0 w1" by blast
  from run0 run1 run2 have "ranWithoutFailure w w'"
    by (blast intro: ranWithoutFailure_trans)
  with r show ?thesis by simp
qed

lemma mergeWorkHistoryRecords_cases:
  assumes "mergeWorkHistoryRecords newDate u p sec md w = (res, w')"
  shows "\<exists>r. res = Inr r \<and>
     (if mg_success r then mergeAttempt newDate u p sec md w = (Inr r, w')
      else database w' = database w \<and> (\<exists>e. mg_message r = FailedToMerge e))"
proof (cases "mergeAttempt newDate u p sec md w")
  case (Pair a w1)
  show ?thesis
  proof (cases a)
    case (Inl e)
    with Pair assms have "res = Inr \<lparr>mg_success = False, mg_message = FailedToMerge e,
           mergedRecord =
             \<lparr>mr_id = p, mr_companyName = md_companyName md, mr_jobTitle = md_jobTitle md,
              mr_startDate = newDate (md_startDate md),
              mr_endDate = mergedEndDate newDate md\<rparr>\<rparr>" and "w' = w1"
      by (simp_all add: mergeWorkHistoryRecords_def tryCatch_def succeed_def)
    moreover from Pair Inl have "database w1 = database w"
      using mergeAttempt_Inl by blast
    ultimately show ?thesis by simp
  next
    case (Inr r)
    with Pair assms have "res = Inr r" and "w' = w1"
      by (simp_all add: mergeWorkHistoryRecords_def tryCatch_def)
    moreover from Pair Inr have "mg_success r"
      using mergeAttempt_requests by blast
    ultimately show ?thesis using Pair Inr by simp
  qed
qed

text \<open>
  C5. \<open>mergeWorkHistoryRecords\<close> never throws. When it returns \<open>success = false\<close> the
  database is as it was before the call and the message is the failure message. It returns
  \<open>success = true\<close> only if every request it sent succeeded, so that a failing request
  gives \<open>success = false\<close> and an unchanged database. On success (the primary keys being
  unique) the primary record exists, belongs to the user and is not among the secondary
  ones; its row now holds the company name and the job title of the merged details as the
  text columns keep them, the date the database made of \<open>new Date(startDate)\<close> and, for
  the end date, null when none or an empty one was given and otherwise the date the
  database made of \<open>new Date(endDate)\<close>, with its id and its user as before; the returned
  \<open>mergedRecord\<close> shows these values; every other row that is not a secondary record is as
  it was and the secondary records are gone; the achievements of the secondary records
  are gone and each description among them that the primary record did not have is a new
  achievement of the primary record, kept as the text column keeps it, which is the
  description itself when the stored descriptions are well formed; and the user skills
  attached to a secondary record are attached to the primary record, or deleted when the
  primary record already had the skill.
\<close>

theorem mergeWorkHistoryRecords_atomic:
  "(\<exists>r. fst (mergeWorkHistoryRecords newDate u p sec md w) = Inr r) \<and>
   (fst (mergeWorkHistoryRecords newDate u p sec md w) = Inr r \<and> \<not> mg_success r \<longrightarrow>
      database (snd (mergeWorkHistoryRecords newDate u p sec md w)) = database w \<and>
      (\<exists>e. mg_message r = FailedToMerge e)) \<and>
   (fst (mergeWorkHistoryRecords newDate u p sec md w) = Inr r \<and> mg_success r \<longrightarrow>
      requestsSucceeded w (snd (mergeWorkHistoryRecords newDate u p sec md w)) \<and>
      mg_message r = SuccessfullyMerged (length sec)) \<and>
   (fst (mergeWorkHistoryRecords newDate u p sec md w) = Inr r \<and> mg_success r \<and>
    primaryKeys (database w) \<longrightarrow>
      p \<notin> set sec \<and>
      (\<exists>wh \<in> set (workHistoryTable (database w)). wh_id wh = p \<and> wh_userId wh = u) \<and>
      \<not> hasNul (md_companyName md) \<and> \<not> hasNul (md_jobTitle md) \<and>
      (\<exists>s e.
         dateColumn w (newDate (md_startDate md)) = Inr s \<and>
         (case md_endDate md of
            None \<Rightarrow> e = None
          | Some t \<Rightarrow>
              if t = [] then e = None
              else (\<exists>d. dateColumn w (newDate t) = Inr d \<and> e = Some d)) \<and>
         mergedRecord r =
           \<lparr>mr_id = p, mr_companyName = toWellFormed (md_companyName md),
            mr_jobTitle = toWellFormed (md_jobTitle md), mr_startDate = s, mr_endDate = e\<rparr> \<and>
         workHistoryTable (database (snd (mergeWorkHistoryRecords newDate u p sec md w))) =
           map (\<lambda>wh. if wh_id wh = p
                      then wh\<lparr>companyName := toWellFormed (md_companyName md),
                              jobTitle := toWellFormed (md_jobTitle md),
                              startDate := s, endDate := e\<rparr>
                      else wh)
             (filter (\<lambda>wh. wh_id wh \<notin> set sec) (workHistoryTable (database w)))) \<and>
      workAchievementTable (database (snd (mergeWorkHistoryRecords newDate u p sec md w))) =
        filter (\<lambda>a. wa_workHistoryId a \<notin> set sec) (workAchievementTable (database w)) @
        newAchievementRows w p
          (map toWellFormed
          (filter (\<lambda>d. d \<notin> set (map description (achievementsOf (database w) p)))
             (concat (map (\<lambda>wh. map description (achievementsOf (database w) (wh_id wh)))
                (filter (\<lambda>wh. wh_id wh \<in> set sec) (workHistoryTable (database w))))))) \<and>
      (list_all (\<lambda>a. isWellFormed (description a)) (workAchievementTable (database w)) \<longrightarrow>
        map toWellFormed
          (filter (\<lambda>d. d \<notin> set (map description (achievementsOf (database w) p)))
             (concat (map (\<lambda>wh. map description (achievementsOf (database w) (wh_id wh)))
                (filter (\<lambda>wh. wh_id wh \<in> set sec) (workHistoryTable (database w)))))) =
          filter (\<lambda>d. d \<notin> set (map description (achievementsOf (database w) p)))
             (concat (map (\<lambda>wh. map description (achievementsOf (database w) (wh_id wh)))
                (filter (\<lambda>wh. wh_id wh \<in> set sec) (workHistoryTable (database w)))))) \<and>
      userSkillTable (database (snd (mergeWorkHistoryRecords newDate u p sec md w))) =
        map (\<lambda>s. if attachedTo sec s then s\<lparr>us_workHistoryId := Some p\<rparr> else s)
          (filter (\<lambda>s. \<not> (attachedTo sec s \<and>
                        skillId s \<in> set (map skillId (userSkillsOf (database w) p))))
             (userSkillTable (database w))))"
proof -
  obtain res w' where eq: "mergeWorkHistoryRecords newDate u p sec md w = (res, w')"
    by (cases "mergeWorkHistoryRecords newDate u p sec md w")
  from mergeWorkHistoryRecords_cases [OF eq] obtain r0 where
    res: "res = Inr r0"
    and fail: "\<not> mg_success r0 \<Longrightarrow>
      database w' = database w \<and> (\<exists>e. mg_message r0 = FailedToMerge e)"
    and ok: "mg_success r0 \<Longrightarrow> mergeAttempt newDate u p sec md w = (Inr r0, w')"
    by (auto split: if_splits)
  have 1: "\<exists>r. fst (mergeWorkHistoryRecords newDate u p sec md w) = Inr r"
    by (simp add: eq res)
  have 2: "database (snd (mergeWorkHistoryRecords newDate u p sec md w)) = database w \<and>
      (\<exists>e. mg_message r = FailedToMerge e)"
    if "fst (mergeWorkHistoryRecords newDate u p sec md w) = Inr r \<and> \<not> mg_success r"
    using that fail by (simp add: eq res)
  have 3: "requestsSucceeded w (snd (mergeWorkHistoryRecords newDate u p sec md w)) \<and>
      mg_message r = SuccessfullyMerged (length sec)"
    if "fst (mergeWorkHistoryRecords newDate u p sec md w) = Inr r \<and> mg_success r"
  proof -
    from that have "r0 = r" and "mg_success r0" by (simp_all add: eq res)
    with ok have "mergeAttempt newDate u p sec md w = (Inr r, w')" by simp
    from mergeAttempt_requests [OF this] show ?thesis
      by (simp add: eq ranWithoutFailure_def)
  qed
  have 4: "p \<notin> set sec \<and>
      (\<exists>wh \<in> set (workHistoryTable (database w)). wh_id wh = p \<and> wh_userId wh = u) \<and>
      \<not> hasNul (md_companyName md) \<and> \<not> hasNul (md_jobTitle md) \<and>
      (\<exists>s e.
         dateColumn w (newDate (md_startDate md)) = Inr s \<and>
         (case md_endDate md of
            None \<Rightarrow> e = None
          | Some t \<Rightarrow>
              if t = [] then e = None
              else (\<exists>d. dateColumn w (newDate t) = Inr d \<and> e = Some d)) \<and>
         mergedRecord r =
           \<lparr>mr_id = p, mr_companyName = toWellFormed (md_companyName md),
            mr_jobTitle = toWellFormed (md_jobTitle md), mr_startDate = s, mr_endDate = e\<rparr> \<and>
         workHistoryTable (database (snd (mergeWorkHistoryRecords newDate u p sec md w))) =
           map (\<lambda>wh. if wh_id wh = p
                      then wh\<lparr>companyName := toWellFormed (md_companyName md),
                              jobTitle := toWellFormed (md_jobTitle md),
                              startDate := s, endDate := e\<rparr>
                      else wh)
             (filter (\<lambda>wh. wh_id wh \<notin> set sec) (workHistoryTable (database w)))) \<and>
      workAchievementTable (database (snd (mergeWorkHistoryRecords newDate u p sec md w))) =
        filter (\<lambda>a. wa_workHistoryId a \<notin> set sec) (workAchievementTable (database w)) @
        newAchievementRows w p
          (map toWellFormed
          (filter (\<lambda>d. d \<notin> set (map description (achievementsOf (database w) p)))
             (concat (map (\<lambda>wh. map description (achievementsOf (database w) (wh_id wh)))
                (filter (\<lambda>wh. wh_id wh \<in> set sec) (workHistoryTable (database w))))))) \<and>
      (list_all (\<lambda>a. isWellFormed (description a)) (workAchievementTable (database w)) \<longrightarrow>
        map toWellFormed
          (filter (\<lambda>d. d \<notin> set (map description (achievementsOf (database w) p)))
             (concat (map (\<lambda>wh. map description (achievementsOf (database w) (wh_id wh)))
                (filter (\<lambda>wh. wh_id wh \<in> set sec) (workHistoryTable (database w)))))) =
          filter (\<lambda>d. d \<notin> set (map description (achievementsOf (database w) p)))
             (concat (map (\<lambda>wh. map description (achievementsOf (database w) (wh_id wh)))
                (filter (\<lambda>wh. wh_id wh \<in> set sec) (workHistoryTable (database w)))))) \<and>
      userSkillTable (database (snd (mergeWorkHistoryRecords newDate u p sec md w))) =
        map (\<lambda>s. if attachedTo sec s then s\<lparr>us_workHistoryId := Some p\<rparr> else s)
          (filter (\<lambda>s. \<not> (attachedTo sec s \<and>
                        skillId s \<in> set (map skillId (userSkillsOf (database w) p))))
             (userSkillTable (database w)))"
    if "fst (mergeWorkHistoryRecords newDate u p sec md w) = Inr r \<and> mg_success r \<and>
        primaryKeys (database w)"
  proof -
    from that have "r0 = r" and "mg_success r0" and keys: "primaryKeys (database w)"
      by (simp_all add: eq res)
    with ok have run: "mergeAttempt newDate u p sec md w = (Inr r, w')" by simp
    from mergeAttempt_tables [OF run keys] obtain c row where
      p: "p \<notin> set sec"
      and owned: "\<forall>i \<in> set (p # sec). \<exists>wh \<in> set (workHistoryTable (database w)).
         wh_id wh = i \<and> wh_userId wh = u"
      and sc: "storedColumns w (mergedData newDate md) = Inr c"
      and rec: "mergedRecord r =
           \<lparr>mr_id = p, mr_companyName = companyName (assignColumns c row),
            mr_jobTitle = jobTitle (assignColumns c row),
            mr_startDate = startDate (assignColumns c row),
            mr_endDate = endDate (assignColumns c row)\<rparr>"
      and wh: "workHistoryTable (database w') =
          map (\<lambda>wh. if wh_id wh = p then assignColumns c wh else wh)
            (filter (\<lambda>wh. wh_id wh \<notin> set sec) (workHistoryTable (database w)))"
      and ach: "workAchievementTable (database w') =
        filter (\<lambda>a. wa_workHistoryId a \<notin> set sec) (workAchievementTable (database w)) @
        newAchievementRows w p
          (map toWellFormed
          (filter (\<lambda>d. d \<notin> set (map description (achievementsOf (database w) p)))
             (concat (map (\<lambda>wh. map description (achievementsOf (database w) (wh_id wh)))
                (filter (\<lambda>wh. wh_id wh \<in> set sec) (workHistoryTable (database w)))))))"
      and us: "userSkillTable (database w') =
        map (\<lambda>s. if attachedTo sec s then s\<lparr>us_workHistoryId := Some p\<rparr> else s)
          (filter (\<lambda>s. \<not> (attachedTo sec s \<and>
                        skillId s \<in> set (map skillId (userSkillsOf (database w) p))))
             (userSkillTable (database w)))"
      by (elim conjE exE)
    from owned have primary:
      "\<exists>wh \<in> set (workHistoryTable (database w)). wh_id wh = p \<and> wh_userId wh = u"
      by simp
    from storedColumns_mergedData [OF sc] obtain s e where
      nul: "\<not> hasNul (md_companyName md)" "\<not> hasNul (md_jobTitle md)"
      and s: "dateColumn w (newDate (md_startDate md)) = Inr s"
      and e: "case md_endDate md of
            None \<Rightarrow> e = None
          | Some t \<Rightarrow>
              if t = [] then e = None
              else (\<exists>d. dateColumn w (newDate t) = Inr d \<and> e = Some d)"
      and c: "c = \<lparr>data_companyName = Some (toWellFormed (md_companyName md)),
             data_jobTitle = Some (toWellFormed (md_jobTitle md)),
             data_startDate = Some s, data_endDate = Some e\<rparr>"
      by (elim conjE exE)
    have assign: "assignColumns c wh =
        wh\<lparr>companyName := toWellFormed (md_companyName md),
           jobTitle := toWellFormed (md_jobTitle md), startDate := s, endDate := e\<rparr>" for wh
      by (simp add: assignColumns_def c)
    have rec': "mergedRecord r =
           \<lparr>mr_id = p, mr_companyName = toWellFormed (md_companyName md),
            mr_jobTitle = toWellFormed (md_jobTitle md), mr_startDate = s, mr_endDate = e\<rparr>"
      unfolding rec assign by simp
    have wh': "workHistoryTable (database (snd (mergeWorkHistoryRecords newDate u p sec md w))) =
           map (\<lambda>wh. if wh_id wh = p
                      then wh\<lparr>companyName := toWellFormed (md_companyName md),
                              jobTitle := toWellFormed (md_jobTitle md),
                              startDate := s, endDate := e\<rparr>
                      else wh)
             (filter (\<lambda>wh. wh_id wh \<notin> set sec) (workHistoryTable (database w)))"
      unfolding eq snd_conv wh assign ..
    from s e rec' wh' have dates: "\<exists>s e.
         dateColumn w (newDate (md_startDate md)) = Inr s \<and>
         (case md_endDate md of
            None \<Rightarrow> e = None
          | Some t \<Rightarrow>
              if t = [] then e = None
              else (\<exists>d. dateColumn w (newDate t) = Inr d \<and> e = Some d)) \<and>
         mergedRecord r =
           \<lparr>mr_id = p, mr_companyName = toWellFormed (md_companyName md),
            mr_jobTitle = toWellFormed (md_jobTitle md), mr_startDate = s, mr_endDate = e\<rparr> \<and>
         workHistoryTable (database (snd (mergeWorkHistoryRecords newDate u p sec md w))) =
           map (\<lambda>wh. if wh_id wh = p
                      then wh\<lparr>companyName := toWellFormed (md_companyName md),
                              jobTitle := toWellFormed (md_jobTitle md),
                              startDate := s, endDate := e\<rparr>
                      else wh)
             (filter (\<lambda>wh. wh_id wh \<notin> set sec) (workHistoryTable (database w)))"
      by blast
    have fixed: "list_all (\<lambda>a. isWellFormed (description a)) (workAchievementTable (database w)) \<longrightarrow>
        map toWellFormed
          (filter (\<lambda>d. d \<notin> set (map description (achievementsOf (database w) p)))
             (concat (map (\<lambda>wh. map description (achievementsOf (database w) (wh_id wh)))
                (filter (\<lambda>wh. wh_id wh \<in> set sec) (workHistoryTable (database w)))))) =
          filter (\<lambda>d. d \<notin> set (map description (achievementsOf (database w) p)))
             (concat (map (\<lambda>wh. map description (achievementsOf (database w) (wh_id wh)))
                (filter (\<lambda>wh. wh_id wh \<in> set sec) (workHistoryTable (database w)))))"
      by (rule impI) (rule stored_descriptions_fixed)
    from ach have ach': "workAchievementTable
        (database (snd (mergeWorkHistoryRecords newDate u p sec md w))) =
        filter (\<lambda>a. wa_workHistoryId a \<notin> set sec) (workAchievementTable (database w)) @
        newAchievementRows w p
          (map toWellFormed
          (filter (\<lambda>d. d \<notin> set (map description (achievementsOf (database w) p)))
             (concat (map (\<lambda>wh. map description (achievementsOf (database w) (wh_id wh)))
                (filter (\<lambda>wh. wh_id wh \<in> set sec) (workHistoryTable (database w)))))))"
      unfolding eq snd_conv .
    from us have us': "userSkillTable
        (database (snd (mergeWorkHistoryRecords newDate u p sec md w))) =
        map (\<lambda>s. if attachedTo sec s then s\<lparr>us_workHistoryId := Some p\<rparr> else s)
          (filter (\<lambda>s. \<not> (attachedTo sec s \<and>
                        skillId s \<in> set (map skillId (userSkillsOf (database w) p))))
             (userSkillTable (database w)))"
      unfolding eq snd_conv .
    show ?thesis
      by (intro conjI p primary nul dates ach' fixed us')
  qed
  from 1 2 3 4 show ?thesis by blast
qed

theorem mergeWorkHistoryRecords_atomic_witness:
  "primaryKeys (database mergeWorld) \<and>
   mg_success (projr (fst (mergeWorkHistoryRecords exampleDate 7 10 [11] acmeDetails mergeWorld))) \<and>
   workHistoryTable (database
     (snd (mergeWorkHistoryRecords exampleDate 7 10 [11] acmeDetails mergeWorld))) =
     [\<lparr>companyName = str ''Acme Corporation'', startDate = Date 1583020800000 2020 2,
       endDate = None, wh_id = 10, wh_userId = 7, jobTitle = str ''Senior Engineer''\<rparr>] \<and>
   map description (workAchievementTable (database
     (snd (mergeWorkHistoryRecords exampleDate 7 10 [11] acmeDetails mergeWorld)))) =
     [str ''Led team of 5'', str ''Cut costs''] \<and>
   map us_workHistoryId (userSkillTable (database
     (snd (mergeWorkHistoryRecords exampleDate 7 10 [11] acmeDetails mergeWorld)))) =
     [Some 10, Some 10] \<and>
   \<not> mg_success (projr (fst (mergeWorkHistoryRecords exampleDate 7 10 [11] acmeDetails
      (mergeWorld\<lparr>failing := (\<lambda>k. k = 3)\<rparr>)))) \<and>
   database (snd (mergeWorkHistoryRecords exampleDate 7 10 [11] acmeDetails
      (mergeWorld\<lparr>failing := (\<lambda>k. k = 3)\<rparr>))) = database mergeWorld"
proof -
  let ?ok = "\<lparr>mg_success = True, mg_message = SuccessfullyMerged 1,
           mergedRecord = \<lparr>mr_id = 10, mr_companyName = str ''Acme Corporation'',
             mr_jobTitle = str ''Senior Engineer'', mr_startDate = Date 1583020800000 2020 2,
             mr_endDate = None\<rparr>\<rparr>"
  let ?failed = "\<lparr>mg_success = False, mg_message = FailedToMerge RequestFailed,
           mergedRecord = \<lparr>mr_id = 10, mr_companyName = str ''Acme Corporation'',
             mr_jobTitle = str ''Senior Engineer'', mr_startDate = Date 1583020800000 2020 2,
             mr_endDate = None\<rparr>\<rparr>"
  have keys: "primaryKeys (database mergeWorld)"
    by (simp add: primaryKeys_def mergeWorld_def acmeHistory_def acmeDuplicate_def
        reactSkill_def sqlSkill_def)
  have a: "fst (mergeWorkHistoryRecords exampleDate 7 10 [11] acmeDetails mergeWorld) = Inr ?ok"
    by (simp add: merge_example)
  have b: "fst (mergeWorkHistoryRecords exampleDate 7 10 [11] acmeDetails
      (mergeWorld\<lparr>failing := (\<lambda>k. k = 3)\<rparr>)) = Inr ?failed"
    by (simp add: merge_example_failing)
  from mergeWorkHistoryRecords_atomic [of exampleDate 7 10 "[11]" acmeDetails mergeWorld ?ok]
    keys a
  obtain s e where
    s: "dateColumn mergeWorld (exampleDate (md_startDate acmeDetails)) = Inr s"
    and e: "case md_endDate acmeDetails of
            None \<Rightarrow> e = None
          | Some t \<Rightarrow>
              if t = [] then e = None
              else (\<exists>d. dateColumn mergeWorld (exampleDate t) = Inr d \<and> e = Some d)"
    and history:
    "workHistoryTable (database
       (snd (mergeWorkHistoryRecords exampleDate 7 10 [11] acmeDetails mergeWorld))) =
           map (\<lambda>wh. if wh_id wh = 10
                      then wh\<lparr>companyName := toWellFormed (md_companyName acmeDetails),
                              jobTitle := toWellFormed (md_jobTitle acmeDetails),
                              startDate := s, endDate := e\<rparr>
                      else wh)
             (filter (\<lambda>wh. wh_id wh \<notin> set [11]) (workHistoryTable (database mergeWorld)))"
    and achievements:
    "workAchievementTable (database
       (snd (mergeWorkHistoryRecords exampleDate 7 10 [11] acmeDetails mergeWorld))) =
        filter (\<lambda>a. wa_workHistoryId a \<notin> set [11]) (workAchievementTable (database mergeWorld)) @
        newAchievementRows mergeWorld 10
          (map toWellFormed
          (filter (\<lambda>d. d \<notin> set (map description (achievementsOf (database mergeWorld) 10)))
             (concat (map (\<lambda>wh. map description (achievementsOf (database mergeWorld) (wh_id wh)))
                (filter (\<lambda>wh. wh_id wh \<in> set [11]) (workHistoryTable (database mergeWorld)))))))"
    and skills:
    "userSkillTable (database
       (snd (mergeWorkHistoryRecords exampleDate 7 10 [11] acmeDetails mergeWorld))) =
        map (\<lambda>s. if attachedTo [11] s then s\<lparr>us_workHistoryId := Some 10\<rparr> else s)
          (filter (\<lambda>s. \<not> (attachedTo [11] s \<and>
                        skillId s \<in> set (map skillId (userSkillsOf (database mergeWorld) 10))))
             (userSkillTable (database mergeWorld)))"
    by auto
  from s have s': "s = Date 1583020800000 2020 2"
    by (simp add: mergeWorld_def acmeDetails_def exampleDate_def exampleDateColumn_def)
  from e have e': "e = None"
    by (simp add: acmeDetails_def)
  from mergeWorkHistoryRecords_atomic [of exampleDate 7 10 "[11]" acmeDetails
      "mergeWorld\<lparr>failing := (\<lambda>k. k = 3)\<rparr>" ?failed] b
  have unchanged: "database (snd (mergeWorkHistoryRecords exampleDate 7 10 [11] acmeDetails
      (mergeWorld\<lparr>failing := (\<lambda>k. k = 3)\<rparr>))) = database mergeWorld"
    by simp
  have 0: "workHistoryTable (database
     (snd (mergeWorkHistoryRecords exampleDate 7 10 [11] acmeDetails mergeWorld))) =
     [\<lparr>companyName = str ''Acme Corporation'', startDate = Date 1583020800000 2020 2,
       endDate = None, wh_id = 10, wh_userId = 7, jobTitle = str ''Senior Engineer''\<rparr>]"
    unfolding history s' e'
    by (simp add: mergeWorld_def acmeHistory_def acmeDuplicate_def acmeDetails_def str_def
        isHighSurrogate_def isLowSurrogate_def)
  have 1: "map description (workAchievementTable (database
     (snd (mergeWorkHistoryRecords exampleDate 7 10 [11] acmeDetails mergeWorld)))) =
     [str ''Led team of 5'', str ''Cut costs'']"
    unfolding achievements
    by (simp add: mergeWorld_def acmeHistory_def acmeDuplicate_def storedAchievement_def
        achievementsOf_def newAchievementRows_def str_def isHighSurrogate_def
        isLowSurrogate_def)
  have 2: "map us_workHistoryId (userSkillTable (database
     (snd (mergeWorkHistoryRecords exampleDate 7 10 [11] acmeDetails mergeWorld)))) =
     [Some 10, Some 10]"
    unfolding skills
    by (simp add: mergeWorld_def reactSkill_def sqlSkill_def userSkillsOf_def attachedTo_def)
  from keys a b unchanged 0 1 2 show ?thesis by simp
qed

subsection \<open>The order of the stages in processWorkExperience\<close>

lemma staged_silent:
  assumes "\<And>w. events (snd (m w)) = events w"
  shows "staged lo hi m"
  unfolding staged_def using assms by simp

lemma staged_succeed: "staged lo hi (succeed v)"
  by (rule staged_silent) (simp add: succeed_def)

lemma staged_throw: "staged lo hi (throw e)"
  by (rule staged_silent) (simp add: throw_def)

lemma staged_emit:
  assumes "lo \<le> stageOf e" and "stageOf e \<le> hi"
  shows "staged lo hi (emit e)"
  unfolding staged_def using assms by (simp add: emit_def)

lemma staged_mono:
  assumes "staged lo hi m" and "lo' \<le> lo" and "hi \<le> hi'"
  shows "staged lo' hi' m"
  using assms unfolding staged_def by (meson order_trans)

lemma staged_andThen:
  assumes m: "staged lo mid m" and f: "\<And>v. staged mid hi (f v)"
    and le: "lo \<le> mid" "mid \<le> hi"
  shows "staged lo hi (andThen m f)"
  unfolding staged_def
proof
  fix w
  from m obtain evs1 where 1: "events (snd (m w)) = events w @ evs1"
    and s1: "sorted (map stageOf evs1)"
    and b1: "\<forall>e \<in> set evs1. lo \<le> stageOf e \<and> stageOf e \<le> mid"
    unfolding staged_def by blast
  obtain r w1 where mw: "m w = (r, w1)" by (cases "m w")
  show "\<exists>evs. events (snd (andThen m f w)) = events w @ evs \<and> sorted (map stageOf evs) \<and>
        (\<forall>e \<in> set evs. lo \<le> stageOf e \<and> stageOf e \<le> hi)"
  proof (cases r)
    case (Inl e)
    with mw have "events (snd (andThen m f w)) = events w @ evs1"
      using 1 by (simp add: andThen_def)
    moreover from b1 le have "\<forall>e \<in> set evs1. lo \<le> stageOf e \<and> stageOf e \<le> hi"
      by (meson order_trans)
    ultimately show ?thesis using s1 by blast
  next
    case (Inr v)
    from f [of v] obtain evs2 where 2: "events (snd (f v w1)) = events w1 @ evs2"
      and s2: "sorted (map stageOf evs2)"
      and b2: "\<forall>e \<in> set evs2. mid \<le> stageOf e \<and> stageOf e \<le> hi"
      unfolding staged_def by blast
    from mw Inr 1 2 have "events (snd (andThen m f w)) = events w @ (evs1 @ evs2)"
      by (simp add: andThen_def)
    moreover from s1 s2 b1 b2 have "sorted (map stageOf (evs1 @ evs2))"
      by (auto simp: sorted_append intro: order_trans)
    moreover from b1 b2 le have "\<forall>e \<in> set (evs1 @ evs2). lo \<le> stageOf e \<and> stageOf e \<le> hi"
      by (auto intro: order_trans)
    ultimately show ?thesis by blast
  qed
qed

lemma staged_andThen_same:
  assumes "staged k k m" and "\<And>v. staged k k (f v)"
  shows "staged k k (andThen m f)"
  using assms by (rule staged_andThen) simp_all

lemma staged_request:
  assumes "staged lo hi operation"
  shows "staged lo hi (request operation)"
  unfolding staged_def
proof
  fix w
  from assms obtain evs where
    "events (snd (operation (w\<lparr>requestsIssued := Suc (requestsIssued w)\<rparr>))) =
       events (w\<lparr>requestsIssued := Suc (requestsIssued w)\<rparr>) @ evs"
    and "sorted (map stageOf evs)"
    and "\<forall>e \<in> set evs. lo \<le> stageOf e \<and> stageOf e \<le> hi"
    unfolding staged_def by blast
  then show "\<exists>evs. events (snd (request operation w)) = events w @ evs \<and>
      sorted (map stageOf evs) \<and> (\<forall>e \<in> set evs. lo \<le> stageOf e \<and> stageOf e \<le> hi)"
    by (cases "failing w (requestsIssued w)") (auto simp: request_apply)
qed

lemma staged_readRequest: "staged lo hi (readRequest query)"
  unfolding readRequest_def
  by (rule staged_request) (rule staged_silent, simp)

lemma staged_writeRequest:
  assumes "\<And>w. events (snd (operation w)) = events w"
  shows "staged (stageOf (Written table)) (stageOf (Written table)) (writeRequest table operation)"
  unfolding writeRequest_def
  by (intro staged_andThen_same staged_emit staged_request staged_silent order_refl assms)

lemma staged_forEach:
  assumes "\<And>x. staged k k (f x)"
  shows "staged k k (forEach xs f)"
  by (induction xs) (auto intro: staged_succeed staged_andThen_same assms)

lemma staged_callService: "staged (stageOf event) (stageOf event) (callService event outcome)"
  unfolding callService_def
  by (intro staged_andThen_same staged_emit order_refl)
     (auto intro: staged_throw staged_succeed split: sum.splits)

lemma staged_workHistory_update: "staged 2 2 (workHistory_update i data)"
proof -
  have "staged (stageOf (Written WorkHistoryRows)) (stageOf (Written WorkHistoryRows))
      (workHistory_update i data)"
    unfolding workHistory_update_def
    by (rule staged_writeRequest) (simp split: option.splits sum.splits)
  then show ?thesis by simp
qed

lemma staged_workHistory_create: "staged 2 2 (workHistory_create data)"
proof -
  have "staged (stageOf (Written WorkHistoryRows)) (stageOf (Written WorkHistoryRows))
      (workHistory_create data)"
    unfolding workHistory_create_def
    by (rule staged_writeRequest)
       (simp add: andThen_def freshCuid_def throw_def modifyDatabase_def succeed_def
          split: sum.splits)
  then show ?thesis by simp
qed

lemma staged_workAchievement_create: "staged 2 2 (workAchievement_create datum)"
proof -
  have "staged (stageOf (Written WorkAchievementRows)) (stageOf (Written WorkAchievementRows))
      (workAchievement_create datum)"
    unfolding workAchievement_create_def
    by (rule staged_writeRequest)
       (cases datum, simp add: insertWorkAchievement_apply throw_def split: sum.splits)
  then show ?thesis by simp
qed

lemma staged_userSkill_update: "staged 4 4 (userSkill_update i h data)"
proof -
  have "staged (stageOf (Written UserSkillRows)) (stageOf (Written UserSkillRows))
      (userSkill_update i h data)"
    unfolding userSkill_update_def
    by (rule staged_writeRequest) (simp split: option.splits sum.splits)
  then show ?thesis by simp
qed

lemma staged_userSkill_create: "staged 4 4 (userSkill_create data)"
proof -
  have "staged (stageOf (Written UserSkillRows)) (stageOf (Written UserSkillRows))
      (userSkill_create data)"
    unfolding userSkill_create_def
    by (rule staged_writeRequest)
       (simp add: andThen_def freshCuid_def modifyDatabase_def throw_def split: sum.splits)
  then show ?thesis by simp
qed

lemma staged_linkSkill: "staged 4 4 (linkSkill userId workHistoryId exp normalizedSkill)"
  unfolding linkSkill_def userSkill_findFirst_def
  by (intro staged_andThen_same staged_readRequest)
     (auto intro!: staged_andThen_same staged_userSkill_update staged_userSkill_create
        staged_succeed split: option.splits)

lemma staged_processSkills: "staged 3 4 (processSkills normalizeSkills userId workHistoryId exp)"
proof -
  have c: "staged 3 3 (callService SkillsNormalized outcome)" for outcome :: "Failure + 'b"
    using staged_callService [of SkillsNormalized outcome] by simp
  show ?thesis
    unfolding processSkills_def Let_def
    by (auto intro!: staged_succeed staged_andThen [where mid = 3] c
        staged_mono [OF staged_forEach [OF staged_linkSkill], of 3 4])
qed

lemma staged_updateMatchingRecord:
  "staged 1 2 (updateMatchingRecord mergeWorkAchievements matchingRecord exp)"
proof -
  have c: "staged 1 1 (callService AchievementsMerged outcome)" for outcome :: "Failure + 'b"
    using staged_callService [of AchievementsMerged outcome] by simp
  have rest: "staged 2 2
      (andThen (workHistory_update i data)
         (\<lambda>_. andThen (forEach ds (\<lambda>desc. workAchievement_create (desc, h)))
                 (\<lambda>_. succeed h)))" for i data ds h
    by (intro staged_andThen_same staged_workHistory_update staged_forEach
        staged_workAchievement_create staged_succeed)
  show ?thesis
    unfolding updateMatchingRecord_def Let_def
  proof (rule staged_andThen [where mid = 1])
    show "staged 1 1 (callService AchievementsMerged
        (mergeWorkAchievements (map description (wh_achievements matchingRecord))
           (case exp_achievements exp of None \<Rightarrow> [] | Some as \<Rightarrow> as)))"
      by (rule c)
  next
    fix v :: "jsstring list"
    show "staged 1 2
      (andThen (workHistory_update (wh_id matchingRecord)
           \<lparr>data_companyName = None,
            data_jobTitle =
              Some (case exp_jobTitle exp of
                      None \<Rightarrow> jobTitle matchingRecord | Some t \<Rightarrow> t),
            data_startDate =
              Some (case exp_startDate exp of
                      None \<Rightarrow> startDate matchingRecord | Some d \<Rightarrow> d),
            data_endDate =
              Some (case exp_endDate exp of
                      None \<Rightarrow> endDate matchingRecord | Some d \<Rightarrow> Some d)\<rparr>)
         (\<lambda>_. andThen (forEach v (\<lambda>desc. workAchievement_create (desc, wh_id matchingRecord)))
                 (\<lambda>_. succeed (wh_id matchingRecord))))"
      by (rule staged_mono [OF rest]) simp_all
  qed simp_all
qed

lemma staged_createNewRecord: "staged 1 2 (createNewRecord userId exp)"
proof -
  have first: "staged 2 2 (\<lambda>w. workHistory_create (data w) w)" for data
    using staged_workHistory_create unfolding staged_def by blast
  have "staged 2 2 (createNewRecord userId exp)"
    unfolding createNewRecord_def Let_def
    by (intro staged_andThen_same first staged_forEach staged_workAchievement_create
        staged_succeed)
  then show ?thesis by (rule staged_mono) simp_all
qed

lemma processEntry_trace:
  "\<exists>evs. events (snd (processEntry toLowerCase mergeWorkAchievements normalizeSkills
       existingWorkHistory userId exp w)) = events w @ evs \<and> entryTrace evs"
proof -
  let ?rest = "\<lambda>u::unit.
      (let matchingRecord =
                find (\<lambda>existing. doWorkHistoryRecordsMatch toLowerCase existing exp)
                  existingWorkHistory
          in
          andThen
            (case matchingRecord of
               Some matching \<Rightarrow> updateMatchingRecord mergeWorkAchievements matching exp
             | None \<Rightarrow> createNewRecord userId exp)
            (\<lambda>workHistoryId. processSkills normalizeSkills userId workHistoryId exp))"
  have branch: "staged 1 2
      (case matchingRecord of
         Some matching \<Rightarrow> updateMatchingRecord mergeWorkAchievements matching exp
       | None \<Rightarrow> createNewRecord userId exp)" for matchingRecord
    by (cases matchingRecord) (simp_all only: option.case staged_updateMatchingRecord
        staged_createNewRecord)
  have skills: "staged 2 4 (processSkills normalizeSkills userId workHistoryId exp)"
    for workHistoryId
    by (rule staged_mono [OF staged_processSkills]) simp_all
  have "staged 1 4 (?rest ())"
    unfolding Let_def
    by (rule staged_andThen [where mid = 2, OF branch skills]) simp_all
  then obtain rest where
    "events (snd (?rest () (w\<lparr>events := events w @ [Matched]\<rparr>))) =
       events (w\<lparr>events := events w @ [Matched]\<rparr>) @ rest"
    and "sorted (map stageOf rest)" and "\<forall>e \<in> set rest. 1 \<le> stageOf e"
    unfolding staged_def by blast
  then have "events (snd (processEntry toLowerCase mergeWorkAchievements normalizeSkills
       existingWorkHistory userId exp w)) = events w @ (Matched # rest) \<and>
     entryTrace (Matched # rest)"
    by (simp add: processEntry_def andThen_def emit_def entryTrace_def list_all_iff)
  then show ?thesis by blast
qed


lemma forEach_entries:
  assumes "\<And>x w. \<exists>evs. events (snd (f x w)) = events w @ evs \<and> entryTrace evs"
  shows "\<exists>segments. events (snd (forEach xs f w)) = events w @ concat segments \<and>
     length segments \<le> length xs \<and>
     (\<forall>r. fst (forEach xs f w) = Inr r \<longrightarrow> length segments = length xs) \<and>
     (\<forall>seg \<in> set segments. entryTrace seg)"
proof (induction xs arbitrary: w)
  case Nil
  have "events (snd (forEach [] f w)) = events w @ concat []" by (simp add: succeed_def)
  then show ?case by fastforce
next
  case (Cons x xs)
  from assms [of x w] obtain evs where
    1: "events (snd (f x w)) = events w @ evs" and t: "entryTrace evs"
    by blast
  obtain r w1 where fx: "f x w = (r, w1)" by (cases "f x w")
  show ?case
  proof (cases r)
    case (Inl e)
    with fx 1 have "events (snd (forEach (x # xs) f w)) = events w @ concat [evs]"
      and "\<forall>r. fst (forEach (x # xs) f w) \<noteq> Inr r"
      by (simp_all add: andThen_def)
    with t show ?thesis by (intro exI [of _ "[evs]"]) simp
  next
    case (Inr v)
    from Cons.IH [of w1] obtain segments where
      2: "events (snd (forEach xs f w1)) = events w1 @ concat segments"
      and l: "length segments \<le> length xs"
      and c: "\<forall>r. fst (forEach xs f w1) = Inr r \<longrightarrow> length segments = length xs"
      and s: "\<forall>seg \<in> set segments. entryTrace seg"
      by blast
    from fx Inr have step: "forEach (x # xs) f w = forEach xs f w1"
      by (simp add: andThen_def)
    from fx 1 2 have "events (snd (forEach (x # xs) f w)) = events w @ concat (evs # segments)"
      unfolding step by simp
    moreover from l have "length (evs # segments) \<le> length (x # xs)" by simp
    moreover from c have
      "\<forall>r. fst (forEach (x # xs) f w) = Inr r \<longrightarrow> length (evs # segments) = length (x # xs)"
      unfolding step by simp
    moreover from s t have "\<forall>seg \<in> set (evs # segments). entryTrace seg" by simp
    ultimately show ?thesis by blast
  qed
qed

lemmas process_eval = processWorkExperience_def processEntry_def Let_def andThen_def emit_def
  workHistory_findMany_withAchievements_def readRequest_def request_apply withAchievements_def
  achievementsOf_def doWorkHistoryRecordsMatch_def removeWhitespace_def asciiLower_def
  isWhiteSpace_def monthNumber_def strictEquals_def updateMatchingRecord_def callService_def
  workHistory_update_apply writeRequest_def storedColumns_def storedOptional_def
  storedText_def storedDate_def assignColumns_def allColumns_def hasNul_def
  isHighSurrogate_def isLowSurrogate_def exampleDateColumn_def workAchievement_create_def
  insertWorkAchievement_apply createNewRecord_def workHistory_create_def freshCuid_def
  modifyDatabase_def processSkills_def trim_def linkSkill_def userSkill_findFirst_def
  userSkill_create_def usedAt_def interpolate_def variantSuffix_def succeed_def throw_def
  exampleWorld_def acmeHistory_def
  storedAchievement_def returningEntry_def newEntry_def exampleMerge_def exampleNormalize_def
  str_def

lemma processWorkExperience_example:
  "events (snd (processWorkExperience asciiLower exampleMerge exampleNormalize
       [returningEntry, newEntry] 7 exampleWorld)) =
     [Matched, AchievementsMerged, Written WorkHistoryRows, Written WorkAchievementRows,
      SkillsNormalized, Written UserSkillRows, Matched, Written WorkHistoryRows]"
  by (simp add: process_eval)

text \<open>
  A batch of two entries, the first matching a stored record: the skills of the first
  entry are normalized after its achievements were merged and written, and the second
  entry is matched after the first was written.
\<close>

theorem processWorkExperience_not_in_specified_order:
  "events (snd (processWorkExperience asciiLower exampleMerge exampleNormalize
       [returningEntry, newEntry] 7 exampleWorld)) =
     [Matched, AchievementsMerged, Written WorkHistoryRows, Written WorkAchievementRows,
      SkillsNormalized, Written UserSkillRows, Matched, Written WorkHistoryRows] \<and>
   \<not> sorted (map specifiedStage
     (events (snd (processWorkExperience asciiLower exampleMerge exampleNormalize
       [returningEntry, newEntry] 7 exampleWorld))))"
  by (simp add: processWorkExperience_example)

lemma processWorkExperience_segments:
  "\<exists>segments.
     events (snd (processWorkExperience toLowerCase mergeWorkAchievements normalizeSkills
        workExperience userId w)) = events w @ concat segments \<and>
     length segments \<le> length workExperience \<and>
     (fst (processWorkExperience toLowerCase mergeWorkAchievements normalizeSkills
        workExperience userId w) = Inr () \<longrightarrow> length segments = length workExperience) \<and>
     (\<forall>seg \<in> set segments. entryTrace seg)"
proof -
  let ?w0 = "w\<lparr>requestsIssued := Suc (requestsIssued w)\<rparr>"
  show ?thesis
  proof (cases "failing w (requestsIssued w)")
    case True
    then have "events (snd (processWorkExperience toLowerCase mergeWorkAchievements
        normalizeSkills workExperience userId w)) = events w @ concat []"
      and "fst (processWorkExperience toLowerCase mergeWorkAchievements
        normalizeSkills workExperience userId w) \<noteq> Inr ()"
      by (simp_all add: processWorkExperience_def andThen_def
          workHistory_findMany_withAchievements_def readRequest_def request_apply)
    then show ?thesis by (intro exI [of _ "[]"]) simp
  next
    case False
    let ?existing = "map (withAchievements (database w))
        (filter (\<lambda>wh. wh_userId wh = userId) (workHistoryTable (database w)))"
    let ?f = "processEntry toLowerCase mergeWorkAchievements normalizeSkills ?existing userId"
    from False have unfold: "processWorkExperience toLowerCase mergeWorkAchievements
        normalizeSkills workExperience userId w = forEach workExperience ?f ?w0"
      by (simp add: processWorkExperience_def andThen_def
          workHistory_findMany_withAchievements_def readRequest_def request_apply)
    from forEach_entries [of ?f workExperience ?w0, OF processEntry_trace]
    obtain segments where
      "events (snd (forEach workExperience ?f ?w0)) = events ?w0 @ concat segments"
      "length segments \<le> length workExperience"
      "\<forall>r. fst (forEach workExperience ?f ?w0) = Inr r \<longrightarrow>
         length segments = length workExperience"
      "\<forall>seg \<in> set segments. entryTrace seg"
      by blast
    then show ?thesis unfolding unfold by (intro exI [of _ segments]) simp
  qed
qed

lemma unique_length_le:
  "length (uniqueAchievements (removeExactDuplicateWorkAchievements toLowerCase xs)) \<le> length xs"
proof -
  have "length (filter (\<lambda>i. \<not> seenBefore toLowerCase xs i) [0..<length xs]) \<le>
        length [0..<length xs]"
    by (rule length_filter_le)
  then show ?thesis
    by (simp add: removeExactDuplicateWorkAchievements_def dedup_loop_invariant)
qed

lemma deduplicate_full_run:
  assumes run: "deduplicateAndMergeWorkAchievements toLowerCase llm userId h False w = (Inr r, w')"
    and many: "1 < length (uniqueAchievements (removeExactDuplicateWorkAchievements toLowerCase
        (sort_key createdAtTime (achievementsOf (database w) h))))"
  shows "database w' = (database w)\<lparr>workAchievementTable :=
      filter (\<lambda>a. wa_workHistoryId a \<noteq> h) (workAchievementTable (database w)) @
      newAchievementRows w h
        (map toWellFormed
        (out_finalAchievements
           (mergeWorkAchievementsWithAI
              (uniqueAchievements (removeExactDuplicateWorkAchievements toLowerCase
                 (sort_key createdAtTime (achievementsOf (database w) h))))
              llm)))\<rparr>"
proof -
  let ?achs = "sort_key createdAtTime (achievementsOf (database w) h)"
  let ?unique = "uniqueAchievements (removeExactDuplicateWorkAchievements toLowerCase ?achs)"
  have "length ?unique \<le> length ?achs"
    by (rule unique_length_le)
  with many have big: "\<not> length ?achs \<le> 1" by simp
  from run many big show ?thesis
    by (auto simp: deduplicateAndMergeWorkAchievements_def andThen_def
        workHistory_findFirst_apply workAchievement_findMany_apply throw_def succeed_def Let_def
        achievementsOf_def transaction_def workAchievement_deleteMany_def
        workAchievement_createMany_apply writeRequest_def emit_def request_apply
        modifyDatabase_def awaitMergeWorkAchievementsWithAI_resolves newAchievementRows_def
        split: option.splits if_splits)
qed


text \<open>
  With more than one achievement left after the exact duplicates are removed, a call that
  returns has called \<open>llm.invoke\<close> once, whether it is a dry run or not.
\<close>

lemma deduplicate_invokes_llm:
  assumes run: "deduplicateAndMergeWorkAchievements toLowerCase llm userId h dryRun w = (Inr r, w')"
    and many: "1 < length (uniqueAchievements (removeExactDuplicateWorkAchievements toLowerCase
        (sort_key createdAtTime (achievementsOf (database w) h))))"
  shows "llmInvocations w' = Suc (llmInvocations w)"
proof -
  let ?achs = "sort_key createdAtTime (achievementsOf (database w) h)"
  let ?unique = "uniqueAchievements (removeExactDuplicateWorkAchievements toLowerCase ?achs)"
  have "length ?unique \<le> length ?achs"
    by (rule unique_length_le)
  with many have big: "\<not> length ?achs \<le> 1" by simp
  from run many big show ?thesis
    by (auto simp: deduplicateAndMergeWorkAchievements_def andThen_def
        workHistory_findFirst_apply workAchievement_findMany_apply throw_def succeed_def Let_def
        achievementsOf_def transaction_def workAchievement_deleteMany_def
        workAchievement_createMany_apply writeRequest_def emit_def request_apply
        modifyDatabase_def awaitMergeWorkAchievementsWithAI_resolves
        split: option.splits if_splits)
qed

lemma deduplicate_example:
  "fst (deduplicateAndMergeWorkAchievements asciiLower (LlmResolves vagueResponse) 7 11 False
      mergeWorld) =
     Inr \<lparr>success = True, message = DeduplicatedAndMerged 0 1, originalCount = 2,
          finalCount = 1, res_exactDuplicatesRemoved = 0, similarGroupsMerged = 1,
          preview = [(str ''Did work'', Final)]\<rparr> \<and>
   1 < length (uniqueAchievements (removeExactDuplicateWorkAchievements asciiLower
        (sort_key createdAtTime (achievementsOf (database mergeWorld) 11))))"
  by (simp add: deduplicateAndMergeWorkAchievements_def andThen_def
      workHistory_findFirst_apply workAchievement_findMany_apply throw_def succeed_def Let_def
      achievementsOf_def transaction_def workAchievement_deleteMany_def
      workAchievement_createMany_def writeRequest_def emit_def request_apply modifyDatabase_def
      insertWorkAchievement_apply removeExactDuplicateWorkAchievements_def dedupStep_def
      trim_def asciiLower_def isWhiteSpace_def createdAtTime_def
      awaitMergeWorkAchievementsWithAI_resolves storedText_def hasNul_def
      mergeWorkAchievementsWithAI_def tryMerge_def vagueResponse_def upto.simps
      mergeWorld_def acmeHistory_def acmeDuplicate_def storedAchievement_def str_def)

text \<open>
  C6, amended. \<open>processWorkExperience\<close> handles the entries of a batch one after the
  other, as many as the batch has when it returns and no more when it throws. For each
  entry it matches the entry against the existing records first, then merges the
  achievements (for an entry that matched), then writes the work history and the
  achievements, then normalizes the skills, and writes the user skills last.
  \<open>deduplicateAndMergeWorkAchievements\<close> is a call of its own for one stored work
  history: when it runs to its end with more than one achievement left after the exact
  duplicates are removed, what it stores for the work history is the result of the merge
  step applied to the result of the duplicate removal, as the text column keeps it, which
  is that result itself when its descriptions are well formed.
\<close>

theorem workflow_stage_order:
  "(\<exists>segments.
      events (snd (processWorkExperience toLowerCase mergeWorkAchievements normalizeSkills
         workExperience userId w)) = events w @ concat segments \<and>
      length segments \<le> length workExperience \<and>
      (fst (processWorkExperience toLowerCase mergeWorkAchievements normalizeSkills
         workExperience userId w) = Inr () \<longrightarrow> length segments = length workExperience) \<and>
      (\<forall>seg \<in> set segments. entryTrace seg)) \<and>
   (fst (deduplicateAndMergeWorkAchievements toLowerCase llm userId h False w) = Inr r \<and>
    1 < length (uniqueAchievements (removeExactDuplicateWorkAchievements toLowerCase
          (sort_key createdAtTime (achievementsOf (database w) h)))) \<longrightarrow>
      achievementsOf
        (database (snd (deduplicateAndMergeWorkAchievements toLowerCase llm userId h False w))) h =
      newAchievementRows w h
        (map toWellFormed
        (out_finalAchievements
           (mergeWorkAchievementsWithAI
              (uniqueAchievements (removeExactDuplicateWorkAchievements toLowerCase
                 (sort_key createdAtTime (achievementsOf (database w) h))))
              llm)))) \<and>
   (fst (deduplicateAndMergeWorkAchievements toLowerCase llm userId h False w) = Inr r \<and>
    1 < length (uniqueAchievements (removeExactDuplicateWorkAchievements toLowerCase
          (sort_key createdAtTime (achievementsOf (database w) h)))) \<and>
    list_all isWellFormed
      (out_finalAchievements
         (mergeWorkAchievementsWithAI
            (uniqueAchievements (removeExactDuplicateWorkAchievements toLowerCase
               (sort_key createdAtTime (achievementsOf (database w) h))))
            llm)) \<longrightarrow>
      achievementsOf
        (database (snd (deduplicateAndMergeWorkAchievements toLowerCase llm userId h False w))) h =
      newAchievementRows w h
        (out_finalAchievements
           (mergeWorkAchievementsWithAI
              (uniqueAchievements (removeExactDuplicateWorkAchievements toLowerCase
                 (sort_key createdAtTime (achievementsOf (database w) h))))
              llm)))"
proof (intro conjI impI)
  show "\<exists>segments.
      events (snd (processWorkExperience toLowerCase mergeWorkAchievements normalizeSkills
         workExperience userId w)) = events w @ concat segments \<and>
      length segments \<le> length workExperience \<and>
      (fst (processWorkExperience toLowerCase mergeWorkAchievements normalizeSkills
         workExperience userId w) = Inr () \<longrightarrow> length segments = length workExperience) \<and>
      (\<forall>seg \<in> set segments. entryTrace seg)"
    by (rule processWorkExperience_segments)
next
  assume a: "fst (deduplicateAndMergeWorkAchievements toLowerCase llm userId h False w) = Inr r \<and>
    1 < length (uniqueAchievements (removeExactDuplicateWorkAchievements toLowerCase
          (sort_key createdAtTime (achievementsOf (database w) h))))"
  obtain res w' where eq:
    "deduplicateAndMergeWorkAchievements toLowerCase llm userId h False w = (res, w')"
    by (cases "deduplicateAndMergeWorkAchievements toLowerCase llm userId h False w")
  with a have run: "deduplicateAndMergeWorkAchievements toLowerCase llm userId h False w = (Inr r, w')"
    by simp
  from a have many: "1 < length (uniqueAchievements (removeExactDuplicateWorkAchievements
      toLowerCase (sort_key createdAtTime (achievementsOf (database w) h))))"
    by simp
  show "achievementsOf
        (database (snd (deduplicateAndMergeWorkAchievements toLowerCase llm userId h False w))) h =
      newAchievementRows w h
        (map toWellFormed
        (out_finalAchievements
           (mergeWorkAchievementsWithAI
              (uniqueAchievements (removeExactDuplicateWorkAchievements toLowerCase
                 (sort_key createdAtTime (achievementsOf (database w) h))))
              llm)))"
    unfolding run snd_conv deduplicate_full_run [OF run many]
    by (simp add: achievementsOf_def filter_own_newAchievementRows filter_own_of_others)
next
  assume a: "fst (deduplicateAndMergeWorkAchievements toLowerCase llm userId h False w) = Inr r \<and>
    1 < length (uniqueAchievements (removeExactDuplicateWorkAchievements toLowerCase
          (sort_key createdAtTime (achievementsOf (database w) h)))) \<and>
    list_all isWellFormed
      (out_finalAchievements
         (mergeWorkAchievementsWithAI
            (uniqueAchievements (removeExactDuplicateWorkAchievements toLowerCase
               (sort_key createdAtTime (achievementsOf (database w) h))))
            llm))"
  obtain res w' where eq:
    "deduplicateAndMergeWorkAchievements toLowerCase llm userId h False w = (res, w')"
    by (cases "deduplicateAndMergeWorkAchievements toLowerCase llm userId h False w")
  with a have run: "deduplicateAndMergeWorkAchievements toLowerCase llm userId h False w = (Inr r, w')"
    by simp
  from a have many: "1 < length (uniqueAchievements (removeExactDuplicateWorkAchievements
      toLowerCase (sort_key createdAtTime (achievementsOf (database w) h))))"
    by simp
  from a have fixed: "map toWellFormed
      (out_finalAchievements
         (mergeWorkAchievementsWithAI
            (uniqueAchievements (removeExactDuplicateWorkAchievements toLowerCase
               (sort_key createdAtTime (achievementsOf (database w) h))))
            llm)) =
      out_finalAchievements
         (mergeWorkAchievementsWithAI
            (uniqueAchievements (removeExactDuplicateWorkAchievements toLowerCase
               (sort_key createdAtTime (achievementsOf (database w) h))))
            llm)"
    by (simp add: map_toWellFormed_fixed)
  show "achievementsOf
        (database (snd (deduplicateAndMergeWorkAchievements toLowerCase llm userId h False w))) h =
      newAchievementRows w h
        (out_finalAchievements
           (mergeWorkAchievementsWithAI
              (uniqueAchievements (removeExactDuplicateWorkAchievements toLowerCase
                 (sort_key createdAtTime (achievementsOf (database w) h))))
              llm))"
    unfolding run snd_conv deduplicate_full_run [OF run many] fixed
    by (simp add: achievementsOf_def filter_own_newAchievementRows filter_own_of_others)
qed

theorem workflow_stage_order_witness:
  "(\<exists>segments.
     [Matched, AchievementsMerged, Written WorkHistoryRows, Written WorkAchievementRows,
      SkillsNormalized, Written UserSkillRows, Matched, Written WorkHistoryRows] =
       concat segments \<and>
     length segments \<le> 2 \<and> (\<forall>seg \<in> set segments. entryTrace seg)) \<and>
   map description (achievementsOf
     (database (snd (deduplicateAndMergeWorkAchievements asciiLower (LlmResolves vagueResponse)
        7 11 False mergeWorld))) 11) = [str ''Did work'']"
proof -
  let ?r = "\<lparr>success = True, message = DeduplicatedAndMerged 0 1, originalCount = 2,
          finalCount = 1, res_exactDuplicatesRemoved = 0, similarGroupsMerged = 1,
          preview = [(str ''Did work'', Final)]\<rparr>"
  note inst = workflow_stage_order
    [of asciiLower exampleMerge exampleNormalize "[returningEntry, newEntry]" 7 exampleWorld]
  have ev: "events exampleWorld = []" by (simp add: exampleWorld_def)
  from inst obtain segments where
    a: "events (snd (processWorkExperience asciiLower exampleMerge exampleNormalize
       [returningEntry, newEntry] 7 exampleWorld)) = events exampleWorld @ concat segments"
    and b: "length segments \<le> length [returningEntry, newEntry]"
    and d: "\<forall>seg \<in> set segments. entryTrace seg"
    by blast
  from a have "[Matched, AchievementsMerged, Written WorkHistoryRows, Written WorkAchievementRows,
      SkillsNormalized, Written UserSkillRows, Matched, Written WorkHistoryRows] =
       concat segments"
    by (simp add: processWorkExperience_example ev)
  moreover from b have "length segments \<le> 2" by simp
  ultimately have 1: "\<exists>segments.
     [Matched, AchievementsMerged, Written WorkHistoryRows, Written WorkAchievementRows,
      SkillsNormalized, Written UserSkillRows, Matched, Written WorkHistoryRows] =
       concat segments \<and>
     length segments \<le> 2 \<and> (\<forall>seg \<in> set segments. entryTrace seg)"
    using d by blast
  have 3: "out_finalAchievements
           (mergeWorkAchievementsWithAI
              (uniqueAchievements (removeExactDuplicateWorkAchievements asciiLower
                 (sort_key createdAtTime (achievementsOf (database mergeWorld) 11))))
              (LlmResolves vagueResponse)) = [str ''Did work'']"
    by (simp add: achievementsOf_def removeExactDuplicateWorkAchievements_def dedupStep_def
      trim_def asciiLower_def isWhiteSpace_def createdAtTime_def
      mergeWorkAchievementsWithAI_def tryMerge_def vagueResponse_def upto.simps
      mergeWorld_def storedAchievement_def str_def)
  have wellFormed: "list_all isWellFormed
      (out_finalAchievements
           (mergeWorkAchievementsWithAI
              (uniqueAchievements (removeExactDuplicateWorkAchievements asciiLower
                 (sort_key createdAtTime (achievementsOf (database mergeWorld) 11))))
              (LlmResolves vagueResponse)))"
    unfolding 3 by (simp add: str_def isHighSurrogate_def isLowSurrogate_def)
  from workflow_stage_order
    [of asciiLower exampleMerge exampleNormalize "[]" 7 mergeWorld
      "LlmResolves vagueResponse" 11 ?r]
    deduplicate_example wellFormed
  have "achievementsOf
        (database (snd (deduplicateAndMergeWorkAchievements asciiLower (LlmResolves vagueResponse)
           7 11 False mergeWorld))) 11 =
      newAchievementRows mergeWorld 11
        (out_finalAchievements
           (mergeWorkAchievementsWithAI
              (uniqueAchievements (removeExactDuplicateWorkAchievements asciiLower
                 (sort_key createdAtTime (achievementsOf (database mergeWorld) 11))))
              (LlmResolves vagueResponse)))"
    by blast
  then have 2: "map description (achievementsOf
     (database (snd (deduplicateAndMergeWorkAchievements asciiLower (LlmResolves vagueResponse)
        7 11 False mergeWorld))) 11) =
     out_finalAchievements
           (mergeWorkAchievementsWithAI
              (uniqueAchievements (removeExactDuplicateWorkAchievements asciiLower
                 (sort_key createdAtTime (achievementsOf (database mergeWorld) 11))))
              (LlmResolves vagueResponse))"
    by (simp add: description_newAchievementRows)
  from 1 2 3 show ?thesis by simp
qed

end
